theory Spec2Isabelle
  imports Main "HOL-Library.Sublist"
begin

section \<open>Data model of mypy/typeanal.py\<close>

text \<open>
  The types that \<^verbatim>\<open>typeanal.py\<close> imports from \<^verbatim>\<open>mypy.types\<close> and
  \<^verbatim>\<open>mypy.nodes\<close>, with the attributes the analyser reads or writes. Line and column
  numbers are provenance for diagnostics only and are left out of every node.
\<close>

datatype type_of_any =
  explicit | from_unimported_type | from_omitted_generics | from_error | special_form

datatype arg_kind = ARG_POS | ARG_OPT | ARG_STAR | ARG_NAMED | ARG_STAR2 | ARG_NAMED_OPT

datatype literal_value = LitInt int | LitStr string | LitBool bool

datatype error_code = TYPE_ARG | VALID_TYPE | SYNTAX

text \<open>
  A \<^verbatim>\<open>TypeInfo\<close> is shared by reference in Python. Its immutable attributes are kept
  in a record; its two type-valued attributes \<^verbatim>\<open>tuple_type\<close> and
  \<^verbatim>\<open>typeddict_type\<close> (which point back at instances of the class itself) are read
  through the environment of the analyser. \<^verbatim>\<open>is_fake\<close> marks the falsy
  \<^verbatim>\<open>FakeInfo\<close>.
\<close>

record type_info =
  info_fullname :: string
  info_name :: string
  type_vars :: "string list"
  defn_type_vars :: "string list"
  is_enum :: bool
  is_fake :: bool

datatype ty =
    UnboundType (name: string) (args: "ty list") (optional: bool) (empty_tuple_index: bool)
      (original_str_expr: "string option") (original_str_fallback: "string option")
  | AnyType (type_of_any: type_of_any) (missing_import_name: "string option")
  | NoneType
  | UninhabitedType (is_noreturn: bool)
  | DeletedType
  | TypeVarType (tv_def: tvar_def)
  | InstanceType (inst: inst)
  | TupleType (items: "ty list") (partial_fallback: inst) (implicit: bool)
  | TypedDictType (td_items: "(string \<times> ty) list") (required_keys: "string set")
      (td_fallback: inst)
  | CallableType (arg_types: "ty list") (arg_kinds: "arg_kind list")
      (arg_names: "string option list") (ret_type: ty) (fallback: inst)
      (variables: "tvar_def list") (is_ellipsis_args: bool)
  | UnionType (items: "ty list")
  | LiteralType (lit_value: literal_value) (lit_fallback: inst)
  | TypeType (item: ty)
  | StarType (star_type: ty)
  | TypeList (items: "ty list")
  | CallableArgument (arg_typ: ty) (arg_name: "string option") (arg_constructor: "string option")
  | EllipsisType
  | RawExpressionType (literal_value: "literal_value option") (base_type_name: string)
      (raw_note: "string option")
  | PartialType
  | PlaceholderType (ph_fullname: "string option") (args: "ty list")
and inst =
    Instance (type: type_info) (inst_args: "ty list") (invalid: bool)
      (last_known_value: "ty option")
and tvar_def =
    TypeVarDef (tv_name: string) (tv_fullname: string) (tv_id: int) (tv_values: "ty list")
      (tv_upper_bound: ty) (tv_variance: int)

text \<open>\<^verbatim>\<open>Instance(typ, args)\<close> with the constructor's defaults for the other attributes.\<close>

definition new_Instance :: "type_info \<Rightarrow> ty list \<Rightarrow> inst" where
  "new_Instance info a = Instance info a False None"

text \<open>Python's \<^verbatim>\<open>xs.index(x)\<close> for an element that is present: its first position.\<close>

primrec index_of :: "'a list \<Rightarrow> 'a \<Rightarrow> nat" where
  "index_of [] x = 0"
| "index_of (y # ys) x = (if y = x then 0 else Suc (index_of ys x))"

text \<open>Python's \<^verbatim>\<open>str(n)\<close> for a natural number.\<close>

fun str_nat :: "nat \<Rightarrow> string" where
  "str_nat n =
     (if n < 10 then [''0123456789'' ! n]
      else str_nat (n div 10) @ [''0123456789'' ! (n mod 10)])"

declare str_nat.simps [simp del]

section \<open>Nullable wrapping\<close>

text \<open>
  Modelled from the spec: \<^verbatim>\<open>union_items\<close> of \<^verbatim>\<open>mypy.types\<close> is not among the
  sources. The spec's data model says that a union's member list is flattened (no member
  is itself a union), so the items of a union are the items of its members, and every
  other type is its own single item.
\<close>

fun union_items :: "ty \<Rightarrow> ty list" where
  "union_items (UnionType its) = concat (map union_items its)"
| "union_items t = [t]"

text \<open>
  Modelled from the spec: the constructor \<^verbatim>\<open>UnionType(items)\<close> of \<^verbatim>\<open>mypy.types\<close> is
  not among the sources. The spec's data model keeps the member list of a union flattened,
  so the constructor builds the union of the items of the given members, in their order;
  it removes no duplicates.
\<close>

definition new_UnionType :: "ty list \<Rightarrow> ty" where
  "new_UnionType its = UnionType (concat (map union_items its))"

definition isinstance_NoneType :: "ty \<Rightarrow> bool" where
  "isinstance_NoneType t = (case t of NoneType \<Rightarrow> True | _ \<Rightarrow> False)"

definition isinstance_UnionType :: "ty \<Rightarrow> bool" where
  "isinstance_UnionType t = (case t of UnionType _ \<Rightarrow> True | _ \<Rightarrow> False)"

definition isinstance_Instance :: "ty \<Rightarrow> bool" where
  "isinstance_Instance t = (case t of InstanceType _ \<Rightarrow> True | _ \<Rightarrow> False)"

definition make_optional_type :: "ty \<Rightarrow> ty" where
  "make_optional_type t =
     (if isinstance_NoneType t then t
      else if isinstance_UnionType t then
        UnionType ([item \<leftarrow> union_items t. \<not> isinstance_NoneType item] @ [NoneType])
      else UnionType [t, NoneType])"


section \<open>Diagnostics and the parts of the code base the analyser calls\<close>

text \<open>
  Everything the analyser tells its driver, in call order: \<^verbatim>\<open>fail(msg, ctx, code=...)\<close>,
  \<^verbatim>\<open>note(msg, ctx)\<close>, \<^verbatim>\<open>api.defer()\<close> and \<^verbatim>\<open>api.record_incomplete_ref()\<close>.
  The context argument of a diagnostic only carries a position and is left out.
\<close>

datatype event = Fail string "error_code option" | Note string | Defer | RecordIncompleteRef

text \<open>The exceptions the analysed code can raise.\<close>

datatype exn = AssertionError string | IndexError | KeyError | AttributeError | RecursionError

text \<open>
  Tables, message constants and helpers of \<^verbatim>\<open>mypy.nodes\<close>, \<^verbatim>\<open>mypy.messages\<close>,
  \<^verbatim>\<open>mypy.message_registry\<close> and \<^verbatim>\<open>mypy.types\<close> that the sources import but do not
  contain. They are parameters of the model: \<^verbatim>\<open>nongen_builtins\<close> is the table itself,
  each message constant is its \<^verbatim>\<open>format\<close> method, \<^verbatim>\<open>check_arg_names\<close> and
  \<^verbatim>\<open>check_arg_kinds\<close> give the diagnostics the shared validator reports,
  \<^verbatim>\<open>simple_name\<close> maps the base type name of a raw expression to its short name, and
  \<^verbatim>\<open>py_repr\<close> is Python's \<^verbatim>\<open>repr\<close> on a literal value.
\<close>

record externals =
  nongen_builtins :: "string \<rightharpoonup> string"
  format_type_bare :: "ty \<Rightarrow> string"
  quote_type_string :: "string \<Rightarrow> string"
  IMPLICIT_GENERIC_ANY_BUILTIN :: "string \<Rightarrow> string"
  BARE_GENERIC :: "string \<Rightarrow> string"
  INVALID_TYPE_RAW_ENUM_VALUE :: "string \<Rightarrow> string \<Rightarrow> string"
  check_arg_names :: "string option list \<Rightarrow> event list"
  check_arg_kinds :: "arg_kind list \<Rightarrow> event list"
  simple_name :: "string \<Rightarrow> string"
  py_repr :: "literal_value option \<Rightarrow> string"

section \<open>Arity fixup\<close>

definition get_omitted_any ::
  "'x externals_scheme \<Rightarrow> bool \<Rightarrow> ty \<Rightarrow> string option \<Rightarrow> ty option \<Rightarrow> ty \<times> event list" where
  "get_omitted_any x disallow_any typ0 fullname unexpanded_type =
     (if disallow_any then
        (case (case fullname of None \<Rightarrow> None | Some f \<Rightarrow> nongen_builtins x f) of
           Some alternative \<Rightarrow>
             (AnyType from_error None,
              [Fail (IMPLICIT_GENERIC_ANY_BUILTIN x alternative) (Some TYPE_ARG)])
         | None \<Rightarrow>
             (let typ1 = (case unexpanded_type of Some u \<Rightarrow> u | None \<Rightarrow> typ0);
                  type_str = (case typ1 of UnboundType n _ _ _ _ _ \<Rightarrow> n
                              | _ \<Rightarrow> format_type_bare x typ1)
              in (AnyType from_error None,
                  [Fail (BARE_GENERIC x (quote_type_string x type_str)) (Some TYPE_ARG)])))
      else (AnyType from_omitted_generics None, []))"

text \<open>
  \<^verbatim>\<open>fix_instance\<close> mutates its argument and returns nothing; the model returns the
  instance after the call and the diagnostics it reported. \<^verbatim>\<open>expects_phrase\<close> is the
  string \<^verbatim>\<open>s\<close> of the source and \<^verbatim>\<open>given_phrase\<close> its \<^verbatim>\<open>act\<close>.
\<close>

definition expects_phrase :: "nat \<Rightarrow> string" where
  "expects_phrase n =
     (if n = 0 then ''no type arguments''
      else if n = 1 then ''1 type argument''
      else str_nat n @ '' type arguments'')"

definition given_phrase :: "nat \<Rightarrow> string" where
  "given_phrase m = (if str_nat m = ''0'' then ''none'' else str_nat m)"

definition fix_instance ::
  "'x externals_scheme \<Rightarrow> inst \<Rightarrow> bool \<Rightarrow> bool \<Rightarrow> ty option \<Rightarrow> inst \<times> event list" where
  "fix_instance x t disallow_any use_generic_error unexpanded_type =
     (if length (inst_args t) = 0 then
        (let fullname = (if use_generic_error then None else Some (info_fullname (type t)));
             (any_type, evs) =
               get_omitted_any x disallow_any (InstanceType t) fullname unexpanded_type
         in (Instance (type t) (replicate (length (type_vars (type t))) any_type)
               (invalid t) (last_known_value t), evs))
      else
        (let n = length (type_vars (type t));
             s = expects_phrase n;
             act = given_phrase (length (inst_args t))
         in (Instance (type t) (map (\<lambda>_. AnyType from_error None) (type_vars (type t)))
               True (last_known_value t),
             [Fail (''\"'' @ info_name (type t) @ ''\" expects '' @ s @ '', but '' @ act
                      @ '' given'')
                (Some TYPE_ARG)])))"

section \<open>Alias expansion\<close>

text \<open>
  Modelled from the spec: \<^verbatim>\<open>get_typ_args\<close> and \<^verbatim>\<open>set_typ_args\<close> of
  \<^verbatim>\<open>mypy.types\<close> are not among the sources. Following the spec's data model and its
  alias expansion engine (substitution inside nested generics and callables), the
  variants that carry type arguments are the class instance (its argument list), the
  tuple (its items), the union (its members) and the callable (its argument types
  followed by its return type); \<^verbatim>\<open>set_typ_args\<close> builds the type again with these
  replaced: an instance of the same class with the new arguments and the constructor's
  defaults for its other attributes, a union by its constructor, which flattens, and a
  tuple and a callable as copies; every other variant has no type arguments and is
  returned as it is.
\<close>

definition get_typ_args :: "ty \<Rightarrow> ty list" where
  "get_typ_args tp =
     (case tp of
        InstanceType i \<Rightarrow> inst_args i
      | TupleType its _ _ \<Rightarrow> its
      | UnionType its \<Rightarrow> its
      | CallableType ats _ _ rt _ _ _ \<Rightarrow> ats @ [rt]
      | _ \<Rightarrow> [])"

definition set_typ_args :: "ty \<Rightarrow> ty list \<Rightarrow> ty" where
  "set_typ_args tp new_args =
     (case tp of
        InstanceType i \<Rightarrow> InstanceType (new_Instance (type i) new_args)
      | TupleType _ fb imp \<Rightarrow> TupleType new_args fb imp
      | UnionType _ \<Rightarrow> new_UnionType new_args
      | CallableType _ ks ns _ fb vs ell \<Rightarrow>
          CallableType (butlast new_args) ks ns (last new_args) fb vs ell
      | _ \<Rightarrow> tp)"

text \<open>Collect the results of a loop that stops at the first exception.\<close>

primrec sequence_sum :: "('e + 'a) list \<Rightarrow> 'e + 'a list" where
  "sequence_sum [] = Inr []"
| "sequence_sum (r # rs) =
     (case r of
        Inl e \<Rightarrow> Inl e
      | Inr v \<Rightarrow> (case sequence_sum rs of Inl e \<Rightarrow> Inl e | Inr vs \<Rightarrow> Inr (v # vs)))"

text \<open>The name under which an argument can be an alias type variable.\<close>

definition tvar_name_of :: "ty \<Rightarrow> string option" where
  "tvar_name_of arg =
     (case arg of
        UnboundType n _ _ _ _ _ \<Rightarrow> Some n
      | TypeVarType d \<Rightarrow> Some (tv_name d)
      | _ \<Rightarrow> None)"

lemma size_get_typ_args: "a \<in> set (get_typ_args tp) \<Longrightarrow> size a < size tp"
proof (cases tp)
  case (InstanceType i)
  assume "a \<in> set (get_typ_args tp)"
  with InstanceType show ?thesis
    by (cases i) (auto simp: get_typ_args_def less_Suc_eq_le
        dest: size_list_estimation' [where f = size])
qed (auto simp: get_typ_args_def less_Suc_eq_le dest: size_list_estimation' [where f = size])

function replace_alias_tvars :: "ty \<Rightarrow> string list \<Rightarrow> ty list \<Rightarrow> exn + ty" where
  "replace_alias_tvars tp vars subs =
     (case sequence_sum
             (map (\<lambda>arg.
                     (case tvar_name_of arg of
                        None \<Rightarrow> replace_alias_tvars arg vars subs
                      | Some tvar \<Rightarrow>
                          if tvar \<noteq> [] \<and> tvar \<in> set vars then
                            (if index_of vars tvar < length subs
                             then Inr (subs ! index_of vars tvar) else Inl IndexError)
                          else replace_alias_tvars arg vars subs))
                (get_typ_args tp)) of
        Inl e \<Rightarrow> Inl e
      | Inr new_args \<Rightarrow> Inr (set_typ_args tp new_args))"
  by pat_completeness auto
termination
  by (relation "measure (\<lambda>(tp, vars, subs). size tp)") (auto simp: size_get_typ_args)

declare replace_alias_tvars.simps [simp del]

text \<open>
  \<^verbatim>\<open>set_any_tvars\<close>; \<^verbatim>\<open>fail_given\<close> says whether the optional \<^verbatim>\<open>fail\<close>
  callback was passed.
\<close>

definition set_any_tvars ::
  "'x externals_scheme \<Rightarrow> ty \<Rightarrow> string list \<Rightarrow> bool \<Rightarrow> bool \<Rightarrow> bool \<Rightarrow> ty option
     \<Rightarrow> (exn + ty) \<times> event list" where
  "set_any_tvars x tp vars from_err disallow_any fail_given unexpanded_type =
     (let type_of_any = (if from_err \<or> disallow_any then from_error else from_omitted_generics)
      in if disallow_any \<and> \<not> fail_given then (Inl (AssertionError []), [])
         else
           (let evs =
                  (if disallow_any then
                     (let otype = (case unexpanded_type of Some u \<Rightarrow> u | None \<Rightarrow> tp);
                          type_str = (case otype of UnboundType n _ _ _ _ _ \<Rightarrow> n
                                      | _ \<Rightarrow> format_type_bare x otype)
                      in [Fail (BARE_GENERIC x (quote_type_string x type_str)) (Some TYPE_ARG)])
                   else []);
                any_type = AnyType type_of_any None
            in (replace_alias_tvars tp vars (replicate (length vars) any_type), evs)))"

definition expand_type_alias ::
  "'x externals_scheme \<Rightarrow> ty \<Rightarrow> string list \<Rightarrow> ty list \<Rightarrow> bool \<Rightarrow> ty option \<Rightarrow> bool
     \<Rightarrow> (exn + ty) \<times> event list" where
  "expand_type_alias x target alias_tvars actuals no_args unexpanded_type disallow_any =
     (let exp_len = length alias_tvars;
          act_len = length actuals
      in if exp_len > 0 \<and> act_len = 0 then
           set_any_tvars x target alias_tvars False disallow_any True unexpanded_type
         else if exp_len = 0 \<and> act_len = 0 then
           (if no_args then
              (case target of
                 InstanceType i \<Rightarrow> (Inr (InstanceType (new_Instance (type i) [])), [])
               | _ \<Rightarrow> (Inl (AssertionError []), []))
            else (Inr target, []))
         else if exp_len = 0 \<and> act_len > 0 \<and> isinstance_Instance target \<and> no_args then
           (Inr (InstanceType (new_Instance (type (inst target)) actuals)), [])
         else if act_len \<noteq> exp_len then
           (let ev = Fail (''Bad number of arguments for type alias, expected: ''
                            @ str_nat exp_len @ '', given: '' @ str_nat act_len) None;
                (r, evs) = set_any_tvars x target alias_tvars True False False None
            in (r, ev # evs))
         else
           (case replace_alias_tvars target alias_tvars actuals of
              Inl e \<Rightarrow> (Inl e, [])
            | Inr typ1 \<Rightarrow>
                (case typ1 of
                   InstanceType i \<Rightarrow>
                     if info_fullname (type i) = ''mypy_extensions.FlexibleAlias'' then
                       (if inst_args i = [] then (Inl IndexError, [])
                        else (Inr (last (inst_args i)), []))
                     else (Inr typ1, [])
                 | _ \<Rightarrow> (Inr typ1, []))))"


section \<open>Symbol table, type variable scope and analyser state\<close>

text \<open>
  The symbol nodes of \<^verbatim>\<open>mypy.nodes\<close> that the analyser tells apart, each with its
  \<^verbatim>\<open>name()\<close> and \<^verbatim>\<open>fullname()\<close>. A variable's \<^verbatim>\<open>info\<close> is the falsy
  \<^verbatim>\<open>FakeInfo\<close> when it is not a member of a class.
\<close>

datatype symbol_node =
    PlaceholderNode (nd_name: string) (nd_fullname: string) (becomes_typeinfo: bool)
  | TypeInfoNode (nd_info: type_info)
  | TypeAlias (nd_name: string) (nd_fullname: string) (alias_target: ty) (alias_tvars: "string list")
      (alias_no_args: bool)
  | Var (nd_name: string) (nd_fullname: string) (var_type: "ty option") (var_info: type_info)
  | TypeVarExpr (nd_name: string) (nd_fullname: string) (tve_values: "ty list")
      (tve_upper_bound: ty) (tve_variance: int)
  | FuncBase (nd_name: string) (nd_fullname: string)
  | Decorator (nd_name: string) (nd_fullname: string)
  | MypyFile (nd_name: string) (nd_fullname: string)
  | OtherNode (nd_name: string) (nd_fullname: string)

definition node_fullname :: "symbol_node \<Rightarrow> string" where
  "node_fullname n = (case n of TypeInfoNode info \<Rightarrow> info_fullname info | _ \<Rightarrow> nd_fullname n)"

definition node_name :: "symbol_node \<Rightarrow> string" where
  "node_name n = (case n of TypeInfoNode info \<Rightarrow> info_name info | _ \<Rightarrow> nd_name n)"

definition isinstance_TypeVarExpr :: "symbol_node option \<Rightarrow> bool" where
  "isinstance_TypeVarExpr n = (case n of Some (TypeVarExpr _ _ _ _ _) \<Rightarrow> True | _ \<Rightarrow> False)"

definition isinstance_PlaceholderNode :: "symbol_node option \<Rightarrow> bool" where
  "isinstance_PlaceholderNode n = (case n of Some (PlaceholderNode _ _ _) \<Rightarrow> True | _ \<Rightarrow> False)"

record symbol_table_node =
  kind :: int
  node :: "symbol_node option"
  fullname :: "string option"

text \<open>
  Modelled from the spec: the class \<^verbatim>\<open>TypeVarScope\<close> of \<^verbatim>\<open>mypy.tvar_scope\<close> is not
  among the sources. The spec describes a chain of nested binding frames that map the
  qualified name of a type variable to its binding record, with lookup from the innermost
  frame outwards and pushing of a child frame. A frame holds its own bindings, its parent
  and the counters from which a new binding takes its numeric id; \<^verbatim>\<open>method_frame\<close> makes
  a new object and \<^verbatim>\<open>bind_new\<close> changes the innermost frame only, so a frame is a value.
\<close>

datatype tvar_scope =
  TypeVarScope (scope: "(string \<times> tvar_def) list") (parent: "tvar_scope option")
    (func_id: int) (class_id: int) (is_class_scope: bool) (prohibited: "tvar_scope option")

fun get_binding :: "tvar_scope \<Rightarrow> string \<Rightarrow> tvar_def option" where
  "get_binding (TypeVarScope sc par fi ci ics pro) fname =
     (case map_of sc fname of
        Some d \<Rightarrow> Some d
      | None \<Rightarrow> (case par of Some p \<Rightarrow> get_binding p fname | None \<Rightarrow> None))"

fun allow_binding :: "tvar_scope \<Rightarrow> string \<Rightarrow> bool" where
  "allow_binding (TypeVarScope sc par fi ci ics pro) fname =
     (if fname \<in> fst ` set sc then False
      else if (case par of Some p \<Rightarrow> \<not> allow_binding p fname | None \<Rightarrow> False) then False
      else if (case pro of Some p \<Rightarrow> \<not> allow_binding p fname | None \<Rightarrow> False) then False
      else True)"

definition method_frame :: "tvar_scope \<Rightarrow> tvar_scope" where
  "method_frame s = TypeVarScope [] (Some s) (func_id s) (class_id s) False None"

definition update_binding :: "(string \<times> tvar_def) list \<Rightarrow> string \<Rightarrow> tvar_def \<Rightarrow> (string \<times> tvar_def) list" where
  "update_binding sc k d = (k, d) # [kv \<leftarrow> sc. fst kv \<noteq> k]"

definition bind_new :: "tvar_scope \<Rightarrow> string \<Rightarrow> symbol_node \<Rightarrow> tvar_scope" where
  "bind_new s nm tvar_expr =
     (let ci = (if is_class_scope s then class_id s + 1 else class_id s);
          fi = (if is_class_scope s then func_id s else func_id s - 1);
          i = (if is_class_scope s then ci else fi);
          d = TypeVarDef nm (node_fullname tvar_expr) i (tve_values tvar_expr)
                (tve_upper_bound tvar_expr) (tve_variance tvar_expr)
      in TypeVarScope (update_binding (scope s) (node_fullname tvar_expr) d) (parent s) fi ci
           (is_class_scope s) (prohibited s))"

text \<open>
  The mutable attributes of a \<^verbatim>\<open>TypeAnalyser\<close>, and the log of what it told its driver.
\<close>

record analyser =
  tvar_scope :: tvar_scope
  nesting_level :: int
  aliases_used :: "string set"
  events :: "event list"

text \<open>
  A method runs on the analyser state and either returns a value or raises; the state after
  a raise is the state at the raise.
\<close>

type_synonym 'a M = "analyser \<Rightarrow> (exn + 'a) \<times> analyser"

definition ret :: "'a \<Rightarrow> 'a M" where
  "ret v = (\<lambda>s. (Inr v, s))"

definition raise :: "exn \<Rightarrow> 'a M" where
  "raise e = (\<lambda>s. (Inl e, s))"

definition bnd :: "'a M \<Rightarrow> ('a \<Rightarrow> 'b M) \<Rightarrow> 'b M" where
  "bnd m f = (\<lambda>s. case m s of (Inl e, s') \<Rightarrow> (Inl e, s') | (Inr v, s') \<Rightarrow> f v s')"

definition modify :: "(analyser \<Rightarrow> analyser) \<Rightarrow> unit M" where
  "modify f = (\<lambda>s. (Inr (), f s))"

definition finally_do :: "'a M \<Rightarrow> (analyser \<Rightarrow> analyser) \<Rightarrow> 'a M" where
  "finally_do m f = (\<lambda>s. case m s of (r, s') \<Rightarrow> (r, f s'))"

definition lift_sum :: "exn + 'a \<Rightarrow> 'a M" where
  "lift_sum r = (\<lambda>s. (r, s))"

definition emit :: "event list \<Rightarrow> unit M" where
  "emit evs = modify (\<lambda>s. s\<lparr>events := events s @ evs\<rparr>)"

definition fail :: "string \<Rightarrow> error_code option \<Rightarrow> unit M" where
  "fail msg code = emit [Fail msg code]"

definition emit_note :: "string \<Rightarrow> unit M" where
  "emit_note msg = emit [Note msg]"

text \<open>
  What the analyser reads and never writes: the interface of the semantic analyser
  (\<^verbatim>\<open>api\<close>), the plugin, the options, the constructor's flags, further helpers of
  \<^verbatim>\<open>mypy.types\<close> that the sources do not contain (\<^verbatim>\<open>UnionType.make_union\<close>,
  \<^verbatim>\<open>TypeType.make_normalized\<close>, \<^verbatim>\<open>get_type_vars\<close>), and the two type-valued
  attributes of a \<^verbatim>\<open>TypeInfo\<close>: the items and the \<^verbatim>\<open>implicit\<close> flag of its
  \<^verbatim>\<open>tuple_type\<close>, the items and required keys of its \<^verbatim>\<open>typeddict_type\<close>.
  \<^verbatim>\<open>allow_unbound_tvars\<close> is the attribute, which the constructor sets when
  \<^verbatim>\<open>defining_alias\<close> is set. A hook gets the unbound type and runs on the analyser.
\<close>

record env = externals +
  lookup_qualified :: "string \<Rightarrow> symbol_table_node option"
  lookup_fully_qualified :: "string \<Rightarrow> symbol_table_node option"
  lookup_fully_qualified_or_none :: "string \<Rightarrow> symbol_table_node option"
  is_incomplete_namespace :: "string \<Rightarrow> bool"
  final_iteration :: bool
  get_type_analyze_hook :: "string \<Rightarrow> (ty \<Rightarrow> ty M) option"
  make_union :: "ty list \<Rightarrow> ty"
  make_normalized :: "ty \<Rightarrow> ty"
  get_type_vars :: "ty \<Rightarrow> ty list"
  info_tuple_type :: "type_info \<Rightarrow> (ty list \<times> bool) option"
  info_typeddict_type :: "type_info \<Rightarrow> ((string \<times> ty) list \<times> string set) option"
  defining_alias :: bool
  allow_tuple_literal :: bool
  allow_unnormalized :: bool
  allow_unbound_tvars :: bool
  allow_placeholder :: bool
  report_invalid_types :: bool
  is_typeshed_stub :: bool
  disallow_any_generics :: bool
  python_version :: "int \<times> int"

text \<open>
  The recursive calls of the analyser: \<^verbatim>\<open>t.accept(self)\<close>, the direct call
  \<^verbatim>\<open>self.visit_unbound_type(arg, defining_literal=True)\<close> and the call of
  \<^verbatim>\<open>self.analyze_literal_param\<close> on the members of a union. Every method below takes
  them as \<^verbatim>\<open>self\<close>; the section on recursion ties the knot.
\<close>

record methods =
  accept :: "ty \<Rightarrow> ty M"
  visit_unbound_type_literal :: "ty \<Rightarrow> ty M"
  analyze_literal_param_rec :: "nat \<Rightarrow> ty \<Rightarrow> ty list option M"


section \<open>Type variable collector and binding of a signature's own variables\<close>

text \<open>Python's \<^verbatim>\<open>str(i)\<close> for an integer and \<^verbatim>\<open>s.split('.')[-1]\<close>.\<close>

definition str_int :: "int \<Rightarrow> string" where
  "str_int i = (if i < 0 then ''-'' @ str_nat (nat (- i)) else str_nat (nat i))"

definition last_component :: "string \<Rightarrow> string" where
  "last_component s = rev (takeWhile (\<lambda>c. c \<noteq> CHR ''.'') (rev s))"

text \<open>
  \<^verbatim>\<open>scope.get_binding(sym)\<close> for a symbol table node: the lookup asserts that the node
  has a full name.
\<close>

definition get_binding_sym :: "tvar_scope \<Rightarrow> symbol_table_node \<Rightarrow> exn + tvar_def option" where
  "get_binding_sym sc symb =
     (case fullname symb of
        None \<Rightarrow> Inl (AssertionError [])
      | Some f \<Rightarrow> Inr (get_binding sc f))"

primrec remove_dups_acc :: "'a list \<Rightarrow> 'a list \<Rightarrow> 'a list" where
  "remove_dups_acc new_tvars [] = new_tvars"
| "remove_dups_acc new_tvars (t # ts) =
     remove_dups_acc (if t \<in> set new_tvars then new_tvars else new_tvars @ [t]) ts"

definition remove_dups :: "'a list \<Rightarrow> 'a list" where
  "remove_dups tvars = remove_dups_acc [] tvars"

definition flatten_tvars :: "'a list list \<Rightarrow> 'a list" where
  "flatten_tvars ll = remove_dups (concat ll)"

definition seems_like_callable :: "ty \<Rightarrow> bool" where
  "seems_like_callable t =
     (case args t of
        [] \<Rightarrow> False
      | a # _ \<Rightarrow> (case a of EllipsisType \<Rightarrow> True | TypeList _ \<Rightarrow> True | _ \<Rightarrow> False))"

text \<open>
  \<^verbatim>\<open>TypeVariableQuery\<close>. Its two methods are in the sources. Modelled from the spec: its
  base class \<^verbatim>\<open>TypeQuery\<close> of \<^verbatim>\<open>mypy.types\<close> is not; following the spec's collector,
  which walks the types it is given fully, the base class visits the component types of
  every variant and combines their results with the strategy, here \<^verbatim>\<open>flatten_tvars\<close>. The
  result of a callable is that of its argument types followed by its return type.
\<close>

fun type_variable_query ::
  "(string \<Rightarrow> symbol_table_node option) \<Rightarrow> tvar_scope \<Rightarrow> bool \<Rightarrow> bool \<Rightarrow> ty
     \<Rightarrow> exn + (string \<times> symbol_node) list" where
  "type_variable_query lookup sc include_callables include_bound_tvars
       (UnboundType nm as opt eti ose osf) =
     (let symb = lookup nm;
          continue =
            (if \<not> include_callables \<and> seems_like_callable (UnboundType nm as opt eti ose osf)
             then Inr []
             else if (case symb of None \<Rightarrow> False
                      | Some n \<Rightarrow> fullname n = Some ''typing_extensions.Literal''
                                  \<or> fullname n = Some ''typing.Literal'')
             then Inr []
             else (case sequence_sum
                          (map (type_variable_query lookup sc include_callables
                                  include_bound_tvars) as) of
                     Inl e \<Rightarrow> Inl e
                   | Inr ls \<Rightarrow> Inr (flatten_tvars ls)))
      in case symb of
           None \<Rightarrow> continue
         | Some n \<Rightarrow>
             (case node n of
                Some (TypeVarExpr a b c d e) \<Rightarrow>
                  if include_bound_tvars then Inr [(nm, TypeVarExpr a b c d e)]
                  else (case get_binding_sym sc n of
                          Inl ex \<Rightarrow> Inl ex
                        | Inr None \<Rightarrow> Inr [(nm, TypeVarExpr a b c d e)]
                        | Inr (Some _) \<Rightarrow> continue)
              | _ \<Rightarrow> continue))"
| "type_variable_query lookup sc include_callables include_bound_tvars
       (CallableType ats ks ns rt fb vs ell) =
     (if include_callables then
        (case sequence_sum
                (map (type_variable_query lookup sc include_callables include_bound_tvars) ats) of
           Inl e \<Rightarrow> Inl e
         | Inr ls \<Rightarrow>
             (case type_variable_query lookup sc include_callables include_bound_tvars rt of
                Inl e \<Rightarrow> Inl e
              | Inr l \<Rightarrow> Inr (flatten_tvars (ls @ [l]))))
      else Inr [])"
| "type_variable_query lookup sc ic ib (InstanceType (Instance info as iv lkv)) =
     (case sequence_sum (map (type_variable_query lookup sc ic ib) as) of
        Inl e \<Rightarrow> Inl e | Inr ls \<Rightarrow> Inr (flatten_tvars ls))"
| "type_variable_query lookup sc ic ib (TupleType its fb imp) =
     (case sequence_sum (map (type_variable_query lookup sc ic ib) its) of
        Inl e \<Rightarrow> Inl e | Inr ls \<Rightarrow> Inr (flatten_tvars ls))"
| "type_variable_query lookup sc ic ib (TypedDictType its rk fb) =
     (case sequence_sum (map (type_variable_query lookup sc ic ib) (map snd its)) of
        Inl e \<Rightarrow> Inl e | Inr ls \<Rightarrow> Inr (flatten_tvars ls))"
| "type_variable_query lookup sc ic ib (UnionType its) =
     (case sequence_sum (map (type_variable_query lookup sc ic ib) its) of
        Inl e \<Rightarrow> Inl e | Inr ls \<Rightarrow> Inr (flatten_tvars ls))"
| "type_variable_query lookup sc ic ib (TypeList its) =
     (case sequence_sum (map (type_variable_query lookup sc ic ib) its) of
        Inl e \<Rightarrow> Inl e | Inr ls \<Rightarrow> Inr (flatten_tvars ls))"
| "type_variable_query lookup sc ic ib (PlaceholderType fn as) =
     (case sequence_sum (map (type_variable_query lookup sc ic ib) as) of
        Inl e \<Rightarrow> Inl e | Inr ls \<Rightarrow> Inr (flatten_tvars ls))"
| "type_variable_query lookup sc ic ib (TypeType it) = type_variable_query lookup sc ic ib it"
| "type_variable_query lookup sc ic ib (StarType it) = type_variable_query lookup sc ic ib it"
| "type_variable_query lookup sc ic ib (CallableArgument it an ac) =
     type_variable_query lookup sc ic ib it"
| "type_variable_query lookup sc ic ib t = Inr (flatten_tvars [])"

text \<open>One step of the loops of \<^verbatim>\<open>infer_type_variables\<close> over the pairs of a query.\<close>

definition add_new_names ::
  "(string \<times> symbol_node) list \<Rightarrow> (string \<times> symbol_node) list \<Rightarrow> (string \<times> symbol_node) list" where
  "add_new_names acc found =
     fold (\<lambda>p acc'. if fst p \<in> fst ` set acc' then acc' else acc' @ [p]) found acc"

definition infer_type_variables ::
  "'x env_scheme \<Rightarrow> tvar_scope \<Rightarrow> ty \<Rightarrow> exn + (string \<times> symbol_node) list" where
  "infer_type_variables e sc t =
     (case sequence_sum
             (map (type_variable_query (lookup_qualified e) sc True False) (arg_types t)) of
        Inl ex \<Rightarrow> Inl ex
      | Inr ls \<Rightarrow>
          (case type_variable_query (lookup_qualified e) sc False False (ret_type t) of
             Inl ex \<Rightarrow> Inl ex
           | Inr l \<Rightarrow> Inr (add_new_names (fold (\<lambda>found acc. add_new_names acc found) ls []) l)))"

definition is_defined_type_var :: "'x env_scheme \<Rightarrow> tvar_scope \<Rightarrow> string \<Rightarrow> exn + bool" where
  "is_defined_type_var e sc tvar =
     (case lookup_qualified e tvar of
        None \<Rightarrow> Inr False
      | Some tvar_node \<Rightarrow>
          (case get_binding_sym sc tvar_node of
             Inl ex \<Rightarrow> Inl ex
           | Inr b \<Rightarrow> Inr (b \<noteq> None)))"

text \<open>The first loop of \<^verbatim>\<open>bind_function_type_variables\<close>: the declared variables.\<close>

primrec bind_declared :: "'x env_scheme \<Rightarrow> tvar_def list \<Rightarrow> unit M" where
  "bind_declared e [] = ret ()"
| "bind_declared e (var # vars) =
     (case lookup_qualified e (tv_name var) of
        None \<Rightarrow>
          raise (AssertionError ''Binding for function type variable not found within function'')
      | Some var_node \<Rightarrow>
          (case node var_node of
             Some (TypeVarExpr a b c d f) \<Rightarrow>
               bnd (modify (\<lambda>s. s\<lparr>tvar_scope :=
                      bind_new (tvar_scope s) (tv_name var) (TypeVarExpr a b c d f)\<rparr>))
                 (\<lambda>_. bind_declared e vars)
           | _ \<Rightarrow> raise (AssertionError [])))"

text \<open>Its second loop: the inferred variables that are not defined in the scope yet.\<close>

primrec bind_inferred :: "(string \<times> symbol_node) list \<Rightarrow> tvar_def list M" where
  "bind_inferred [] = ret []"
| "bind_inferred (p # ps) =
     bnd (\<lambda>s. if \<not> allow_binding (tvar_scope s) (node_fullname (snd p))
              then fail (''Type variable '' @ [CHR 0x27] @ fst p @ [CHR 0x27]
                          @ '' is bound by an outer class'') None s
              else ret () s)
       (\<lambda>_. bnd (modify (\<lambda>s. s\<lparr>tvar_scope := bind_new (tvar_scope s) (fst p) (snd p)\<rparr>))
         (\<lambda>_. bnd (\<lambda>s. (case get_binding (tvar_scope s) (node_fullname (snd p)) of
                          None \<Rightarrow> raise (AssertionError []) s
                        | Some binding \<Rightarrow> ret binding s))
           (\<lambda>binding. bnd (bind_inferred ps) (\<lambda>defs. ret (binding # defs)))))"

definition bind_function_type_variables :: "'x env_scheme \<Rightarrow> ty \<Rightarrow> tvar_def list M" where
  "bind_function_type_variables e fun_type =
     (if variables fun_type \<noteq> [] then
        bnd (bind_declared e (variables fun_type)) (\<lambda>_. ret (variables fun_type))
      else
        bnd (\<lambda>s. lift_sum (infer_type_variables e (tvar_scope s) fun_type) s)
          (\<lambda>typevars.
             bnd (\<lambda>s. lift_sum
                        (sequence_sum
                           (map (\<lambda>p. case is_defined_type_var e (tvar_scope s) (fst p) of
                                        Inl ex \<Rightarrow> Inl ex
                                      | Inr b \<Rightarrow> Inr (p, b))
                              typevars)) s)
               (\<lambda>flagged. bind_inferred (map fst [pb \<leftarrow> flagged. \<not> snd pb]))))"


section \<open>The type analyser\<close>

subsection \<open>Helpers of the class\<close>

definition cannot_resolve_type :: "ty \<Rightarrow> unit M" where
  "cannot_resolve_type t =
     fail (''Cannot resolve name \"'' @ name t @ ''\" (possible cyclic definition)'') None"

definition named_type :: "'x env_scheme \<Rightarrow> string \<Rightarrow> ty list option \<Rightarrow> inst M" where
  "named_type e fully_qualified_name a =
     (case lookup_fully_qualified e fully_qualified_name of
        None \<Rightarrow> raise AttributeError
      | Some n \<Rightarrow>
          (case node n of
             Some (TypeInfoNode info) \<Rightarrow>
               (let any_type = AnyType special_form None;
                    dflt = replicate (length (defn_type_vars info)) any_type
                in ret (new_Instance info
                          (case a of None \<Rightarrow> dflt | Some xs \<Rightarrow> if xs \<noteq> [] then xs else dflt)))
           | _ \<Rightarrow> raise (AssertionError [])))"

definition named_type_with_normalized_str :: "'x env_scheme \<Rightarrow> string \<Rightarrow> inst M" where
  "named_type_with_normalized_str e fully_qualified_name =
     (let n1 = (if fst (python_version e) = 2 \<and> fully_qualified_name = ''builtins.bytes''
                then ''builtins.str'' else fully_qualified_name);
          n2 = (if fst (python_version e) \<ge> 3 \<and> n1 = ''builtins.unicode''
                then ''builtins.str'' else n1)
      in named_type e n2 None)"

definition tuple_type :: "'x env_scheme \<Rightarrow> ty list \<Rightarrow> ty M" where
  "tuple_type e its =
     bnd (named_type e ''builtins.tuple'' (Some [AnyType special_form None]))
       (\<lambda>fb. ret (TupleType its fb False))"

text \<open>The method \<^verbatim>\<open>TypeAnalyser.get_omitted_any\<close>.\<close>

definition self_get_omitted_any :: "'x env_scheme \<Rightarrow> ty \<Rightarrow> string option \<Rightarrow> ty M" where
  "self_get_omitted_any e t fname =
     (let disallow_any = (\<not> is_typeshed_stub e \<and> disallow_any_generics e);
          (any_type, evs) = get_omitted_any e disallow_any t fname None
      in bnd (emit evs) (\<lambda>_. ret any_type))"

definition no_subscript_builtin_alias :: "'x env_scheme \<Rightarrow> string \<Rightarrow> bool \<Rightarrow> exn + string" where
  "no_subscript_builtin_alias e nm propose_alt =
     (let msg = ''\"'' @ last_component nm @ ''\" is not subscriptable''
      in case nongen_builtins e nm of
           None \<Rightarrow> Inl KeyError
         | Some replacement \<Rightarrow>
             Inr (if replacement \<noteq> [] \<and> propose_alt
                  then msg @ '', use \"'' @ replacement @ ''\" instead'' else msg))"

definition anal_type :: "methods \<Rightarrow> ty \<Rightarrow> bool \<Rightarrow> ty M" where
  "anal_type self t nested =
     bnd (if nested then modify (\<lambda>s. s\<lparr>nesting_level := nesting_level s + 1\<rparr>) else ret ())
       (\<lambda>_. finally_do (accept self t)
               (\<lambda>s. if nested then s\<lparr>nesting_level := nesting_level s - 1\<rparr> else s))"

primrec anal_array :: "methods \<Rightarrow> ty list \<Rightarrow> bool \<Rightarrow> ty list M" where
  "anal_array self [] nested = ret []"
| "anal_array self (t # ts) nested =
     bnd (anal_type self t nested)
       (\<lambda>r. bnd (anal_array self ts nested) (\<lambda>rs. ret (r # rs)))"

primrec anal_var_defs :: "methods \<Rightarrow> tvar_def list \<Rightarrow> tvar_def list M" where
  "anal_var_defs self [] = ret []"
| "anal_var_defs self (vd # vds) =
     bnd (anal_array self (tv_values vd) True)
       (\<lambda>vals. bnd (accept self (tv_upper_bound vd))
         (\<lambda>ub. bnd (anal_var_defs self vds)
           (\<lambda>rest. ret (TypeVarDef (tv_name vd) (tv_fullname vd) (tv_id vd) vals ub
                           (tv_variance vd) # rest))))"

text \<open>
  The context manager \<^verbatim>\<open>tvar_scope_frame\<close>: the statement after its \<^verbatim>\<open>yield\<close> runs
  when the body of the \<^verbatim>\<open>with\<close> statement returns, and not when it raises.
\<close>

definition tvar_scope_frame :: "'a M \<Rightarrow> 'a M" where
  "tvar_scope_frame body =
     (\<lambda>s. let old_scope = tvar_scope s
          in bnd body (\<lambda>r. bnd (modify (\<lambda>s'. s'\<lparr>tvar_scope := old_scope\<rparr>)) (\<lambda>_. ret r))
               (s\<lparr>tvar_scope := method_frame old_scope\<rparr>))"

subsection \<open>Classes, aliases and other symbols\<close>

definition analyze_type_with_type_info ::
  "'x env_scheme \<Rightarrow> methods \<Rightarrow> type_info \<Rightarrow> ty list \<Rightarrow> ty M" where
  "analyze_type_with_type_info e self info a =
     (if length a > 0 \<and> info_fullname info = ''builtins.tuple'' then
        bnd (anal_array self a True)
          (\<lambda>its. ret (TupleType its (new_Instance info [AnyType special_form None]) False))
      else
        bnd (anal_array self a True)
          (\<lambda>an_args.
             bnd (if length an_args \<noteq> length (type_vars info) \<and> \<not> defining_alias e then
                    (let (i, evs) = fix_instance e (new_Instance info an_args)
                                      (disallow_any_generics e \<and> \<not> is_typeshed_stub e) False None
                     in bnd (emit evs) (\<lambda>_. ret i))
                  else ret (new_Instance info an_args))
               (\<lambda>instance.
                  case info_tuple_type e info of
                    Some (tup_items, tup_implicit) \<Rightarrow>
                      if a \<noteq> [] then
                        bnd (fail ''Generic tuple types not supported'' None)
                          (\<lambda>_. ret (AnyType from_error None))
                      else
                        bnd (anal_array self tup_items True)
                          (\<lambda>its. ret (TupleType its instance tup_implicit))
                  | None \<Rightarrow>
                      (case info_typeddict_type e info of
                         Some (td_its, td_required) \<Rightarrow>
                           if a \<noteq> [] then
                             bnd (fail ''Generic TypedDict types not supported'' None)
                               (\<lambda>_. ret (AnyType from_error None))
                           else
                             bnd (anal_array self (map snd td_its) True)
                               (\<lambda>vals. ret (TypedDictType (zip (map fst td_its) vals)
                                              td_required instance))
                       | None \<Rightarrow> ret (InstanceType instance)))))"

definition var_with_any_type :: "symbol_node option \<Rightarrow> ty option" where
  "var_with_any_type n =
     (case n of
        Some (Var _ _ (Some (AnyType k m)) _) \<Rightarrow> Some (AnyType k m)
      | _ \<Rightarrow> None)"

definition enum_member :: "symbol_node option \<Rightarrow> (string \<times> type_info) option" where
  "enum_member n =
     (case n of
        Some (Var vn _ _ vi) \<Rightarrow> if \<not> is_fake vi \<and> is_enum vi then Some (vn, vi) else None
      | _ \<Rightarrow> None)"

definition not_a_type_message :: "symbol_node option \<Rightarrow> bool \<Rightarrow> string \<Rightarrow> string \<times> string list" where
  "not_a_type_message n unbound_tvar nm =
     (let short = last_component nm
      in case n of
           Some (Var _ _ _ _) \<Rightarrow> (''Variable \"'' @ nm @ ''\" is not valid as a type'', [])
         | Some (FuncBase _ _) \<Rightarrow>
             (''Function \"'' @ nm @ ''\" is not valid as a type'',
              [''Perhaps you need \"Callable[...]\" or a callback protocol?''])
         | Some (Decorator _ _) \<Rightarrow>
             (''Function \"'' @ nm @ ''\" is not valid as a type'',
              [''Perhaps you need \"Callable[...]\" or a callback protocol?''])
         | Some (MypyFile _ _) \<Rightarrow> (''Module \"'' @ nm @ ''\" is not valid as a type'', [])
         | _ \<Rightarrow>
             if unbound_tvar then
               (''Type variable \"'' @ nm @ ''\" is unbound'',
                [''(Hint: Use \"Generic['' @ short @ '']\" or \"Protocol['' @ short
                   @ '']\" base class to bind \"'' @ short @ ''\" inside a class)'',
                 ''(Hint: Use \"'' @ short @ ''\" in function signature to bind \"'' @ short
                   @ ''\" inside a function)''])
             else (''Cannot interpret reference \"'' @ nm @ ''\" as a type'', []))"

definition analyze_unbound_type_without_type_info ::
  "'x env_scheme \<Rightarrow> methods \<Rightarrow> ty \<Rightarrow> symbol_table_node \<Rightarrow> bool \<Rightarrow> ty M" where
  "analyze_unbound_type_without_type_info e self t symb defining_literal =
     bnd (case fullname symb of
            Some n \<Rightarrow> ret n
          | None \<Rightarrow> (case node symb of
                       None \<Rightarrow> raise (AssertionError [])
                     | Some nd \<Rightarrow> ret (node_name nd)))
       (\<lambda>nm.
          case var_with_any_type (node symb) of
            Some a \<Rightarrow> ret (AnyType from_unimported_type (missing_import_name a))
          | None \<Rightarrow>
              bnd (if isinstance_TypeVarExpr (node symb)
                   then (\<lambda>s. case get_binding_sym (tvar_scope s) symb of
                               Inl ex \<Rightarrow> (Inl ex, s)
                             | Inr b \<Rightarrow> (Inr (b = None), s))
                   else ret False)
                (\<lambda>unbound_tvar.
                   if allow_unbound_tvars e \<and> unbound_tvar then ret t
                   else
                     (case enum_member (node symb) of
                        Some (val, base) \<Rightarrow>
                          if \<not> defining_literal then
                            bnd (fail (INVALID_TYPE_RAW_ENUM_VALUE e (info_name base) val) None)
                              (\<lambda>_. ret (AnyType from_error None))
                          else ret (LiteralType (LitStr val) (new_Instance base []))
                      | None \<Rightarrow>
                          bnd (anal_array self (args t) True)
                            (\<lambda>an_args.
                               let t' = UnboundType (name t) an_args (optional t)
                                          (empty_tuple_index t) (original_str_expr t)
                                          (original_str_fallback t);
                                   (message, notes) =
                                     not_a_type_message (node symb) unbound_tvar nm
                               in bnd (fail message (Some VALID_TYPE))
                                    (\<lambda>_. bnd (emit (map Note notes)) (\<lambda>_. ret t'))))))"

subsection \<open>Special forms\<close>

definition ARG_KINDS_BY_CONSTRUCTOR :: "string \<rightharpoonup> arg_kind" where
  "ARG_KINDS_BY_CONSTRUCTOR =
     [''mypy_extensions.Arg'' \<mapsto> ARG_POS,
      ''mypy_extensions.DefaultArg'' \<mapsto> ARG_OPT,
      ''mypy_extensions.NamedArg'' \<mapsto> ARG_NAMED,
      ''mypy_extensions.DefaultNamedArg'' \<mapsto> ARG_NAMED_OPT,
      ''mypy_extensions.VarArg'' \<mapsto> ARG_STAR,
      ''mypy_extensions.KwArg'' \<mapsto> ARG_STAR2]"

text \<open>
  The loop of \<^verbatim>\<open>analyze_callable_args\<close> over the entries of the list, with the three
  lists built so far; \<^verbatim>\<open>None\<close> is its early \<^verbatim>\<open>return None\<close>.
\<close>

fun analyze_callable_args_loop ::
  "'x env_scheme \<Rightarrow> ty list \<Rightarrow> ty list \<times> arg_kind list \<times> string option list
     \<Rightarrow> (ty list \<times> arg_kind list \<times> string option list) option M" where
  "analyze_callable_args_loop e [] acc = ret (Some acc)"
| "analyze_callable_args_loop e (arg # rest) (as, kinds, names) =
     (case arg of
        CallableArgument typ1 nm cons \<Rightarrow>
          (case cons of
             None \<Rightarrow> ret None
           | Some c \<Rightarrow>
               (case lookup_qualified e c of
                  None \<Rightarrow> ret None
                | Some found \<Rightarrow>
                    (case (case fullname found of
                             None \<Rightarrow> None | Some f \<Rightarrow> ARG_KINDS_BY_CONSTRUCTOR f) of
                       None \<Rightarrow>
                         bnd (fail (''Invalid argument constructor \"''
                                     @ (case fullname found of None \<Rightarrow> ''None'' | Some f \<Rightarrow> f)
                                     @ ''\"'') None)
                           (\<lambda>_. ret None)
                     | Some k \<Rightarrow>
                         if nm \<noteq> None \<and> (k = ARG_STAR \<or> k = ARG_STAR2) then
                           bnd (fail (c @ '' arguments should not have names'') None)
                             (\<lambda>_. ret None)
                         else analyze_callable_args_loop e rest
                                (as @ [typ1], kinds @ [k], names @ [nm]))))
      | _ \<Rightarrow> analyze_callable_args_loop e rest (as @ [arg], kinds @ [ARG_POS], names @ [None]))"

definition analyze_callable_args ::
  "'x env_scheme \<Rightarrow> ty \<Rightarrow> (ty list \<times> arg_kind list \<times> string option list) option M" where
  "analyze_callable_args e arglist =
     bnd (analyze_callable_args_loop e (items arglist) ([], [], []))
       (\<lambda>r. case r of
               None \<Rightarrow> ret None
             | Some (as, kinds, names) \<Rightarrow>
                 bnd (emit (check_arg_names e names))
                   (\<lambda>_. bnd (emit (check_arg_kinds e kinds))
                     (\<lambda>_. ret (Some (as, kinds, names)))))"

definition analyze_callable_type :: "'x env_scheme \<Rightarrow> methods \<Rightarrow> ty \<Rightarrow> ty M" where
  "analyze_callable_type e self t =
     bnd (named_type e ''builtins.function'' None)
       (\<lambda>fb.
          if length (args t) = 0 then
            bnd (self_get_omitted_any e t None)
              (\<lambda>any_type.
                 accept self (CallableType [any_type, any_type] [ARG_STAR, ARG_STAR2]
                                [None, None] any_type fb [] True))
          else if length (args t) = 2 then
            (let ret_type1 = args t ! 1
             in case args t ! 0 of
                  TypeList its \<Rightarrow>
                    bnd (analyze_callable_args e (TypeList its))
                      (\<lambda>analyzed_args.
                         case analyzed_args of
                           None \<Rightarrow> ret (AnyType from_error None)
                         | Some (as, kinds, names) \<Rightarrow>
                             accept self (CallableType as kinds names ret_type1 fb [] False))
                | EllipsisType \<Rightarrow>
                    accept self (CallableType [AnyType explicit None, AnyType explicit None]
                                   [ARG_STAR, ARG_STAR2] [None, None] ret_type1 fb [] True)
                | _ \<Rightarrow>
                    bnd (fail ''The first argument to Callable must be a list of types or \"...\"''
                           None)
                      (\<lambda>_. ret (AnyType from_error None)))
          else
            bnd (fail ''Please use \"Callable[[<parameters>], <return type>]\" or \"Callable\"''
                   None)
              (\<lambda>_. ret (AnyType from_error None)))"

definition isinstance_UnboundType :: "ty \<Rightarrow> bool" where
  "isinstance_UnboundType t = (case t of UnboundType _ _ _ _ _ _ \<Rightarrow> True | _ \<Rightarrow> False)"

text \<open>The loop of \<^verbatim>\<open>analyze_literal_param\<close> over the members of a union.\<close>

primrec literal_union_loop :: "methods \<Rightarrow> nat \<Rightarrow> ty list \<Rightarrow> ty list \<Rightarrow> ty list option M" where
  "literal_union_loop self idx [] out = ret (Some out)"
| "literal_union_loop self idx (union_arg # rest) out =
     bnd (analyze_literal_param_rec self idx union_arg)
       (\<lambda>union_result.
          case union_result of
            None \<Rightarrow> ret None
          | Some r \<Rightarrow> literal_union_loop self idx rest (out @ r))"

definition analyze_literal_param ::
  "'x env_scheme \<Rightarrow> methods \<Rightarrow> nat \<Rightarrow> ty \<Rightarrow> ty list option M" where
  "analyze_literal_param e self idx arg0 =
     (case (if isinstance_UnboundType arg0 then original_str_expr arg0 else None) of
        Some str_expr \<Rightarrow>
          (case original_str_fallback arg0 of
             None \<Rightarrow> raise (AssertionError [])
           | Some f \<Rightarrow>
               bnd (named_type_with_normalized_str e f)
                 (\<lambda>fb. ret (Some [LiteralType (LitStr str_expr) fb])))
      | None \<Rightarrow>
        bnd (if isinstance_UnboundType arg0 then
               bnd (modify (\<lambda>s. s\<lparr>nesting_level := nesting_level s + 1\<rparr>))
                 (\<lambda>_. finally_do (visit_unbound_type_literal self arg0)
                         (\<lambda>s. s\<lparr>nesting_level := nesting_level s - 1\<rparr>))
             else ret arg0)
          (\<lambda>arg.
             case arg of
               AnyType k _ \<Rightarrow>
                 bnd (if k \<noteq> from_error \<and> k \<noteq> special_form then
                        fail (''Parameter '' @ str_nat idx
                                @ '' of Literal[...] cannot be of type \"Any\"'') None
                      else ret ())
                   (\<lambda>_. ret None)
             | RawExpressionType lv btn nt \<Rightarrow>
                 (case lv of
                    None \<Rightarrow>
                      (let nm = simple_name e btn;
                           msg = (if nm = ''float'' \<or> nm = ''complex'' then
                                    ''Parameter '' @ str_nat idx
                                      @ '' of Literal[...] cannot be of type \"'' @ nm @ ''\"''
                                  else
                                    ''Invalid type: Literal[...] cannot contain arbitrary expressions'')
                       in bnd (fail msg None) (\<lambda>_. ret None))
                  | Some v \<Rightarrow>
                      bnd (named_type_with_normalized_str e btn)
                        (\<lambda>fb. ret (Some [LiteralType v fb])))
             | NoneType \<Rightarrow> ret (Some [arg])
             | LiteralType _ _ \<Rightarrow> ret (Some [arg])
             | InstanceType i \<Rightarrow>
                 (case last_known_value i of
                    Some l \<Rightarrow> ret (Some [l])
                  | None \<Rightarrow>
                      bnd (fail (''Parameter '' @ str_nat idx @ '' of Literal[...] is invalid'')
                             None)
                        (\<lambda>_. ret None))
             | UnionType its \<Rightarrow> literal_union_loop self idx its []
             | _ \<Rightarrow>
                 bnd (fail (''Parameter '' @ str_nat idx @ '' of Literal[...] is invalid'') None)
                   (\<lambda>_. ret None)))"

text \<open>The loop of \<^verbatim>\<open>analyze_literal_type\<close> over \<^verbatim>\<open>enumerate(t.args)\<close>.\<close>

primrec analyze_literal_loop ::
  "'x env_scheme \<Rightarrow> methods \<Rightarrow> nat \<Rightarrow> ty list \<Rightarrow> ty list \<Rightarrow> ty M" where
  "analyze_literal_loop e self i [] output = ret (make_union e output)"
| "analyze_literal_loop e self i (arg # rest) output =
     bnd (analyze_literal_param e self (i + 1) arg)
       (\<lambda>analyzed_types.
          case analyzed_types of
            None \<Rightarrow> ret (AnyType from_error None)
          | Some r \<Rightarrow> analyze_literal_loop e self (i + 1) rest (output @ r))"

definition analyze_literal_type :: "'x env_scheme \<Rightarrow> methods \<Rightarrow> ty \<Rightarrow> ty M" where
  "analyze_literal_type e self t =
     (if length (args t) = 0 then
        bnd (fail ''Literal[...] must have at least one parameter'' None)
          (\<lambda>_. ret (AnyType from_error None))
      else analyze_literal_loop e self 0 (args t) [])"


text \<open>
  The branches of \<^verbatim>\<open>try_analyze_special_unbound_type\<close> that are more than one
  statement long, each under the name of its special form.
\<close>

definition analyze_Tuple :: "'x env_scheme \<Rightarrow> methods \<Rightarrow> ty \<Rightarrow> ty M" where
  "analyze_Tuple e self t =
     (if (case lookup_fully_qualified_or_none e ''builtins.tuple'' of
            None \<Rightarrow> True
          | Some symb \<Rightarrow> isinstance_PlaceholderNode (node symb))
      then
        bnd (if is_incomplete_namespace e ''builtins'' then emit [RecordIncompleteRef]
             else fail ''Name 'tuple' is not defined'' None)
          (\<lambda>_. ret (AnyType special_form None))
      else if length (args t) = 0 \<and> \<not> empty_tuple_index t then
        bnd (self_get_omitted_any e t None)
          (\<lambda>any_type. bnd (named_type e ''builtins.tuple'' (Some [any_type]))
            (\<lambda>i. ret (InstanceType i)))
      else if length (args t) = 2 \<and> args t ! 1 = EllipsisType then
        bnd (anal_type self (args t ! 0) True)
          (\<lambda>it. bnd (named_type e ''builtins.tuple'' (Some [it]))
            (\<lambda>instance. ret (InstanceType instance)))
      else
        bnd (anal_array self (args t) True) (\<lambda>its. tuple_type e its))"

definition analyze_Optional :: "methods \<Rightarrow> ty \<Rightarrow> ty M" where
  "analyze_Optional self t =
     (if length (args t) \<noteq> 1 then
        bnd (fail ''Optional[...] must have exactly one type argument'' None)
          (\<lambda>_. ret (AnyType from_error None))
      else bnd (anal_type self (args t ! 0) True) (\<lambda>it. ret (make_optional_type it)))"

definition analyze_Type :: "'x env_scheme \<Rightarrow> methods \<Rightarrow> ty \<Rightarrow> ty M" where
  "analyze_Type e self t =
     (if length (args t) = 0 then
        bnd (self_get_omitted_any e t None) (\<lambda>any_type. ret (TypeType any_type))
      else
        bnd (if length (args t) \<noteq> 1
             then fail ''Type[...] must have exactly one type argument'' None else ret ())
          (\<lambda>_. bnd (anal_type self (args t ! 0) True) (\<lambda>it. ret (make_normalized e it))))"

definition isinstance_TypeVarType :: "ty \<Rightarrow> bool" where
  "isinstance_TypeVarType t = (case t of TypeVarType _ \<Rightarrow> True | _ \<Rightarrow> False)"

definition analyze_ClassVar :: "'x env_scheme \<Rightarrow> methods \<Rightarrow> ty \<Rightarrow> ty M" where
  "analyze_ClassVar e self t =
     bnd (\<lambda>s. if nesting_level s > 0
              then fail ''Invalid type: ClassVar nested inside other type'' None s
              else ret () s)
       (\<lambda>_. if length (args t) = 0 then ret (AnyType from_omitted_generics None)
             else if length (args t) \<noteq> 1 then
               bnd (fail ''ClassVar[...] must have at most one type argument'' None)
                 (\<lambda>_. ret (AnyType from_error None))
             else
               bnd (anal_type self (args t ! 0) True)
                 (\<lambda>it. if isinstance_TypeVarType it \<or> get_type_vars e it \<noteq> [] then
                         bnd (fail ''Invalid type: ClassVar cannot be generic'' None)
                           (\<lambda>_. ret (AnyType from_error None))
                       else ret it))"

definition analyze_Annotated :: "methods \<Rightarrow> ty \<Rightarrow> ty M" where
  "analyze_Annotated self t =
     (if length (args t) < 2 then
        bnd (fail (''Annotated[...] must have exactly one type argument''
                    @ '' and at least one annotation'') None)
          (\<lambda>_. ret (AnyType from_error None))
      else anal_type self (args t ! 0) True)"

definition try_analyze_special_unbound_type ::
  "'x env_scheme \<Rightarrow> methods \<Rightarrow> ty \<Rightarrow> string \<Rightarrow> ty option M" where
  "try_analyze_special_unbound_type e self t fname =
     (if fname = ''builtins.None'' then ret (Some NoneType)
      else if fname = ''typing.Any'' \<or> fname = ''builtins.Any'' then
        ret (Some (AnyType explicit None))
      else if fname = ''typing.Final'' \<or> fname = ''typing_extensions.Final'' then
        bnd (fail (''Final can be only used as an outermost qualifier''
                    @ '' in a variable annotation'') None)
          (\<lambda>_. ret (Some (AnyType from_error None)))
      else if fname = ''typing.Tuple'' then bnd (analyze_Tuple e self t) (\<lambda>r. ret (Some r))
      else if fname = ''typing.Union'' then
        bnd (anal_array self (args t) True) (\<lambda>its. ret (Some (make_union e its)))
      else if fname = ''typing.Optional'' then bnd (analyze_Optional self t) (\<lambda>r. ret (Some r))
      else if fname = ''typing.Callable'' then
        bnd (analyze_callable_type e self t) (\<lambda>r. ret (Some r))
      else if fname = ''typing.Type'' then bnd (analyze_Type e self t) (\<lambda>r. ret (Some r))
      else if fname = ''typing.ClassVar'' then bnd (analyze_ClassVar e self t) (\<lambda>r. ret (Some r))
      else if fname = ''mypy_extensions.NoReturn'' \<or> fname = ''typing.NoReturn'' then
        ret (Some (UninhabitedType True))
      else if fname = ''typing_extensions.Literal'' \<or> fname = ''typing.Literal'' then
        bnd (analyze_literal_type e self t) (\<lambda>r. ret (Some r))
      else if fname = ''typing_extensions.Annotated'' then
        bnd (analyze_Annotated self t) (\<lambda>r. ret (Some r))
      else ret None)"

subsection \<open>Named references\<close>

text \<open>
  The branch of \<^verbatim>\<open>visit_unbound_type_nonoptional\<close> for a symbol whose node is a
  \<^verbatim>\<open>PlaceholderNode\<close>.
\<close>

definition analyze_placeholder_reference ::
  "'x env_scheme \<Rightarrow> methods \<Rightarrow> ty \<Rightarrow> symbol_node \<Rightarrow> ty M" where
  "analyze_placeholder_reference e self t nd =
     (if becomes_typeinfo nd then
        (if final_iteration e then
           bnd (cannot_resolve_type t) (\<lambda>_. ret (AnyType from_error None))
         else
           bnd (if allow_placeholder e then emit [Defer] else emit [RecordIncompleteRef])
             (\<lambda>_. bnd (anal_array self (args t) True)
               (\<lambda>an_args. ret (PlaceholderType (Some (node_fullname nd)) an_args))))
      else
        (if final_iteration e then
           bnd (cannot_resolve_type t) (\<lambda>_. ret (AnyType from_error None))
         else bnd (emit [RecordIncompleteRef]) (\<lambda>_. ret (AnyType special_form None))))"

text \<open>Its branch for a symbol whose node is a \<^verbatim>\<open>TypeAlias\<close>.\<close>

definition analyze_alias_reference ::
  "'x env_scheme \<Rightarrow> methods \<Rightarrow> ty \<Rightarrow> string \<Rightarrow> symbol_node \<Rightarrow> ty M" where
  "analyze_alias_reference e self t fname nd =
     bnd (modify (\<lambda>s. s\<lparr>aliases_used := insert fname (aliases_used s)\<rparr>))
       (\<lambda>_. bnd (anal_array self (args t) True)
         (\<lambda>an_args.
            let disallow_any = (disallow_any_generics e \<and> \<not> is_typeshed_stub e);
                (r, evs) = expand_type_alias e (alias_target nd) (alias_tvars nd) an_args (alias_no_args nd)
                             (Some t) disallow_any
            in bnd (emit evs)
                 (\<lambda>_. bnd (lift_sum r)
                   (\<lambda>res. case res of
                            InstanceType i \<Rightarrow>
                              if length (inst_args i) \<noteq> length (type_vars (type i))
                                 \<and> \<not> defining_alias e
                              then
                                (let (i', evs') = fix_instance e i disallow_any True (Some t)
                                 in bnd (emit evs') (\<lambda>_. ret (InstanceType i')))
                              else ret res
                          | _ \<Rightarrow> ret res))))"

definition visit_unbound_type_nonoptional ::
  "'x env_scheme \<Rightarrow> methods \<Rightarrow> ty \<Rightarrow> bool \<Rightarrow> ty M" where
  "visit_unbound_type_nonoptional e self t defining_literal =
     (case lookup_qualified e (name t) of
        None \<Rightarrow> ret (AnyType special_form None)
      | Some symb \<Rightarrow>
          (case node symb of
             None \<Rightarrow>
               bnd (fail (''Internal error (node is None, kind='' @ str_int (kind symb) @ '')'')
                      None)
                 (\<lambda>_. ret (AnyType special_form None))
           | Some nd \<Rightarrow>
               if isinstance_PlaceholderNode (Some nd)
               then analyze_placeholder_reference e self t nd
               else
                 (let fname = node_fullname nd
                  in case get_type_analyze_hook e fname of
                       Some hook \<Rightarrow> hook t
                     | None \<Rightarrow>
                         bnd (if nongen_builtins e fname \<noteq> None \<and> args t \<noteq> []
                                 \<and> \<not> allow_unnormalized e
                              then bnd (lift_sum (no_subscript_builtin_alias e fname
                                                    (\<not> defining_alias e)))
                                     (\<lambda>msg. fail msg None)
                              else ret ())
                           (\<lambda>_. bnd (\<lambda>s. lift_sum (get_binding_sym (tvar_scope s) symb) s)
                             (\<lambda>tvar_def.
                                if isinstance_TypeVarExpr (Some nd) \<and> tvar_def \<noteq> None
                                   \<and> defining_alias e
                                then
                                  bnd (fail (''Can't use bound type variable \"'' @ name t
                                              @ ''\" to define generic alias'') None)
                                    (\<lambda>_. ret (AnyType from_error None))
                                else
                                  (case (if isinstance_TypeVarExpr (Some nd) then tvar_def
                                         else None) of
                                     Some d \<Rightarrow>
                                       bnd (if length (args t) > 0
                                            then fail (''Type variable \"'' @ name t
                                                        @ ''\" used with arguments'') None
                                            else ret ())
                                         (\<lambda>_. ret (TypeVarType d))
                                   | None \<Rightarrow>
                                       bnd (try_analyze_special_unbound_type e self t fname)
                                         (\<lambda>special.
                                            case special of
                                              Some r \<Rightarrow> ret r
                                            | None \<Rightarrow>
                                                (case nd of
                                                   TypeAlias _ _ _ _ _ \<Rightarrow>
                                                     analyze_alias_reference e self t fname nd
                                                 | TypeInfoNode info \<Rightarrow>
                                                     analyze_type_with_type_info e self info
                                                       (args t)
                                                 | _ \<Rightarrow>
                                                     analyze_unbound_type_without_type_info e
                                                       self t symb defining_literal))))))))"

definition visit_unbound_type :: "'x env_scheme \<Rightarrow> methods \<Rightarrow> ty \<Rightarrow> bool \<Rightarrow> ty M" where
  "visit_unbound_type e self t defining_literal =
     bnd (visit_unbound_type_nonoptional e self t defining_literal)
       (\<lambda>typ1. if optional t then ret (make_optional_type typ1) else ret typ1)"

subsection \<open>The other visit methods\<close>

definition visit_type_list :: "ty \<Rightarrow> ty M" where
  "visit_type_list t =
     bnd (fail ''Bracketed expression \"[...]\" is not valid as a type'' None)
       (\<lambda>_. bnd (emit_note ''Did you mean \"List[...]\"?'') (\<lambda>_. ret (AnyType from_error None)))"

definition visit_callable_argument :: "ty \<Rightarrow> ty M" where
  "visit_callable_argument t = bnd (fail ''Invalid type'' None) (\<lambda>_. ret (AnyType from_error None))"

definition visit_callable_type :: "'x env_scheme \<Rightarrow> methods \<Rightarrow> ty \<Rightarrow> bool \<Rightarrow> ty M" where
  "visit_callable_type e self t nested =
     tvar_scope_frame
       (bnd (if defining_alias e then ret (variables t) else bind_function_type_variables e t)
          (\<lambda>vars. bnd (anal_array self (arg_types t) nested)
            (\<lambda>ats. bnd (anal_type self (ret_type t) nested)
              (\<lambda>rt. bnd (if \<not> is_fake (type (fallback t)) then ret (fallback t)
                         else named_type e ''builtins.function'' None)
                (\<lambda>fb. bnd (anal_var_defs self vars)
                  (\<lambda>vds. ret (CallableType ats (arg_kinds t) (arg_names t) rt fb vds
                                 (is_ellipsis_args t))))))))"

definition isinstance_StarType :: "ty \<Rightarrow> bool" where
  "isinstance_StarType t = (case t of StarType _ \<Rightarrow> True | _ \<Rightarrow> False)"

definition visit_tuple_type :: "'x env_scheme \<Rightarrow> methods \<Rightarrow> ty \<Rightarrow> ty M" where
  "visit_tuple_type e self t =
     (if implicit t \<and> \<not> allow_tuple_literal e then
        bnd (fail ''Syntax error in type annotation'' (Some SYNTAX))
          (\<lambda>_. bnd (if length (items t) = 1
                     then emit_note ''Suggestion: Is there a spurious trailing comma?''
                     else emit_note
                            ''Suggestion: Use Tuple[T1, ..., Tn] instead of (T1, ..., Tn)'')
            (\<lambda>_. ret (AnyType from_error None)))
      else
        (let star_count = length [it \<leftarrow> items t. isinstance_StarType it]
         in if star_count > 1 then
              bnd (fail ''At most one star type allowed in a tuple'' None)
                (\<lambda>_. if implicit t then
                        bnd (named_type e ''builtins.tuple'' None)
                          (\<lambda>fb. ret (TupleType (map (\<lambda>_. AnyType from_error None) (items t))
                                       fb False))
                      else ret (AnyType from_error None))
            else
              bnd (if \<not> is_fake (type (partial_fallback t)) then ret (partial_fallback t)
                   else named_type e ''builtins.tuple'' (Some [AnyType special_form None]))
                (\<lambda>fb. bnd (anal_array self (items t) True)
                  (\<lambda>its. ret (TupleType its fb False)))))"

primrec anal_typeddict_items :: "methods \<Rightarrow> (string \<times> ty) list \<Rightarrow> (string \<times> ty) list M" where
  "anal_typeddict_items self [] = ret []"
| "anal_typeddict_items self (p # ps) =
     bnd (anal_type self (snd p) True)
       (\<lambda>r. bnd (anal_typeddict_items self ps) (\<lambda>rs. ret ((fst p, r) # rs)))"

definition visit_typeddict_type :: "methods \<Rightarrow> ty \<Rightarrow> ty M" where
  "visit_typeddict_type self t =
     bnd (anal_typeddict_items self (td_items t))
       (\<lambda>its. ret (TypedDictType its (required_keys t) (td_fallback t)))"

definition visit_raw_expression_type :: "'x env_scheme \<Rightarrow> ty \<Rightarrow> ty M" where
  "visit_raw_expression_type e t =
     bnd (if report_invalid_types e then
            (let msg =
                   (if base_type_name t = ''builtins.int'' \<or> base_type_name t = ''builtins.bool''
                    then ''Invalid type: try using Literal['' @ py_repr e (literal_value t)
                           @ ''] instead?''
                    else if base_type_name t = ''builtins.float''
                            \<or> base_type_name t = ''builtins.complex''
                    then ''Invalid type: '' @ simple_name e (base_type_name t)
                           @ '' literals cannot be used as a type''
                    else ''Invalid type comment or annotation'')
             in bnd (fail msg (Some VALID_TYPE))
                  (\<lambda>_. case raw_note t of Some n \<Rightarrow> emit_note n | None \<Rightarrow> ret ()))
          else ret ())
       (\<lambda>_. ret (AnyType from_error None))"

definition visit_star_type :: "methods \<Rightarrow> ty \<Rightarrow> ty M" where
  "visit_star_type self t = bnd (anal_type self (star_type t) True) (\<lambda>r. ret (StarType r))"

definition visit_union_type :: "methods \<Rightarrow> ty \<Rightarrow> ty M" where
  "visit_union_type self t = bnd (anal_array self (items t) True) (\<lambda>its. ret (new_UnionType its))"

definition visit_partial_type :: "ty \<Rightarrow> ty M" where
  "visit_partial_type t = raise (AssertionError ''Internal error: Unexpected partial type'')"

definition visit_ellipsis_type :: "ty \<Rightarrow> ty M" where
  "visit_ellipsis_type t =
     bnd (fail (''Unexpected '...'' @ [CHR 0x27]) None) (\<lambda>_. ret (AnyType from_error None))"

definition visit_type_type :: "'x env_scheme \<Rightarrow> methods \<Rightarrow> ty \<Rightarrow> ty M" where
  "visit_type_type e self t =
     bnd (anal_type self (item t) True) (\<lambda>it. ret (make_normalized e it))"

definition visit_placeholder_type :: "'x env_scheme \<Rightarrow> methods \<Rightarrow> ty \<Rightarrow> ty M" where
  "visit_placeholder_type e self t =
     (case (case ph_fullname t of None \<Rightarrow> None | Some f \<Rightarrow> lookup_fully_qualified e f) of
        None \<Rightarrow> bnd (emit [Defer]) (\<lambda>_. ret t)
      | Some n \<Rightarrow>
          if isinstance_PlaceholderNode (node n) then bnd (emit [Defer]) (\<lambda>_. ret t)
          else
            (case node n of
               Some (TypeInfoNode info) \<Rightarrow> analyze_type_with_type_info e self info (args t)
             | _ \<Rightarrow> raise (AssertionError [])))"

subsection \<open>Dispatch and recursion\<close>

text \<open>\<^verbatim>\<open>t.accept(self)\<close>: the visit method of the variant of \<^verbatim>\<open>t\<close>.\<close>

definition dispatch :: "'x env_scheme \<Rightarrow> methods \<Rightarrow> ty \<Rightarrow> ty M" where
  "dispatch e self t =
     (case t of
        UnboundType _ _ _ _ _ _ \<Rightarrow> visit_unbound_type e self t False
      | AnyType _ _ \<Rightarrow> ret t
      | NoneType \<Rightarrow> ret t
      | UninhabitedType _ \<Rightarrow> ret t
      | DeletedType \<Rightarrow> ret t
      | TypeVarType _ \<Rightarrow> ret t
      | InstanceType _ \<Rightarrow> ret t
      | TupleType _ _ _ \<Rightarrow> visit_tuple_type e self t
      | TypedDictType _ _ _ \<Rightarrow> visit_typeddict_type self t
      | CallableType _ _ _ _ _ _ _ \<Rightarrow> visit_callable_type e self t True
      | UnionType _ \<Rightarrow> visit_union_type self t
      | LiteralType _ _ \<Rightarrow> ret t
      | TypeType _ \<Rightarrow> visit_type_type e self t
      | StarType _ \<Rightarrow> visit_star_type self t
      | TypeList _ \<Rightarrow> visit_type_list t
      | CallableArgument _ _ _ \<Rightarrow> visit_callable_argument t
      | EllipsisType \<Rightarrow> visit_ellipsis_type t
      | RawExpressionType _ _ _ \<Rightarrow> visit_raw_expression_type e t
      | PartialType \<Rightarrow> visit_partial_type t
      | PlaceholderType _ _ \<Rightarrow> visit_placeholder_type e self t)"

text \<open>
  The recursion of the analyser does not follow the structure of the type it is given
  (a class can refer to items that are analysed again, a hook can do anything), so it is
  bounded by a depth, as it is by the interpreter's recursion limit: at depth zero a
  recursive call raises \<^verbatim>\<open>RecursionError\<close>.
\<close>

primrec methods_at :: "nat \<Rightarrow> 'x env_scheme \<Rightarrow> methods" where
  "methods_at 0 e =
     \<lparr> accept = (\<lambda>t. raise RecursionError),
       visit_unbound_type_literal = (\<lambda>t. raise RecursionError),
       analyze_literal_param_rec = (\<lambda>idx t. raise RecursionError) \<rparr>"
| "methods_at (Suc n) e =
     \<lparr> accept = dispatch e (methods_at n e),
       visit_unbound_type_literal = (\<lambda>t. visit_unbound_type e (methods_at n e) t True),
       analyze_literal_param_rec = analyze_literal_param e (methods_at n e) \<rparr>"

text \<open>
  The entry point \<^verbatim>\<open>resolve\<close> of the spec: \<^verbatim>\<open>t.accept(analyzer)\<close> with the given
  recursion depth.
\<close>

definition resolve :: "nat \<Rightarrow> 'x env_scheme \<Rightarrow> ty \<Rightarrow> ty M" where
  "resolve depth e t = accept (methods_at depth e) t"


section \<open>Specification-level functions and sample values\<close>

text \<open>
  The substitution that the spec's alias expansion describes, written by recursion on the
  type: a reference to a formal (an unbound type or a type variable of that name) becomes
  the corresponding actual, inside the arguments of instances, the items of tuples, the
  members of unions and the argument and return types of callables. The types around
  the replaced references are built again by their constructors: a union is flattened, as
  the data model requires, and an instance has the class and the new arguments only.
\<close>

definition is_formal :: "string list \<Rightarrow> ty \<Rightarrow> bool" where
  "is_formal vars t = (case tvar_name_of t of None \<Rightarrow> False | Some n \<Rightarrow> n \<noteq> [] \<and> n \<in> set vars)"

fun subst_formals :: "string list \<Rightarrow> ty list \<Rightarrow> ty \<Rightarrow> ty" where
  "subst_formals vars subs (UnboundType n a opt e s f) =
     (if n \<noteq> [] \<and> n \<in> set vars then subs ! index_of vars n else UnboundType n a opt e s f)"
| "subst_formals vars subs (TypeVarType d) =
     (if tv_name d \<noteq> [] \<and> tv_name d \<in> set vars then subs ! index_of vars (tv_name d)
      else TypeVarType d)"
| "subst_formals vars subs (InstanceType (Instance info a iv lkv)) =
     InstanceType (new_Instance info (map (subst_formals vars subs) a))"
| "subst_formals vars subs (TupleType its fb imp) =
     TupleType (map (subst_formals vars subs) its) fb imp"
| "subst_formals vars subs (UnionType its) = new_UnionType (map (subst_formals vars subs) its)"
| "subst_formals vars subs (CallableType ats ks ns rt fb vs ell) =
     CallableType (map (subst_formals vars subs) ats) ks ns (subst_formals vars subs rt) fb vs ell"
| "subst_formals vars subs t = t"

text \<open>
  The spec's "flexible alias" shorthand: an instance of the pass-through class unwraps to
  its last argument.
\<close>

definition unwrap_flexible_alias :: "ty \<Rightarrow> exn + ty" where
  "unwrap_flexible_alias t =
     (case t of
        InstanceType i \<Rightarrow>
          if info_fullname (type i) = ''mypy_extensions.FlexibleAlias'' then
            (if inst_args i = [] then Inl IndexError else Inr (last (inst_args i)))
          else Inr t
      | _ \<Rightarrow> Inr t)"

text \<open>
  Sample values for evaluating the model on concrete inputs: an instantiation of the
  parameters with the tables and messages of mypy, a class, and an unbound type with no
  markers.
\<close>

definition sample_externals :: externals where
  "sample_externals =
     \<lparr> nongen_builtins =
         [''builtins.tuple'' \<mapsto> ''typing.Tuple'', ''builtins.enumerate'' \<mapsto> [],
          ''builtins.list'' \<mapsto> ''typing.List'', ''builtins.dict'' \<mapsto> ''typing.Dict'',
          ''builtins.set'' \<mapsto> ''typing.Set'', ''builtins.frozenset'' \<mapsto> ''typing.FrozenSet''],
       format_type_bare = (\<lambda>t. ''<type>''),
       quote_type_string = (\<lambda>s. ''\"'' @ s @ ''\"''),
       IMPLICIT_GENERIC_ANY_BUILTIN =
         (\<lambda>a. ''Implicit generic \"Any\". Use \"'' @ a @ ''\" and specify generic parameters''),
       BARE_GENERIC = (\<lambda>s. ''Missing type parameters for generic type '' @ s),
       INVALID_TYPE_RAW_ENUM_VALUE =
         (\<lambda>a b. ''Invalid type: try using Literal['' @ a @ ''.'' @ b @ ''] instead?''),
       check_arg_names = (\<lambda>_. []),
       check_arg_kinds = (\<lambda>_. []),
       simple_name = (\<lambda>n. if take 9 n = ''builtins.'' then drop 9 n else n),
       py_repr = (\<lambda>v. ''<repr>'') \<rparr>"

definition class_info :: "string \<Rightarrow> string \<Rightarrow> string list \<Rightarrow> type_info" where
  "class_info m n tvs =
     \<lparr> info_fullname = m @ ''.'' @ n, info_name = n, type_vars = tvs,
       defn_type_vars = tvs, is_enum = False, is_fake = False \<rparr>"

definition unbound :: "string \<Rightarrow> ty list \<Rightarrow> ty" where
  "unbound n a = UnboundType n a False False None None"


text \<open>
  A sample symbol table: some classes of \<^verbatim>\<open>builtins\<close>, some special forms of
  \<^verbatim>\<open>typing\<close>, an argument constructor of \<^verbatim>\<open>mypy_extensions\<close>, and a forward
  reference \<^verbatim>\<open>Fwd\<close> to a class that is not defined yet. Every symbol is found under its
  short name and under its full name.
\<close>

definition node_symbol :: "symbol_node \<Rightarrow> symbol_table_node" where
  "node_symbol nd = \<lparr> kind = 1, node = Some nd, fullname = Some (node_fullname nd) \<rparr>"

definition sample_nodes :: "symbol_node list" where
  "sample_nodes =
     [TypeInfoNode (class_info ''builtins'' ''int'' []),
      TypeInfoNode (class_info ''builtins'' ''str'' []),
      TypeInfoNode (class_info ''builtins'' ''bool'' []),
      TypeInfoNode (class_info ''builtins'' ''function'' []),
      TypeInfoNode (class_info ''builtins'' ''tuple'' [''T'']),
      TypeInfoNode (class_info ''builtins'' ''list'' [''T'']),
      OtherNode ''Tuple'' ''typing.Tuple'',
      OtherNode ''Callable'' ''typing.Callable'',
      OtherNode ''Literal'' ''typing.Literal'',
      OtherNode ''ClassVar'' ''typing.ClassVar'',
      FuncBase ''DefaultArg'' ''mypy_extensions.DefaultArg'',
      PlaceholderNode ''Fwd'' ''m.Fwd'' True]"

definition sample_lookup :: "string \<Rightarrow> symbol_table_node option" where
  "sample_lookup n =
     map_option node_symbol
       (find (\<lambda>nd. node_name nd = n \<or> node_fullname nd = n) sample_nodes)"

definition sample_env :: env where
  "sample_env =
     externals.extend sample_externals
       (env.fields sample_lookup sample_lookup sample_lookup (\<lambda>_. False) False (\<lambda>_. None)
          UnionType TypeType (\<lambda>_. []) (\<lambda>_. None) (\<lambda>_. None)
          False False False False False True False False (3, 7))"

definition start_state :: analyser where
  "start_state =
     \<lparr> tvar_scope = TypeVarScope [] None 0 0 False None, nesting_level = 0,
       aliases_used = {}, events = [] \<rparr>"

text \<open>
  The plain type expressions, on which the analysis is shown to return: no partial type
  occurs in them; every name is unbound, has no node, is a placeholder, or is a class with
  a full name that is no special form, named tuple or typed dict and has no plugin hook; a
  callable type declares no type variables; and a fallback that is not filled in yet can
  be looked up.
\<close>

definition special_forms :: "string list" where
  "special_forms =
     [''builtins.None'', ''typing.Any'', ''builtins.Any'', ''typing.Final'',
      ''typing_extensions.Final'', ''typing.Tuple'', ''typing.Union'', ''typing.Optional'',
      ''typing.Callable'', ''typing.Type'', ''typing.ClassVar'', ''mypy_extensions.NoReturn'',
      ''typing.NoReturn'', ''typing_extensions.Literal'', ''typing.Literal'',
      ''typing_extensions.Annotated'']"

definition class_defined :: "'x env_scheme \<Rightarrow> string \<Rightarrow> bool" where
  "class_defined e n =
     (case lookup_fully_qualified e n of
        None \<Rightarrow> False
      | Some symb \<Rightarrow> (case node symb of Some (TypeInfoNode _) \<Rightarrow> True | _ \<Rightarrow> False))"

definition plain_class :: "'x env_scheme \<Rightarrow> type_info \<Rightarrow> bool" where
  "plain_class e info =
     (get_type_analyze_hook e (info_fullname info) = None
      \<and> info_fullname info \<notin> set special_forms
      \<and> info_tuple_type e info = None \<and> info_typeddict_type e info = None)"

fun plain_type :: "'x env_scheme \<Rightarrow> ty \<Rightarrow> bool" where
  "plain_type e (UnboundType nm as opt eti ose osf) =
     (list_all (plain_type e) as
      \<and> (case lookup_qualified e nm of
            None \<Rightarrow> True
          | Some symb \<Rightarrow>
              (case node symb of
                 None \<Rightarrow> True
               | Some (PlaceholderNode _ _ _) \<Rightarrow> True
               | Some (TypeInfoNode info) \<Rightarrow> fullname symb \<noteq> None \<and> plain_class e info
               | _ \<Rightarrow> False)))"
| "plain_type e (InstanceType (Instance info as iv lkv)) = list_all (plain_type e) as"
| "plain_type e (TupleType its fb imp) =
     (list_all (plain_type e) its
      \<and> ((imp \<and> \<not> allow_tuple_literal e)
         \<or> (\<not> imp \<and> length [it \<leftarrow> its. isinstance_StarType it] > 1)
         \<or> (length [it \<leftarrow> its. isinstance_StarType it] \<le> 1 \<and> \<not> is_fake (type fb))
         \<or> class_defined e ''builtins.tuple''))"
| "plain_type e (TypedDictType its rk fb) = list_all (plain_type e) (map snd its)"
| "plain_type e (CallableType ats ks ns rt fb vs ell) =
     (vs = [] \<and> list_all (plain_type e) ats \<and> plain_type e rt
      \<and> (\<not> is_fake (type fb) \<or> class_defined e ''builtins.function''))"
| "plain_type e (UnionType its) = list_all (plain_type e) its"
| "plain_type e (TypeType it) = plain_type e it"
| "plain_type e (StarType it) = plain_type e it"
| "plain_type e (TypeList its) = list_all (plain_type e) its"
| "plain_type e (CallableArgument it an ac) = plain_type e it"
| "plain_type e PartialType = False"
| "plain_type e (PlaceholderType fn as) =
     (list_all (plain_type e) as
      \<and> (case fn of
            None \<Rightarrow> True
          | Some f \<Rightarrow>
              (case lookup_fully_qualified e f of
                 None \<Rightarrow> True
               | Some symb \<Rightarrow>
                   (case node symb of
                      Some (PlaceholderNode _ _ _) \<Rightarrow> True
                    | Some (TypeInfoNode info) \<Rightarrow>
                        info_tuple_type e info = None \<and> info_typeddict_type e info = None
                    | _ \<Rightarrow> False))))"
| "plain_type e t = True"


text \<open>
  The scalar arguments of the literal form, as the spec describes them: a raw scalar
  expression with a value, and a string (an unbound type that was written as a string). The
  literal type of such an argument has the value of the argument and, as its fallback, the
  instance of the class of the scalar.
\<close>

fun scalar_value :: "ty \<Rightarrow> literal_value option" where
  "scalar_value (RawExpressionType lv btn nt) = lv"
| "scalar_value (UnboundType n a opt eti (Some x) (Some f)) = Some (LitStr x)"
| "scalar_value t = None"

fun scalar_class :: "ty \<Rightarrow> string" where
  "scalar_class (RawExpressionType lv btn nt) = btn"
| "scalar_class (UnboundType n a opt eti ose (Some f)) = f"
| "scalar_class t = []"

definition is_literal_of :: "'x env_scheme \<Rightarrow> ty \<Rightarrow> ty \<Rightarrow> bool" where
  "is_literal_of e a l =
     (case (scalar_value a, l) of
        (Some v, LiteralType v' fb) \<Rightarrow>
          v' = v \<and> (\<forall>s. named_type_with_normalized_str e (scalar_class a) s = (Inr fb, s))
      | _ \<Rightarrow> False)"


text \<open>
  The entries of the bracketed list of a callable signature, as the spec describes them: the
  type and the name of an entry, and its kind, which is that of a required positional
  argument for a plain type and comes from the constructor of a callable argument; an
  entry with no or an unknown constructor, or a starred one with a name, has no kind.
\<close>

definition entry_type :: "ty \<Rightarrow> ty" where
  "entry_type arg = (case arg of CallableArgument t _ _ \<Rightarrow> t | _ \<Rightarrow> arg)"

definition entry_name :: "ty \<Rightarrow> string option" where
  "entry_name arg = (case arg of CallableArgument _ nm _ \<Rightarrow> nm | _ \<Rightarrow> None)"

definition entry_kind :: "'x env_scheme \<Rightarrow> ty \<Rightarrow> arg_kind option" where
  "entry_kind e arg =
     (case arg of
        CallableArgument _ nm cons \<Rightarrow>
          (case cons of
             None \<Rightarrow> None
           | Some c \<Rightarrow>
               (case lookup_qualified e c of
                  None \<Rightarrow> None
                | Some found \<Rightarrow>
                    (case fullname found of
                       None \<Rightarrow> None
                     | Some f \<Rightarrow>
                         (case ARG_KINDS_BY_CONSTRUCTOR f of
                            None \<Rightarrow> None
                          | Some k \<Rightarrow>
                              if nm \<noteq> None \<and> (k = ARG_STAR \<or> k = ARG_STAR2) then None
                              else Some k))))
      | _ \<Rightarrow> Some ARG_POS)"



section \<open>Properties of nullable wrapping and alias expansion\<close>

lemma isinstance_NoneType_iff: "isinstance_NoneType t \<longleftrightarrow> t = NoneType"
  by (cases t) (simp_all add: isinstance_NoneType_def)

lemma union_items_flat: "i \<in> set (union_items t) \<Longrightarrow> \<not> isinstance_UnionType i"
  by (induction t arbitrary: i rule: union_items.induct) (auto simp: isinstance_UnionType_def)

lemma union_items_id: "\<not> isinstance_UnionType t \<Longrightarrow> union_items t = [t]"
  by (cases t) (auto simp: isinstance_UnionType_def)

lemma concat_union_items_flat:
  "\<forall>i \<in> set xs. \<not> isinstance_UnionType i \<Longrightarrow> concat (map union_items xs) = xs"
  by (induction xs) (auto simp: union_items_id)

lemma make_optional_type_idem: "make_optional_type (make_optional_type t) = make_optional_type t"
proof -
  consider (none) "isinstance_NoneType t"
    | (union) "\<not> isinstance_NoneType t" "isinstance_UnionType t"
    | (other) "\<not> isinstance_NoneType t" "\<not> isinstance_UnionType t"
    by blast
  then show ?thesis
  proof cases
    case none
    then show ?thesis by (simp add: make_optional_type_def)
  next
    case union
    let ?ys = "[item \<leftarrow> union_items t. \<not> isinstance_NoneType item]"
    have flat: "\<forall>i \<in> set (?ys @ [NoneType]). \<not> isinstance_UnionType i"
      by (auto simp: isinstance_UnionType_def dest: union_items_flat)
    have "union_items (UnionType (?ys @ [NoneType])) = ?ys @ [NoneType]"
      using concat_union_items_flat [OF flat] by simp
    then have "[item \<leftarrow> union_items (UnionType (?ys @ [NoneType])). \<not> isinstance_NoneType item] = ?ys"
      by (simp add: isinstance_NoneType_def)
    with union show ?thesis
      by (simp add: make_optional_type_def isinstance_NoneType_def isinstance_UnionType_def)
  next
    case other
    then show ?thesis
      by (simp add: make_optional_type_def isinstance_NoneType_def isinstance_UnionType_def
          union_items_id)
  qed
qed

lemma sequence_sum_Inr: "sequence_sum (map (\<lambda>a. Inr (f a)) xs) = Inr (map f xs)"
  by (induction xs) simp_all

lemma index_of_less: "x \<in> set xs \<Longrightarrow> index_of xs x < length xs"
  by (induction xs) auto

lemma subst_formals_formal:
  "is_formal vars t \<Longrightarrow> subst_formals vars subs t = subs ! index_of vars (the (tvar_name_of t))"
  by (cases t) (auto simp: is_formal_def tvar_name_of_def)

lemma subst_formals_args:
  "\<not> is_formal vars t \<Longrightarrow>
   subst_formals vars subs t = set_typ_args t (map (subst_formals vars subs) (get_typ_args t))"
proof (cases t)
  case (InstanceType i)
  then show ?thesis by (cases i) (simp add: set_typ_args_def get_typ_args_def)
qed (auto simp: is_formal_def tvar_name_of_def set_typ_args_def get_typ_args_def)

lemma replace_alias_tvars_args:
  "length subs = length vars \<Longrightarrow>
   replace_alias_tvars tp vars subs =
     Inr (set_typ_args tp (map (subst_formals vars subs) (get_typ_args tp)))"
proof (induction tp vars subs rule: replace_alias_tvars.induct)
  case (1 tp vars subs)
  have step: "(case tvar_name_of arg of
                 None \<Rightarrow> replace_alias_tvars arg vars subs
               | Some tvar \<Rightarrow>
                   if tvar \<noteq> [] \<and> tvar \<in> set vars then
                     (if index_of vars tvar < length subs
                      then Inr (subs ! index_of vars tvar) else Inl IndexError)
                   else replace_alias_tvars arg vars subs)
              = Inr (subst_formals vars subs arg)"
    if arg: "arg \<in> set (get_typ_args tp)" for arg
  proof (cases "is_formal vars arg")
    case True
    then obtain tvar where tv: "tvar_name_of arg = Some tvar" "tvar \<noteq> []" "tvar \<in> set vars"
      by (auto simp: is_formal_def split: option.splits)
    with "1.prems" have "index_of vars tvar < length subs"
      by (simp add: index_of_less)
    with tv True show ?thesis
      by (simp add: subst_formals_formal)
  next
    case False
    have "replace_alias_tvars arg vars subs = Inr (subst_formals vars subs arg)"
    proof (cases "tvar_name_of arg")
      case None
      with "1.IH"(1) [OF arg None "1.prems"] False show ?thesis
        by (simp add: subst_formals_args)
    next
      case (Some tvar)
      with False have "\<not> (tvar \<noteq> [] \<and> tvar \<in> set vars)"
        by (simp add: is_formal_def)
      with "1.IH"(2) [OF arg Some _ "1.prems"] False show ?thesis
        by (simp add: subst_formals_args)
    qed
    with False show ?thesis
      by (auto simp: is_formal_def split: option.splits)
  qed
  have m: "map (\<lambda>arg. case tvar_name_of arg of
                 None \<Rightarrow> replace_alias_tvars arg vars subs
               | Some tvar \<Rightarrow>
                   if tvar \<noteq> [] \<and> tvar \<in> set vars then
                     (if index_of vars tvar < length subs
                      then Inr (subs ! index_of vars tvar) else Inl IndexError)
                   else replace_alias_tvars arg vars subs) (get_typ_args tp)
        = map (\<lambda>a. Inr (subst_formals vars subs a)) (get_typ_args tp)"
    by (rule map_cong [OF refl]) (rule step)
  show ?case
    by (subst replace_alias_tvars.simps, simp only: m sequence_sum_Inr sum.case)
qed

lemma replace_alias_tvars_subst:
  "length subs = length vars \<Longrightarrow> \<not> is_formal vars tp \<Longrightarrow>
   replace_alias_tvars tp vars subs = Inr (subst_formals vars subs tp)"
  by (simp add: replace_alias_tvars_args subst_formals_args)

lemma replace_alias_tvars_formal:
  "length subs = length vars \<Longrightarrow> is_formal vars tp \<Longrightarrow>
   replace_alias_tvars tp vars subs = Inr tp"
  by (cases tp)
    (auto simp: replace_alias_tvars_args is_formal_def tvar_name_of_def set_typ_args_def)



section \<open>Properties of the analyser\<close>

lemmas monad_defs = bnd_def ret_def raise_def modify_def emit_def fail_def emit_note_def
  finally_do_def lift_sum_def

lemmas sample_defs = sample_env_def sample_lookup_def sample_nodes_def node_symbol_def
  start_state_def node_name_def node_fullname_def class_info_def unbound_def
  sample_externals_def externals.extend_def env.fields_def

lemma bnd_Inr: "m s = (Inr v, s') \<Longrightarrow> bnd m f s = f v s'"
  by (simp add: bnd_def)

lemma bnd_Inl: "m s = (Inl x, s') \<Longrightarrow> bnd m f s = (Inl x, s')"
  by (simp add: bnd_def)

lemma bnd_returns:
  "bnd m f s = (Inr r, s') \<Longrightarrow> \<exists>v s1. m s = (Inr v, s1) \<and> f v s1 = (Inr r, s')"
  by (auto simp: bnd_def split: prod.splits sum.splits)

lemma anal_array_length:
  "anal_array self ts nested s = (Inr rs, s') \<Longrightarrow> length rs = length ts"
proof (induction ts arbitrary: s rs s')
  case Nil
  then show ?case by (simp add: ret_def)
next
  case (Cons t ts)
  from Cons.prems have
    "bnd (anal_type self t nested)
       (\<lambda>r. bnd (anal_array self ts nested) (\<lambda>rs. ret (r # rs))) s = (Inr rs, s')"
    by simp
  then obtain r s1 where
    "bnd (anal_array self ts nested) (\<lambda>rs. ret (r # rs)) s1 = (Inr rs, s')"
    by (blast dest: bnd_returns)
  then obtain rs' s2 where a: "anal_array self ts nested s1 = (Inr rs', s2)"
    and "ret (r # rs') s2 = (Inr rs, s')"
    by (blast dest: bnd_returns)
  then have "rs = r # rs'" by (simp add: ret_def)
  with Cons.IH [OF a] show ?case by simp
qed

lemma str_nat_nonempty: "str_nat n \<noteq> []"
  by (subst str_nat.simps) simp

lemma digit_zero: "n < 10 \<Longrightarrow> ''0123456789'' ! n = CHR ''0'' \<longleftrightarrow> n = 0"
proof (cases n)
  case 0
  then show ?thesis by simp
next
  case (Suc k)
  assume "n < 10"
  with Suc have "k < length ''123456789''" by simp
  then have "''123456789'' ! k \<in> set ''123456789''" by (rule nth_mem)
  then have "''123456789'' ! k \<noteq> CHR ''0''" by auto
  with Suc show ?thesis by simp
qed

lemma str_nat_zero: "str_nat m = ''0'' \<longleftrightarrow> m = 0"
proof (cases "m < 10")
  case True
  then show ?thesis
    by (subst str_nat.simps) (simp add: digit_zero)
next
  case False
  then have "str_nat m = str_nat (m div 10) @ [''0123456789'' ! (m mod 10)]"
    by (subst str_nat.simps) simp
  moreover have "length (str_nat (m div 10)) \<ge> 1"
    using str_nat_nonempty [of "m div 10"] by (cases "str_nat (m div 10)") simp_all
  ultimately have "length (str_nat m) \<ge> 2" by simp
  with False show ?thesis by auto
qed



lemma anal_type_returns:
  "(\<And>s1. \<exists>r s'. accept self x s1 = (Inr r, s')) \<Longrightarrow>
   \<exists>r s'. anal_type self x nested s = (Inr r, s')"
proof -
  assume a: "\<And>s1. \<exists>r s'. accept self x s1 = (Inr r, s')"
  show ?thesis
  proof (cases nested)
    case True
    from a [of "s\<lparr>nesting_level := nesting_level s + 1\<rparr>"] True show ?thesis
      by (auto simp: anal_type_def monad_defs)
  next
    case False
    from a [of s] False show ?thesis
      by (auto simp: anal_type_def monad_defs)
  qed
qed

lemma anal_array_returns:
  "(\<And>x s1. x \<in> set xs \<Longrightarrow> \<exists>r s'. accept self x s1 = (Inr r, s')) \<Longrightarrow>
   \<exists>rs s'. anal_array self xs nested s = (Inr rs, s')"
proof (induction xs arbitrary: s)
  case Nil
  then show ?case by (simp add: ret_def)
next
  case (Cons x xs)
  have "\<exists>r s'. anal_type self x nested s = (Inr r, s')"
    by (rule anal_type_returns) (simp add: Cons.prems)
  then obtain r s1 where r: "anal_type self x nested s = (Inr r, s1)" by blast
  have "\<exists>rs s'. anal_array self xs nested s1 = (Inr rs, s')"
    by (rule Cons.IH) (simp add: Cons.prems)
  then obtain rs s2 where rs: "anal_array self xs nested s1 = (Inr rs, s2)" by blast
  from r rs show ?case by (simp add: bnd_Inr ret_def)
qed

lemma anal_typeddict_items_returns:
  "(\<And>x s1. x \<in> snd ` set ps \<Longrightarrow> \<exists>r s'. accept self x s1 = (Inr r, s')) \<Longrightarrow>
   \<exists>rs s'. anal_typeddict_items self ps s = (Inr rs, s')"
proof (induction ps arbitrary: s)
  case Nil
  then show ?case by (simp add: ret_def)
next
  case (Cons p ps)
  have "\<exists>r s'. anal_type self (snd p) True s = (Inr r, s')"
    by (rule anal_type_returns) (simp add: Cons.prems)
  then obtain r s1 where r: "anal_type self (snd p) True s = (Inr r, s1)" by blast
  have "\<exists>rs s'. anal_typeddict_items self ps s1 = (Inr rs, s')"
    by (rule Cons.IH) (simp add: Cons.prems)
  then obtain rs s2 where rs: "anal_typeddict_items self ps s1 = (Inr rs, s2)" by blast
  from r rs show ?case by (simp add: bnd_Inr ret_def)
qed

lemma size_list_member: "x \<in> set xs \<Longrightarrow> size x < Suc (size_list size xs)"
  by (induction xs) auto

lemma size_snd_member:
  "(k, x) \<in> set ps \<Longrightarrow> size x < Suc (size_list (size_prod (\<lambda>_. 0) size) ps)"
  by (induction ps) auto


subsection \<open>The scope frame of a callable type\<close>

lemma tvar_scope_frame_returns:
  "tvar_scope_frame body s = (Inr r, s') \<Longrightarrow> tvar_scope s' = tvar_scope s"
  by (auto simp: tvar_scope_frame_def monad_defs Let_def split: prod.splits sum.splits)

lemma tvar_scope_frame_raises:
  "tvar_scope_frame body s = (Inl x, s') \<Longrightarrow>
     body (s\<lparr>tvar_scope := method_frame (tvar_scope s)\<rparr>) = (Inl x, s')"
  by (auto simp: tvar_scope_frame_def monad_defs Let_def split: prod.splits sum.splits)

lemma infer_nothing:
  "infer_type_variables e sc (CallableType [PartialType] ks ns NoneType fb vs ell) = Inr []"
  by (simp add: infer_type_variables_def add_new_names_def flatten_tvars_def remove_dups_def)

lemma bind_nothing:
  "bind_function_type_variables e (CallableType [PartialType] ks ns NoneType fb [] ell) s
     = (Inr [], s)"
  by (simp add: bind_function_type_variables_def infer_nothing monad_defs)

lemma visit_callable_type_returns:
  "visit_callable_type e self t nested s = (Inr r, s') \<Longrightarrow> tvar_scope s' = tvar_scope s"
  unfolding visit_callable_type_def by (rule tvar_scope_frame_returns)


subsection \<open>The literal form\<close>

lemma str_nat_one: "str_nat (Suc 0) = ''1''"
  by (simp add: str_nat.simps)

lemma analyze_literal_param_scalar:
  assumes "is_literal_of e a l"
  shows "analyze_literal_param e self idx a s = (Inr (Some [l]), s)"
proof (cases a)
  case (RawExpressionType lv btn nt)
  with assms show ?thesis
    by (auto simp: is_literal_of_def analyze_literal_param_def isinstance_UnboundType_def
        monad_defs split: option.splits ty.splits)
next
  case (UnboundType n as opt eti ose osf)
  with assms show ?thesis
    by (cases ose; cases osf)
       (auto simp: is_literal_of_def analyze_literal_param_def isinstance_UnboundType_def
        monad_defs split: option.splits ty.splits)
qed (use assms in \<open>auto simp: is_literal_of_def\<close>)

lemma analyze_literal_loop_scalars:
  "list_all2 (is_literal_of e) as ls \<Longrightarrow>
     analyze_literal_loop e self i as out s = (Inr (make_union e (out @ ls)), s)"
proof (induction as arbitrary: ls i out)
  case Nil
  then show ?case by (simp add: ret_def)
next
  case (Cons a as)
  then obtain l ls' where ls: "ls = l # ls'" "is_literal_of e a l"
      "list_all2 (is_literal_of e) as ls'"
    by (auto simp: list_all2_Cons1)
  show ?case
    using Cons.IH [OF ls(3), of "i + 1" "out @ [l]"] analyze_literal_param_scalar [OF ls(2)]
    by (simp add: ls(1) bnd_def)
qed

lemma sample_named_type:
  "named_type_with_normalized_str sample_env ''builtins.int'' s
     = (Inr (Instance (class_info ''builtins'' ''int'' []) [] False None), s)"
  "named_type_with_normalized_str sample_env ''builtins.str'' s
     = (Inr (Instance (class_info ''builtins'' ''str'' []) [] False None), s)"
  by (simp_all add: named_type_with_normalized_str_def named_type_def new_Instance_def
      monad_defs Let_def sample_defs)



subsection \<open>Callable signatures\<close>

lemma named_type_found:
  "lookup_fully_qualified e n = Some fsym \<Longrightarrow> node fsym = Some (TypeInfoNode finfo) \<Longrightarrow>
     named_type e n None s
       = (Inr (new_Instance finfo
                 (replicate (length (defn_type_vars finfo)) (AnyType special_form None))), s)"
  by (simp add: named_type_def Let_def ret_def)

lemma analyze_callable_args_loop_kinds:
  "list_all2 (\<lambda>it k. entry_kind e it = Some k) its ks2 \<Longrightarrow>
     analyze_callable_args_loop e its (as, ks, ns) s
       = (Inr (Some (as @ map entry_type its, ks @ ks2, ns @ map entry_name its)), s)"
proof (induction its arbitrary: as ks ns ks2)
  case Nil
  then show ?case by (simp add: ret_def)
next
  case (Cons it its)
  then obtain k ks' where ks2: "ks2 = k # ks'" "entry_kind e it = Some k"
      "list_all2 (\<lambda>it k. entry_kind e it = Some k) its ks'"
    by (auto simp: list_all2_Cons1)
  note IH = Cons.IH [OF ks2(3)]
  show ?case
    using ks2(2)
    by (cases it)
       (auto simp: ks2(1) IH entry_kind_def entry_type_def entry_name_def
          split: option.splits if_splits)
qed

lemma visit_callable_type_shape:
  assumes "visit_callable_type e self (CallableType ats ks ns rt fb vs ell) nested s = (Inr r, s')"
  shows "\<exists>ats' rt' fb' vs'. r = CallableType ats' ks ns rt' fb' vs' ell
           \<and> length ats' = length ats
           \<and> (\<exists>s1 s2. anal_type self rt nested s1 = (Inr rt', s2))"
proof -
  let ?t = "CallableType ats ks ns rt fb vs ell"
  let ?s0 = "s\<lparr>tvar_scope := method_frame (tvar_scope s)\<rparr>"
  from assms obtain sa where
    body: "bnd (if defining_alias e then ret (variables ?t) else bind_function_type_variables e ?t)
          (\<lambda>vars. bnd (anal_array self (arg_types ?t) nested)
            (\<lambda>ats. bnd (anal_type self (ret_type ?t) nested)
              (\<lambda>rt. bnd (if \<not> is_fake (type (fallback ?t)) then ret (fallback ?t)
                         else named_type e ''builtins.function'' None)
                (\<lambda>fb. bnd (anal_var_defs self vars)
                  (\<lambda>vds. ret (CallableType ats (arg_kinds ?t) (arg_names ?t) rt fb vds
                                 (is_ellipsis_args ?t))))))) ?s0 = (Inr r, sa)"
    unfolding visit_callable_type_def tvar_scope_frame_def Let_def
    by (auto dest!: bnd_returns simp: ret_def modify_def bnd_def split: prod.splits sum.splits)
  from bnd_returns [OF body] obtain vars s1 where
    b1: "bnd (anal_array self (arg_types ?t) nested)
            (\<lambda>ats. bnd (anal_type self (ret_type ?t) nested)
              (\<lambda>rt. bnd (if \<not> is_fake (type (fallback ?t)) then ret (fallback ?t)
                         else named_type e ''builtins.function'' None)
                (\<lambda>fb. bnd (anal_var_defs self vars)
                  (\<lambda>vds. ret (CallableType ats (arg_kinds ?t) (arg_names ?t) rt fb vds
                                 (is_ellipsis_args ?t)))))) s1 = (Inr r, sa)"
    by blast
  from bnd_returns [OF b1] obtain ats' s2 where
    a: "anal_array self (arg_types ?t) nested s1 = (Inr ats', s2)" and
    b2: "bnd (anal_type self (ret_type ?t) nested)
              (\<lambda>rt. bnd (if \<not> is_fake (type (fallback ?t)) then ret (fallback ?t)
                         else named_type e ''builtins.function'' None)
                (\<lambda>fb. bnd (anal_var_defs self vars)
                  (\<lambda>vds. ret (CallableType ats' (arg_kinds ?t) (arg_names ?t) rt fb vds
                                 (is_ellipsis_args ?t))))) s2 = (Inr r, sa)"
    by blast
  from bnd_returns [OF b2] obtain rt' s3 where
    r: "anal_type self (ret_type ?t) nested s2 = (Inr rt', s3)" and
    b3: "bnd (if \<not> is_fake (type (fallback ?t)) then ret (fallback ?t)
                         else named_type e ''builtins.function'' None)
                (\<lambda>fb. bnd (anal_var_defs self vars)
                  (\<lambda>vds. ret (CallableType ats' (arg_kinds ?t) (arg_names ?t) rt' fb vds
                                 (is_ellipsis_args ?t)))) s3 = (Inr r, sa)"
    by blast
  from bnd_returns [OF b3] obtain fb' s4 where
    b4: "bnd (anal_var_defs self vars)
                  (\<lambda>vds. ret (CallableType ats' (arg_kinds ?t) (arg_names ?t) rt' fb' vds
                                 (is_ellipsis_args ?t))) s4 = (Inr r, sa)"
    by blast
  from bnd_returns [OF b4] obtain vds s5 where
    "ret (CallableType ats' (arg_kinds ?t) (arg_names ?t) rt' fb' vds (is_ellipsis_args ?t)) s5
       = (Inr r, sa)"
    by blast
  then have "r = CallableType ats' ks ns rt' fb' vds ell"
    by (simp add: ret_def)
  moreover have "length ats' = length ats"
    using anal_array_length [OF a] by simp
  ultimately show ?thesis
    using r by auto
qed


lemma visit_callable_simple:
  assumes "\<not> defining_alias e \<Longrightarrow>
      bind_function_type_variables e (CallableType ats ks ns rt fb [] ell)
        (s\<lparr>tvar_scope := method_frame (tvar_scope s)\<rparr>)
       = (Inr [], s\<lparr>tvar_scope := method_frame (tvar_scope s)\<rparr>)"
    and "anal_array self ats True (s\<lparr>tvar_scope := method_frame (tvar_scope s)\<rparr>)
       = (Inr ats', s\<lparr>tvar_scope := method_frame (tvar_scope s)\<rparr>)"
    and "anal_type self rt True (s\<lparr>tvar_scope := method_frame (tvar_scope s)\<rparr>)
       = (Inr rt', s\<lparr>tvar_scope := method_frame (tvar_scope s)\<rparr>)"
    and "is_fake (type fb) \<Longrightarrow>
      named_type e ''builtins.function'' None (s\<lparr>tvar_scope := method_frame (tvar_scope s)\<rparr>)
       = (Inr fb, s\<lparr>tvar_scope := method_frame (tvar_scope s)\<rparr>)"
  shows "visit_callable_type e self (CallableType ats ks ns rt fb [] ell) True s
       = (Inr (CallableType ats' ks ns rt' fb [] ell), s)"
  using assms
  by (cases "defining_alias e"; cases "is_fake (type fb)")
     (simp_all add: visit_callable_type_def tvar_scope_frame_def Let_def bnd_def ret_def
        modify_def)

lemma plain_class_reference:
  assumes "lookup_qualified e nm = Some symb" and "node symb = Some (TypeInfoNode info)"
    and "fullname symb \<noteq> None"
    and "get_type_analyze_hook e (info_fullname info) = None"
    and "try_analyze_special_unbound_type e self (UnboundType nm [] False eti ose osf)
           (info_fullname info) = ret None"
    and "type_vars info = []" and "info_tuple_type e info = None"
    and "info_typeddict_type e info = None"
  shows "visit_unbound_type e self (UnboundType nm [] False eti ose osf) dl s
       = (Inr (InstanceType (Instance info [] False None)), s)"
  using assms
  by (auto simp: visit_unbound_type_def visit_unbound_type_nonoptional_def
        isinstance_PlaceholderNode_def isinstance_TypeVarExpr_def get_binding_sym_def
        analyze_type_with_type_info_def new_Instance_def monad_defs Let_def node_fullname_def)

lemma sample_lookup_class:
  "lookup_qualified sample_env ''int''
       = Some (node_symbol (TypeInfoNode (class_info ''builtins'' ''int'' [])))"
  "lookup_qualified sample_env ''str''
       = Some (node_symbol (TypeInfoNode (class_info ''builtins'' ''str'' [])))"
  "lookup_qualified sample_env ''bool''
       = Some (node_symbol (TypeInfoNode (class_info ''builtins'' ''bool'' [])))"
  by (simp_all add: sample_env_def sample_lookup_def sample_nodes_def node_name_def
      node_fullname_def class_info_def externals.extend_def env.fields_def)

lemma sample_not_special:
  "try_analyze_special_unbound_type sample_env self t ''builtins.int'' = ret None"
  "try_analyze_special_unbound_type sample_env self t ''builtins.str'' = ret None"
  "try_analyze_special_unbound_type sample_env self t ''builtins.bool'' = ret None"
  by (simp_all add: try_analyze_special_unbound_type_def)


lemma sample_env_fields:
  "get_type_analyze_hook sample_env = (\<lambda>_. None)"
  "info_tuple_type sample_env = (\<lambda>_. None)"
  "info_typeddict_type sample_env = (\<lambda>_. None)"
  "defining_alias sample_env = False"
  "make_union sample_env = UnionType"
  "check_arg_names sample_env = (\<lambda>_. [])"
  "check_arg_kinds sample_env = (\<lambda>_. [])"
  "is_typeshed_stub sample_env = False"
  "disallow_any_generics sample_env = False"
  by (simp_all add: sample_env_def sample_externals_def externals.extend_def env.fields_def)

lemma class_info_simps:
  "info_fullname (class_info m c tvs) = m @ ''.'' @ c"
  "type_vars (class_info m c tvs) = tvs"
  "defn_type_vars (class_info m c tvs) = tvs"
  "is_fake (class_info m c tvs) = False"
  by (simp_all add: class_info_def)

lemma node_symbol_simps:
  "node (node_symbol nd) = Some nd"
  "fullname (node_symbol nd) = Some (node_fullname nd)"
  by (simp_all add: node_symbol_def)

lemma accept_Suc: "accept (methods_at (Suc n) e) = dispatch e (methods_at n e)"
  by simp

lemma sample_plain_class:
  "anal_type (methods_at (Suc n) sample_env) (unbound ''int'' []) True s
       = (Inr (InstanceType (Instance (class_info ''builtins'' ''int'' []) [] False None)), s)"
  "anal_type (methods_at (Suc n) sample_env) (unbound ''str'' []) True s
       = (Inr (InstanceType (Instance (class_info ''builtins'' ''str'' []) [] False None)), s)"
  "anal_type (methods_at (Suc n) sample_env) (unbound ''bool'' []) True s
       = (Inr (InstanceType (Instance (class_info ''builtins'' ''bool'' []) [] False None)), s)"
proof -
  have *: "anal_type (methods_at (Suc n) sample_env) (unbound nm []) True s
       = (Inr (InstanceType (Instance (class_info ''builtins'' nm []) [] False None)), s)"
    if l: "lookup_qualified sample_env nm
             = Some (node_symbol (TypeInfoNode (class_info ''builtins'' nm [])))"
      and sp: "\<And>self t. try_analyze_special_unbound_type sample_env self t
                 (info_fullname (class_info ''builtins'' nm [])) = ret None"
    for nm
  proof -
    have "visit_unbound_type sample_env (methods_at n sample_env)
            (UnboundType nm [] False False None None) False s1
         = (Inr (InstanceType (Instance (class_info ''builtins'' nm []) [] False None)), s1)"
      for s1
      by (rule plain_class_reference [OF l _ _ _ sp])
         (simp_all add: node_symbol_simps class_info_simps sample_env_fields)
    then show ?thesis
      by (simp add: anal_type_def accept_Suc dispatch_def unbound_def monad_defs
          del: methods_at.simps)
  qed
  show "anal_type (methods_at (Suc n) sample_env) (unbound ''int'' []) True s
       = (Inr (InstanceType (Instance (class_info ''builtins'' ''int'' []) [] False None)), s)"
    by (rule *) (simp_all add: sample_lookup_class sample_not_special class_info_simps)
  show "anal_type (methods_at (Suc n) sample_env) (unbound ''str'' []) True s
       = (Inr (InstanceType (Instance (class_info ''builtins'' ''str'' []) [] False None)), s)"
    by (rule *) (simp_all add: sample_lookup_class sample_not_special class_info_simps)
  show "anal_type (methods_at (Suc n) sample_env) (unbound ''bool'' []) True s
       = (Inr (InstanceType (Instance (class_info ''builtins'' ''bool'' []) [] False None)), s)"
    by (rule *) (simp_all add: sample_lookup_class sample_not_special class_info_simps)
qed

lemma type_variable_query_class:
  "lookup nm = Some symb \<Longrightarrow> node symb = Some (TypeInfoNode info) \<Longrightarrow>
     type_variable_query lookup sc ic ib (UnboundType nm [] opt eti ose osf) = Inr []"
  by (simp add: Let_def seems_like_callable_def flatten_tvars_def remove_dups_def)

lemma bind_function_type_variables_none:
  "variables t = [] \<Longrightarrow> infer_type_variables e (tvar_scope s) t = Inr [] \<Longrightarrow>
     bind_function_type_variables e t s = (Inr [], s)"
  by (simp add: bind_function_type_variables_def monad_defs)

lemma add_new_names_Nil: "add_new_names acc [] = acc"
  by (simp add: add_new_names_def)

lemma infer_type_variables_any:
  "infer_type_variables e sc (CallableType [AnyType k1 m1, AnyType k2 m2] ks ns rt fb vs ell)
     = (case type_variable_query (lookup_qualified e) sc False False rt of
          Inl ex \<Rightarrow> Inl ex | Inr l \<Rightarrow> Inr (add_new_names [] l))"
  by (simp add: infer_type_variables_def flatten_tvars_def remove_dups_def add_new_names_Nil
      split: sum.splits)

lemma sample_query:
  "type_variable_query (lookup_qualified sample_env) sc ic ib (unbound ''int'' []) = Inr []"
  "type_variable_query (lookup_qualified sample_env) sc ic ib (unbound ''str'' []) = Inr []"
  "type_variable_query (lookup_qualified sample_env) sc ic ib (unbound ''bool'' []) = Inr []"
  by (simp_all add: unbound_def sample_lookup_class node_symbol_simps Let_def
      seems_like_callable_def flatten_tvars_def remove_dups_def)

lemma anal_type_any:
  "anal_type (methods_at (Suc n) e) (AnyType k m) True s = (Inr (AnyType k m), s)"
  by (simp add: anal_type_def dispatch_def monad_defs)

lemma sample_function:
  "lookup_fully_qualified sample_env ''builtins.function''
     = Some (node_symbol (TypeInfoNode (class_info ''builtins'' ''function'' [])))"
  by (simp add: sample_env_def sample_lookup_def sample_nodes_def node_name_def
      node_fullname_def class_info_def externals.extend_def env.fields_def)

lemma sample_default_arg:
  "lookup_qualified sample_env ''DefaultArg''
     = Some (node_symbol (FuncBase ''DefaultArg'' ''mypy_extensions.DefaultArg''))"
  by (simp add: sample_env_def sample_lookup_def sample_nodes_def node_name_def
      node_fullname_def class_info_def externals.extend_def env.fields_def)

lemma sample_callable_visit:
  "visit_callable_type sample_env (methods_at (Suc n) sample_env)
       (CallableType [unbound ''int'' [], unbound ''str'' []] ks ns (unbound ''bool'' [])
          (Instance (class_info ''builtins'' ''function'' []) [] False None) [] ell) True s
     = (Inr (CallableType
          [InstanceType (Instance (class_info ''builtins'' ''int'' []) [] False None),
           InstanceType (Instance (class_info ''builtins'' ''str'' []) [] False None)] ks ns
          (InstanceType (Instance (class_info ''builtins'' ''bool'' []) [] False None))
          (Instance (class_info ''builtins'' ''function'' []) [] False None) [] ell), s)"
  by (rule visit_callable_simple)
     (simp_all add: bind_function_type_variables_none infer_type_variables_def sample_query
        add_new_names_Nil sample_plain_class class_info_simps monad_defs
        del: methods_at.simps)

lemma sample_ellipsis_visit:
  "visit_callable_type sample_env (methods_at (Suc n) sample_env)
       (CallableType [AnyType explicit None, AnyType explicit None] ks ns (unbound ''bool'' [])
          (Instance (class_info ''builtins'' ''function'' []) [] False None) [] ell) True s
     = (Inr (CallableType [AnyType explicit None, AnyType explicit None] ks ns
          (InstanceType (Instance (class_info ''builtins'' ''bool'' []) [] False None))
          (Instance (class_info ''builtins'' ''function'' []) [] False None) [] ell), s)"
  by (rule visit_callable_simple)
     (simp_all add: bind_function_type_variables_none infer_type_variables_any sample_query
        add_new_names_Nil sample_plain_class class_info_simps monad_defs anal_type_any
        del: methods_at.simps)

lemma visit_callable_any:
  assumes "lookup_fully_qualified e ''builtins.function'' = Some fsym"
    and "node fsym = Some (TypeInfoNode finfo)"
    and "fb = new_Instance finfo
                (replicate (length (defn_type_vars finfo)) (AnyType special_form None))"
  shows "visit_callable_type e (methods_at (Suc n) e)
           (CallableType [AnyType k None, AnyType k None] ks ns (AnyType k None) fb [] ell) True s
         = (Inr (CallableType [AnyType k None, AnyType k None] ks ns (AnyType k None) fb [] ell),
            s)"
  by (rule visit_callable_simple)
     (simp_all add: bind_function_type_variables_none infer_type_variables_any
        flatten_tvars_def remove_dups_def add_new_names_Nil anal_type_any monad_defs
        named_type_found [OF assms(1,2)] assms(3)
        del: methods_at.simps)

lemma entry_unbound:
  "entry_type (unbound n a) = unbound n a"
  "entry_name (unbound n a) = None"
  "entry_type (CallableArgument ty an c) = ty"
  "entry_name (CallableArgument ty an c) = an"
  by (simp_all add: entry_type_def entry_name_def unbound_def)

lemma infer_no_arguments:
  "infer_type_variables e sc (CallableType [] ks ns NoneType fb vs ell) = Inr []"
  by (simp add: infer_type_variables_def add_new_names_def flatten_tvars_def remove_dups_def)


subsection \<open>Plain type expressions\<close>

lemma sequence_sum_all_Nil:
  "(\<And>x. x \<in> set xs \<Longrightarrow> f x = Inr []) \<Longrightarrow>
     sequence_sum (map f xs) = Inr (replicate (length xs) [])"
  by (induction xs) auto

lemma flatten_tvars_empty: "flatten_tvars (replicate k []) = []"
  by (simp add: flatten_tvars_def remove_dups_def)

lemma type_variable_query_plain:
  "plain_type e t \<Longrightarrow> type_variable_query (lookup_qualified e) sc ic ib t = Inr []"
proof (induction "lookup_qualified e" sc ic ib t rule: type_variable_query.induct)
  case (1 sc include_callables include_bound_tvars nm as opt eti ose osf)
  have args: "sequence_sum (map (type_variable_query (lookup_qualified e) sc include_callables
                include_bound_tvars) as) = Inr (replicate (length as) [])"
    if "\<not> (\<not> include_callables \<and> seems_like_callable (UnboundType nm as opt eti ose osf))"
       "\<not> (case lookup_qualified e nm of None \<Rightarrow> False
          | Some n \<Rightarrow> fullname n = Some ''typing_extensions.Literal''
                      \<or> fullname n = Some ''typing.Literal'')"
    using that 1 by (intro sequence_sum_all_Nil) (auto simp: list_all_iff)
  show ?case
    using 1(2) args
    by (auto simp: Let_def flatten_tvars_empty split: option.splits symbol_node.splits)
qed (auto simp: sequence_sum_all_Nil flatten_tvars_empty list_all_iff flatten_tvars_def
    remove_dups_def)

lemma bnd_total:
  "(\<And>s. \<exists>r s'. m s = (Inr r, s')) \<Longrightarrow> (\<And>v s. \<exists>r s'. f v s = (Inr r, s')) \<Longrightarrow>
     \<exists>r s'. bnd m f s = (Inr r, s')"
proof -
  assume m: "\<And>s. \<exists>r s'. m s = (Inr r, s')" and f: "\<And>v s. \<exists>r s'. f v s = (Inr r, s')"
  from m [of s] obtain v s1 where "m s = (Inr v, s1)" by blast
  with f [of v s1] show ?thesis by (simp add: bnd_Inr)
qed

lemma not_special:
  "fname \<notin> set special_forms \<Longrightarrow> try_analyze_special_unbound_type e self t fname = ret None"
  by (simp add: special_forms_def try_analyze_special_unbound_type_def)

lemma named_type_defined:
  "class_defined e n \<Longrightarrow> \<exists>fb. \<forall>s. named_type e n a s = (Inr fb, s)"
  by (auto simp: class_defined_def named_type_def Let_def ret_def
      split: option.splits symbol_node.splits)

lemma analyze_type_with_type_info_returns:
  assumes "\<And>xs s1. set xs \<subseteq> set as \<Longrightarrow> \<exists>rs s'. anal_array self xs True s1 = (Inr rs, s')"
    and "info_tuple_type e info = None" and "info_typeddict_type e info = None"
  shows "\<exists>r s'. analyze_type_with_type_info e self info as s = (Inr r, s')"
proof -
  have arr: "\<exists>rs s'. anal_array self as True s1 = (Inr rs, s')" for s1
    by (rule assms(1)) simp
  show ?thesis
    unfolding analyze_type_with_type_info_def
    using assms(2,3)
    by (auto intro!: bnd_total arr simp: ret_def emit_def modify_def Let_def
        split: prod.splits)
qed

lemma fold_add_new_names_empty:
  "fold (\<lambda>found acc. add_new_names acc found) (replicate k []) acc = acc"
  by (induction k) (simp_all add: add_new_names_Nil)

lemma infer_type_variables_plain:
  assumes "list_all (plain_type e) ats" and "plain_type e rt"
  shows "infer_type_variables e sc (CallableType ats ks ns rt fb vs ell) = Inr []"
proof -
  have "sequence_sum (map (type_variable_query (lookup_qualified e) sc True False) ats)
          = Inr (replicate (length ats) [])"
    using assms(1) by (intro sequence_sum_all_Nil type_variable_query_plain)
      (simp add: list_all_iff)
  then show ?thesis
    using type_variable_query_plain [OF assms(2), of sc False False]
    by (simp add: infer_type_variables_def fold_add_new_names_empty add_new_names_Nil
        del: fold_replicate)
qed

lemma visit_callable_type_total:
  assumes "\<And>x s1. x \<in> set ats \<Longrightarrow> \<exists>r s'. accept self x s1 = (Inr r, s')"
    and "\<And>s1. \<exists>r s'. accept self rt s1 = (Inr r, s')"
    and "list_all (plain_type e) ats" and "plain_type e rt"
    and "\<not> is_fake (type fb) \<or> class_defined e ''builtins.function''"
  shows "\<exists>r s'. visit_callable_type e self (CallableType ats ks ns rt fb [] ell) nested s
           = (Inr r, s')"
proof -
  let ?t = "CallableType ats ks ns rt fb [] ell"
  have vars: "(if defining_alias e then ret (variables ?t)
               else bind_function_type_variables e ?t) s1 = (Inr [], s1)" for s1
    by (simp add: ret_def bind_function_type_variables_none
        infer_type_variables_plain [OF assms(3,4)])
  have arr: "\<exists>rs s'. anal_array self (arg_types ?t) nested s1 = (Inr rs, s')" for s1
    using assms(1) by (simp add: anal_array_returns)
  have rt: "\<exists>r s'. anal_type self (ret_type ?t) nested s1 = (Inr r, s')" for s1
    using assms(2) by (simp add: anal_type_returns)
  have fb: "\<exists>r s'. (if \<not> is_fake (type (fallback ?t)) then ret (fallback ?t)
                     else named_type e ''builtins.function'' None) s1 = (Inr r, s')" for s1
    using assms(5) named_type_defined [of e "''builtins.function''" None]
    by (auto simp: ret_def)
  have vds: "\<exists>r s'. anal_var_defs self [] s1 = (Inr r, s')" for s1
    by (simp add: ret_def)
  have rest: "\<exists>r s'. bnd (anal_array self (arg_types ?t) nested)
            (\<lambda>ats. bnd (anal_type self (ret_type ?t) nested)
              (\<lambda>rt. bnd (if \<not> is_fake (type (fallback ?t)) then ret (fallback ?t)
                         else named_type e ''builtins.function'' None)
                (\<lambda>fb. bnd (anal_var_defs self [])
                  (\<lambda>vds. ret (CallableType ats (arg_kinds ?t) (arg_names ?t) rt fb vds
                                 (is_ellipsis_args ?t)))))) s1 = (Inr r, s')" for s1
    by (intro bnd_total arr rt fb vds) (simp add: ret_def)
  from rest [of "s\<lparr>tvar_scope := method_frame (tvar_scope s)\<rparr>"] obtain r s1 where
    "bnd (anal_array self (arg_types ?t) nested)
            (\<lambda>ats. bnd (anal_type self (ret_type ?t) nested)
              (\<lambda>rt. bnd (if \<not> is_fake (type (fallback ?t)) then ret (fallback ?t)
                         else named_type e ''builtins.function'' None)
                (\<lambda>fb. bnd (anal_var_defs self [])
                  (\<lambda>vds. ret (CallableType ats (arg_kinds ?t) (arg_names ?t) rt fb vds
                                 (is_ellipsis_args ?t))))))
       (s\<lparr>tvar_scope := method_frame (tvar_scope s)\<rparr>) = (Inr r, s1)"
    by blast
  then show ?thesis
    unfolding visit_callable_type_def tvar_scope_frame_def Let_def
    by (simp add: bnd_Inr [OF vars] bnd_Inr ret_def modify_def)
qed

lemma visit_unbound_type_total:
  assumes acc: "\<And>x s1. x \<in> set as \<Longrightarrow> \<exists>r s'. accept self x s1 = (Inr r, s')"
    and symb: "case lookup_qualified e nm of
            None \<Rightarrow> True
          | Some symb \<Rightarrow>
              (case node symb of
                 None \<Rightarrow> True
               | Some (PlaceholderNode _ _ _) \<Rightarrow> True
               | Some (TypeInfoNode info) \<Rightarrow> fullname symb \<noteq> None \<and> plain_class e info
               | _ \<Rightarrow> False)"
  shows "\<exists>r s'. visit_unbound_type e self (UnboundType nm as opt eti ose osf) dl s = (Inr r, s')"
proof -
  let ?t = "UnboundType nm as opt eti ose osf"
  have arr: "\<exists>rs s'. anal_array self as True s1 = (Inr rs, s')" for s1
    using acc by (simp add: anal_array_returns)
  have nonopt: "\<exists>r s'. visit_unbound_type_nonoptional e self ?t dl s1 = (Inr r, s')" for s1
  proof (cases "lookup_qualified e nm")
    case None
    then show ?thesis
      by (simp add: visit_unbound_type_nonoptional_def ret_def)
  next
    case (Some sy)
    show ?thesis
    proof (cases "node sy")
      case None
      with Some show ?thesis
        by (simp add: visit_unbound_type_nonoptional_def monad_defs)
    next
      case nd: (Some nd)
      show ?thesis
      proof (cases nd)
        case (PlaceholderNode pn pf bt)
        have "\<exists>r s'. analyze_placeholder_reference e self ?t nd s1 = (Inr r, s')"
          unfolding analyze_placeholder_reference_def
          using arr
          by (auto intro!: bnd_total
              simp: ret_def emit_def modify_def cannot_resolve_type_def fail_def)
        with Some nd PlaceholderNode show ?thesis
          by (simp add: visit_unbound_type_nonoptional_def isinstance_PlaceholderNode_def)
      next
        case (TypeInfoNode info)
        with symb Some nd have pc: "fullname sy \<noteq> None" "plain_class e info"
          by auto
        then obtain f where f: "fullname sy = Some f" by auto
        have ti: "\<exists>r s'. analyze_type_with_type_info e self info as s2 = (Inr r, s')" for s2
          using pc(2) arr
          by (intro analyze_type_with_type_info_returns)
             (auto simp: plain_class_def intro: anal_array_returns acc)
        show ?thesis
          using Some nd TypeInfoNode pc(2) f
          unfolding visit_unbound_type_nonoptional_def
          apply (simp add: isinstance_PlaceholderNode_def node_fullname_def plain_class_def
              Let_def split del: if_split)
          apply (rule bnd_total)
           apply (auto simp: no_subscript_builtin_alias_def monad_defs Let_def)[1]
          apply (simp add: bnd_def lift_sum_def get_binding_sym_def isinstance_TypeVarExpr_def
              not_special ret_def)
          apply (rule ti)
          done
      qed (use symb Some nd in auto)
    qed
  qed
  show ?thesis
    unfolding visit_unbound_type_def
    by (rule bnd_total [OF nonopt]) (simp add: ret_def)
qed

lemma accept_plain_returns:
  "plain_type e t \<Longrightarrow> size t < n \<Longrightarrow> \<exists>r s'. accept (methods_at n e) t s = (Inr r, s')"
proof (induction n arbitrary: t s)
  case 0
  then show ?case by simp
next
  case (Suc n)
  let ?self = "methods_at n e"
  have sub: "\<exists>r s'. accept ?self x s1 = (Inr r, s')"
    if "plain_type e x" "size x < size t" for x s1
    using that Suc.prems by (intro Suc.IH) auto
  show ?case
  proof (cases t)
    case (UnboundType nm as opt eti ose osf)
    have "\<exists>r s'. visit_unbound_type e ?self (UnboundType nm as opt eti ose osf) False s
            = (Inr r, s')"
      by (rule visit_unbound_type_total, rule sub)
        (use UnboundType Suc.prems in \<open>auto simp: list_all_iff dest: size_list_member\<close>)
    with UnboundType show ?thesis
      by (simp add: dispatch_def)
  next
    case (TupleType its fb imp)
    have arr: "\<exists>rs s'. anal_array ?self its True s1 = (Inr rs, s')" for s1
      by (rule anal_array_returns, rule sub)
        (use TupleType Suc.prems in \<open>auto simp: list_all_iff dest: size_list_member\<close>)
    have fb: "\<exists>r s'. (if \<not> is_fake (type fb) then ret fb
                       else named_type e ''builtins.tuple'' (Some [AnyType special_form None])) s1
                = (Inr r, s')"
      if "\<not> is_fake (type fb) \<or> class_defined e ''builtins.tuple''" for s1
      using that named_type_defined [of e "''builtins.tuple''" "Some [AnyType special_form None]"]
      by (auto simp: ret_def)
    show ?thesis
    proof (cases "(imp \<and> \<not> allow_tuple_literal e)
        \<or> (\<not> imp \<and> length [it \<leftarrow> its. isinstance_StarType it] > 1)")
      case True
      with TupleType show ?thesis
        by (auto simp: dispatch_def visit_tuple_type_def monad_defs)
    next
      case False
      show ?thesis
      proof (cases "length [it \<leftarrow> its. isinstance_StarType it] > 1")
        case True
        with False TupleType Suc.prems have "class_defined e ''builtins.tuple''" "imp"
          by auto
        with named_type_defined [of e "''builtins.tuple''" None] True False TupleType
        show ?thesis
          by (auto simp: dispatch_def visit_tuple_type_def monad_defs Let_def)
      next
        case few: False
        with False TupleType Suc.prems
        have "\<not> is_fake (type fb) \<or> class_defined e ''builtins.tuple''"
          by auto
        from fb [OF this, of s] obtain f s1 where
          f: "(if \<not> is_fake (type fb) then ret fb
               else named_type e ''builtins.tuple'' (Some [AnyType special_form None])) s
              = (Inr f, s1)"
          by blast
        from arr [of s1] obtain rs s2 where rs: "anal_array ?self its True s1 = (Inr rs, s2)"
          by blast
        from few False TupleType f rs show ?thesis
          by (cases "is_fake (type fb)")
             (auto simp: dispatch_def visit_tuple_type_def Let_def bnd_Inr ret_def)
      qed
    qed
  next
    case (TypedDictType its rk fb)
    have "\<exists>rs s'. anal_typeddict_items ?self its s = (Inr rs, s')"
      by (rule anal_typeddict_items_returns, rule sub)
        (use TypedDictType Suc.prems in \<open>auto simp: list_all_iff dest: size_snd_member\<close>)
    then obtain rs s' where "anal_typeddict_items ?self its s = (Inr rs, s')" by blast
    with TypedDictType show ?thesis
      by (simp add: dispatch_def visit_typeddict_type_def bnd_Inr ret_def)
  next
    case (CallableType ats ks ns rt fb vs ell)
    with Suc.prems have ok: "vs = []" "list_all (plain_type e) ats" "plain_type e rt"
      "\<not> is_fake (type fb) \<or> class_defined e ''builtins.function''"
      by auto
    have "\<exists>r s'. visit_callable_type e ?self (CallableType ats ks ns rt fb [] ell) True s
            = (Inr r, s')"
      by (rule visit_callable_type_total [OF _ _ ok(2,3,4)]; rule sub)
        (use CallableType ok in \<open>auto simp: list_all_iff dest: size_list_member\<close>)
    with CallableType ok(1) show ?thesis
      by (simp add: dispatch_def)
  next
    case (UnionType its)
    have "\<exists>rs s'. anal_array ?self its True s = (Inr rs, s')"
      by (rule anal_array_returns, rule sub)
        (use UnionType Suc.prems in \<open>auto simp: list_all_iff dest: size_list_member\<close>)
    then obtain rs s' where "anal_array ?self its True s = (Inr rs, s')" by blast
    with UnionType show ?thesis
      by (simp add: dispatch_def visit_union_type_def bnd_Inr ret_def)
  next
    case (TypeType it)
    have "\<exists>r s'. anal_type ?self it True s = (Inr r, s')"
      by (rule anal_type_returns, rule sub) (use TypeType Suc.prems in auto)
    then obtain r s' where "anal_type ?self it True s = (Inr r, s')" by blast
    with TypeType show ?thesis
      by (simp add: dispatch_def visit_type_type_def bnd_Inr ret_def)
  next
    case (StarType it)
    have "\<exists>r s'. anal_type ?self it True s = (Inr r, s')"
      by (rule anal_type_returns, rule sub) (use StarType Suc.prems in auto)
    then obtain r s' where "anal_type ?self it True s = (Inr r, s')" by blast
    with StarType show ?thesis
      by (simp add: dispatch_def visit_star_type_def bnd_Inr ret_def)
  next
    case (PlaceholderType fn as)
    have acc: "\<exists>r s'. accept ?self x s1 = (Inr r, s')" if "x \<in> set as" for x s1
      by (rule sub)
        (use that PlaceholderType Suc.prems in \<open>auto simp: list_all_iff dest: size_list_member\<close>)
    have ti: "\<exists>r s'. analyze_type_with_type_info e ?self info as s = (Inr r, s')"
      if "info_tuple_type e info = None" "info_typeddict_type e info = None" for info
      using that by (intro analyze_type_with_type_info_returns anal_array_returns acc) auto
    from PlaceholderType Suc.prems ti show ?thesis
      by (auto simp: dispatch_def visit_placeholder_type_def monad_defs
          isinstance_PlaceholderNode_def split: option.splits symbol_node.splits)
  next
    case (RawExpressionType lv btn nt)
    then show ?thesis
      by (auto simp: dispatch_def visit_raw_expression_type_def monad_defs Let_def
          split: option.splits)
  qed (use Suc.prems in \<open>auto simp: dispatch_def monad_defs visit_type_list_def
      visit_callable_argument_def visit_ellipsis_type_def\<close>)
qed

lemma sample_lookup_more:
  "lookup_qualified sample_env ''list''
     = Some (node_symbol (TypeInfoNode (class_info ''builtins'' ''list'' [''T''])))"
  "lookup_qualified sample_env ''Fwd''
     = Some (node_symbol (PlaceholderNode ''Fwd'' ''m.Fwd'' True))"
  by (simp_all add: sample_env_def sample_lookup_def sample_nodes_def node_name_def
      node_fullname_def class_info_def externals.extend_def env.fields_def)

lemma sample_plain_class_names:
  "plain_class sample_env (class_info ''builtins'' ''int'' [])"
  "plain_class sample_env (class_info ''builtins'' ''str'' [])"
  "plain_class sample_env (class_info ''builtins'' ''list'' [''T''])"
  by (simp_all add: plain_class_def sample_env_fields class_info_simps special_forms_def)

lemma sample_plain_names:
  "plain_type sample_env (unbound ''int'' [])"
  "plain_type sample_env (unbound ''str'' [])"
  "plain_type sample_env (unbound ''Fwd'' [])"
  "plain_type sample_env (unbound ''list'' [unbound ''int'' []])"
  by (simp_all add: unbound_def sample_lookup_class sample_lookup_more node_symbol_simps
      sample_plain_class_names)


text \<open>
  Claim C5. Nullable wrapping: wrapping none gives none; wrapping the union of \<open>A\<close> and
  none gives that union again, flattened, with none as its last and only none member
  (literally the same union when \<open>A\<close> is neither none nor a union); wrapping any union gives
  a union with exactly one none member, the last one, and otherwise the same members;
  wrapping a type that is neither none nor a union gives the union of it and none; and
  wrapping twice equals wrapping once.
\<close>

theorem make_optional_type_laws:
  "make_optional_type NoneType = NoneType
   \<and> (NoneType \<notin> set (union_items A) \<longrightarrow>
        make_optional_type (UnionType [A, NoneType]) = UnionType (union_items A @ [NoneType]))
   \<and> (\<not> isinstance_NoneType A \<and> \<not> isinstance_UnionType A \<longrightarrow>
        make_optional_type (UnionType [A, NoneType]) = UnionType [A, NoneType])
   \<and> (\<exists>ys. make_optional_type (UnionType xs) = UnionType (ys @ [NoneType])
          \<and> NoneType \<notin> set ys \<and> set ys = set (union_items (UnionType xs)) - {NoneType})
   \<and> (\<not> isinstance_NoneType A \<and> \<not> isinstance_UnionType A \<longrightarrow>
        make_optional_type A = UnionType [A, NoneType])
   \<and> make_optional_type (make_optional_type t) = make_optional_type t"
proof (intro conjI impI)
  show "make_optional_type NoneType = NoneType"
    by (simp add: make_optional_type_def isinstance_NoneType_def)
next
  assume "NoneType \<notin> set (union_items A)"
  then have "[item \<leftarrow> union_items A. \<not> isinstance_NoneType item] = union_items A"
    by (auto simp: isinstance_NoneType_iff filter_id_conv)
  then show "make_optional_type (UnionType [A, NoneType]) = UnionType (union_items A @ [NoneType])"
    by (simp add: make_optional_type_def isinstance_NoneType_def isinstance_UnionType_def)
next
  assume "\<not> isinstance_NoneType A \<and> \<not> isinstance_UnionType A"
  then show "make_optional_type (UnionType [A, NoneType]) = UnionType [A, NoneType]"
    by (simp add: make_optional_type_def isinstance_NoneType_def isinstance_UnionType_def
        union_items_id)
next
  let ?ys = "[item \<leftarrow> union_items (UnionType xs). \<not> isinstance_NoneType item]"
  have "make_optional_type (UnionType xs) = UnionType (?ys @ [NoneType])"
    by (simp add: make_optional_type_def isinstance_NoneType_def isinstance_UnionType_def)
  moreover have "NoneType \<notin> set ?ys"
    by (simp add: isinstance_NoneType_iff)
  moreover have "set ?ys = set (union_items (UnionType xs)) - {NoneType}"
    by (auto simp: isinstance_NoneType_iff)
  ultimately show "\<exists>ys. make_optional_type (UnionType xs) = UnionType (ys @ [NoneType])
      \<and> NoneType \<notin> set ys \<and> set ys = set (union_items (UnionType xs)) - {NoneType}"
    by blast
next
  assume "\<not> isinstance_NoneType A \<and> \<not> isinstance_UnionType A"
  then show "make_optional_type A = UnionType [A, NoneType]"
    by (simp add: make_optional_type_def)
next
  show "make_optional_type (make_optional_type t) = make_optional_type t"
    by (rule make_optional_type_idem)
qed

text \<open>
  Witness for C5: the laws at the deleted type, where every hypothesis holds.
\<close>

theorem make_optional_type_laws_witness:
  "make_optional_type (UnionType [DeletedType, NoneType]) = UnionType [DeletedType, NoneType]
   \<and> make_optional_type DeletedType = UnionType [DeletedType, NoneType]
   \<and> make_optional_type (make_optional_type DeletedType) = make_optional_type DeletedType"
  using make_optional_type_laws [of DeletedType "[DeletedType]" DeletedType]
  by (simp add: isinstance_NoneType_def isinstance_UnionType_def)


text \<open>
  Claim C4, as amended. Alias expansion with no formals, no actuals and an alias that was
  not declared bare returns the target; with no formals, some actuals, a bare alias and an
  instance as target it returns the instance of the same class with the actuals as
  arguments; with as many actuals as formals, for a target that is not itself a reference
  to a formal, it replaces every reference to a formal inside the arguments, items,
  members, argument types and return types of the target by the corresponding actual,
  building each union flattened and each instance from its class and its new arguments, and
  then unwraps an instance of the flexible alias class to its last argument; with both
  counts nonzero and different, for such a target, it reports the expected and the given
  count and replaces every such reference by the unknown type that marks an error.
\<close>

theorem expand_type_alias_cases:
  "expand_type_alias x target [] [] False u d = (Inr target, [])
   \<and> (actuals \<noteq> [] \<longrightarrow>
        expand_type_alias x (InstanceType (Instance C targs iv lkv)) [] actuals True u d =
          (Inr (InstanceType (Instance C actuals False None)), []))
   \<and> (formals \<noteq> [] \<and> length actuals = length formals \<and> \<not> is_formal formals target \<longrightarrow>
        expand_type_alias x target formals actuals no_args u d =
          (unwrap_flexible_alias (subst_formals formals actuals target), []))
   \<and> (formals \<noteq> [] \<and> actuals \<noteq> [] \<and> length actuals \<noteq> length formals
        \<and> \<not> is_formal formals target \<longrightarrow>
        expand_type_alias x target formals actuals no_args u d =
          (Inr (subst_formals formals (replicate (length formals) (AnyType from_error None)) target),
           [Fail (''Bad number of arguments for type alias, expected: ''
                    @ str_nat (length formals) @ '', given: '' @ str_nat (length actuals)) None]))"
proof (intro conjI impI)
  show "expand_type_alias x target [] [] False u d = (Inr target, [])"
    by (simp add: expand_type_alias_def)
next
  assume "actuals \<noteq> []"
  then show "expand_type_alias x (InstanceType (Instance C targs iv lkv)) [] actuals True u d =
      (Inr (InstanceType (Instance C actuals False None)), [])"
    by (simp add: expand_type_alias_def isinstance_Instance_def new_Instance_def)
next
  assume a: "formals \<noteq> [] \<and> length actuals = length formals \<and> \<not> is_formal formals target"
  then have "replace_alias_tvars target formals actuals = Inr (subst_formals formals actuals target)"
    by (simp add: replace_alias_tvars_subst)
  with a show "expand_type_alias x target formals actuals no_args u d =
      (unwrap_flexible_alias (subst_formals formals actuals target), [])"
    by (simp add: expand_type_alias_def unwrap_flexible_alias_def split: ty.split)
next
  assume a: "formals \<noteq> [] \<and> actuals \<noteq> [] \<and> length actuals \<noteq> length formals
      \<and> \<not> is_formal formals target"
  then have "replace_alias_tvars target formals (replicate (length formals) (AnyType from_error None))
      = Inr (subst_formals formals (replicate (length formals) (AnyType from_error None)) target)"
    by (simp add: replace_alias_tvars_subst)
  with a show "expand_type_alias x target formals actuals no_args u d =
      (Inr (subst_formals formals (replicate (length formals) (AnyType from_error None)) target),
       [Fail (''Bad number of arguments for type alias, expected: ''
                @ str_nat (length formals) @ '', given: '' @ str_nat (length actuals)) None])"
    by (simp add: expand_type_alias_def set_any_tvars_def Let_def)
qed

text \<open>
  Counterexample to C4 as stated. For the alias whose target is the formal \<open>T\<close> itself,
  expansion with the actual none returns \<open>T\<close>, where replacing every occurrence gives none;
  and for a target that is an instance of the flexible alias class, the result is the last
  argument of the instance and not the target with its formals replaced.
\<close>

theorem expand_type_alias_counterexample:
  "expand_type_alias sample_externals (unbound ''T'' []) [''T''] [NoneType] False None False
     = (Inr (unbound ''T'' []), [])
   \<and> subst_formals [''T''] [NoneType] (unbound ''T'' []) = NoneType
   \<and> expand_type_alias sample_externals
       (InstanceType (new_Instance (class_info ''mypy_extensions'' ''FlexibleAlias'' [''T'', ''U''])
          [unbound ''T'' [], DeletedType]))
       [''T''] [NoneType] False None False
     = (Inr DeletedType, [])"
proof (intro conjI)
  have "is_formal [''T''] (unbound ''T'' [])"
    by (simp add: is_formal_def tvar_name_of_def unbound_def)
  then have "replace_alias_tvars (unbound ''T'' []) [''T''] [NoneType] = Inr (unbound ''T'' [])"
    by (simp add: replace_alias_tvars_formal)
  then show "expand_type_alias sample_externals (unbound ''T'' []) [''T''] [NoneType] False None
      False = (Inr (unbound ''T'' []), [])"
    by (simp add: expand_type_alias_def unbound_def)
next
  show "subst_formals [''T''] [NoneType] (unbound ''T'' []) = NoneType"
    by (simp add: unbound_def)
next
  let ?t = "InstanceType (new_Instance (class_info ''mypy_extensions'' ''FlexibleAlias''
      [''T'', ''U'']) [unbound ''T'' [], DeletedType])"
  have "\<not> is_formal [''T''] ?t"
    by (simp add: is_formal_def tvar_name_of_def)
  then have "replace_alias_tvars ?t [''T''] [NoneType] = Inr (subst_formals [''T''] [NoneType] ?t)"
    by (simp add: replace_alias_tvars_subst)
  then show "expand_type_alias sample_externals ?t [''T''] [NoneType] False None False
      = (Inr DeletedType, [])"
    by (simp add: expand_type_alias_def new_Instance_def class_info_def unbound_def)
qed

text \<open>
  Witness for C4: a bare alias of a list class used with two arguments, a list of
  callables over \<open>T\<close> expanded with none for \<open>T\<close>, the same alias used with two
  actuals for its one formal, and the optional \<open>T\<close> inside a list that is marked invalid,
  expanded with a union for \<open>T\<close>: the union is flattened and the list is a new instance.
\<close>

theorem expand_type_alias_cases_witness:
  "expand_type_alias sample_externals
       (InstanceType (new_Instance (class_info ''builtins'' ''list'' [''T'']) [unbound ''T'' []]))
       [] [NoneType, DeletedType] True None False
     = (Inr (InstanceType (new_Instance (class_info ''builtins'' ''list'' [''T''])
               [NoneType, DeletedType])), [])
   \<and> expand_type_alias sample_externals
       (InstanceType (new_Instance (class_info ''builtins'' ''list'' [''T''])
          [CallableType [unbound ''T'' []] [ARG_POS] [None] (unbound ''T'' [])
             (new_Instance (class_info ''builtins'' ''function'' []) []) [] False]))
       [''T''] [NoneType] False None False
     = (Inr (InstanceType (new_Instance (class_info ''builtins'' ''list'' [''T''])
          [CallableType [NoneType] [ARG_POS] [None] NoneType
             (new_Instance (class_info ''builtins'' ''function'' []) []) [] False])), [])
   \<and> expand_type_alias sample_externals
       (InstanceType (new_Instance (class_info ''builtins'' ''list'' [''T'']) [unbound ''T'' []]))
       [''T''] [NoneType, DeletedType] False None False
     = (Inr (InstanceType (new_Instance (class_info ''builtins'' ''list'' [''T''])
               [AnyType from_error None])),
        [Fail ''Bad number of arguments for type alias, expected: 1, given: 2'' None])
   \<and> expand_type_alias sample_externals
       (InstanceType (Instance (class_info ''builtins'' ''list'' [''T''])
          [UnionType [unbound ''T'' [], NoneType]] True None))
       [''T''] [UnionType [DeletedType, NoneType]] False None False
     = (Inr (InstanceType (Instance (class_info ''builtins'' ''list'' [''T''])
               [UnionType [DeletedType, NoneType, NoneType]] False None)), [])"
proof -
  let ?lst = "class_info ''builtins'' ''list'' [''T'']"
  let ?fn = "new_Instance (class_info ''builtins'' ''function'' []) []"
  let ?t1 = "InstanceType (new_Instance ?lst [unbound ''T'' []])"
  let ?t2 = "InstanceType (new_Instance ?lst
      [CallableType [unbound ''T'' []] [ARG_POS] [None] (unbound ''T'' []) ?fn [] False])"
  note a = expand_type_alias_cases [where x = sample_externals and u = None and d = False
      and actuals = "[NoneType, DeletedType]" and C = ?lst and targs = "[unbound ''T'' []]"
      and iv = False and lkv = None, THEN conjunct2, THEN conjunct1]
  note b = expand_type_alias_cases [where x = sample_externals and u = None and d = False
      and formals = "[''T'']" and actuals = "[NoneType]" and target = ?t2 and no_args = False,
      THEN conjunct2, THEN conjunct2, THEN conjunct1]
  note c = expand_type_alias_cases [where x = sample_externals and u = None and d = False
      and formals = "[''T'']" and actuals = "[NoneType, DeletedType]" and target = ?t1
      and no_args = False, THEN conjunct2, THEN conjunct2, THEN conjunct2]
  note d = expand_type_alias_cases [where x = sample_externals and u = None and d = False
      and formals = "[''T'']" and actuals = "[UnionType [DeletedType, NoneType]]"
      and target = "InstanceType (Instance ?lst [UnionType [unbound ''T'' [], NoneType]] True None)"
      and no_args = False, THEN conjunct2, THEN conjunct2, THEN conjunct1]
  show ?thesis
    using a b c d
    by (simp add: new_Instance_def new_UnionType_def is_formal_def tvar_name_of_def unbound_def
        unwrap_flexible_alias_def class_info_def str_nat.simps)
qed


text \<open>
  Claim C3. For an instance \<open>t\<close> of a class with \<open>N\<close> declared type variables,
  \<^verbatim>\<open>fix_instance\<close> does the following. With no arguments, the argument list becomes \<open>N\<close>
  copies of one unknown type (the one from omitted generics, or the one from an error when
  omitted arguments are disallowed), the invalid mark is left as it was, and nothing is
  reported when omitted arguments are allowed. With \<open>M > 0\<close> arguments, the argument list
  becomes \<open>N\<close> copies of the unknown type from an error, the instance is marked invalid,
  and the diagnostic names the class, the expected count (\<open>no type arguments\<close> for zero,
  \<open>1 type argument\<close> for one, the numeral and \<open>type arguments\<close> otherwise) and the given
  count as a numeral. The analyser applies it only when the counts differ: for a class that
  is neither a tuple nor a typed dictionary and is given exactly \<open>N\<close> arguments, the result
  is the instance of the analysed arguments, not marked invalid, in the state reached by
  analysing the arguments.
\<close>

theorem fix_instance_arity:
  "(inst_args t = [] \<longrightarrow>
      fst (fix_instance x t disallow_any use_generic_error u) =
        Instance (type t)
          (replicate (length (type_vars (type t)))
             (AnyType (if disallow_any then from_error else from_omitted_generics) None))
          (invalid t) (last_known_value t)
      \<and> (\<not> disallow_any \<longrightarrow> snd (fix_instance x t disallow_any use_generic_error u) = []))
   \<and> (inst_args t \<noteq> [] \<longrightarrow>
        fix_instance x t disallow_any use_generic_error u =
          (Instance (type t) (replicate (length (type_vars (type t))) (AnyType from_error None))
             True (last_known_value t),
           [Fail (''\"'' @ info_name (type t) @ ''\" expects ''
                    @ expects_phrase (length (type_vars (type t)))
                    @ '', but '' @ str_nat (length (inst_args t)) @ '' given'')
              (Some TYPE_ARG)]))
   \<and> expects_phrase 0 = ''no type arguments''
   \<and> expects_phrase 1 = ''1 type argument''
   \<and> (2 \<le> n \<longrightarrow> expects_phrase n = str_nat n @ '' type arguments'')
   \<and> (length a = length (type_vars info)
        \<and> \<not> (length a > 0 \<and> info_fullname info = ''builtins.tuple'')
        \<and> info_tuple_type e info = None \<and> info_typeddict_type e info = None
        \<and> anal_array self a True s = (Inr an_args, s') \<longrightarrow>
        analyze_type_with_type_info e self info a s =
          (Inr (InstanceType (Instance info an_args False None)), s'))"
proof (intro conjI impI)
  assume "inst_args t = []"
  then show "fst (fix_instance x t disallow_any use_generic_error u) =
        Instance (type t)
          (replicate (length (type_vars (type t)))
             (AnyType (if disallow_any then from_error else from_omitted_generics) None))
          (invalid t) (last_known_value t)"
    by (simp add: fix_instance_def get_omitted_any_def Let_def split: option.split prod.split)
next
  assume "inst_args t = []" "\<not> disallow_any"
  then show "snd (fix_instance x t disallow_any use_generic_error u) = []"
    by (simp add: fix_instance_def get_omitted_any_def)
next
  assume "inst_args t \<noteq> []"
  then show "fix_instance x t disallow_any use_generic_error u =
          (Instance (type t) (replicate (length (type_vars (type t))) (AnyType from_error None))
             True (last_known_value t),
           [Fail (''\"'' @ info_name (type t) @ ''\" expects ''
                    @ expects_phrase (length (type_vars (type t)))
                    @ '', but '' @ str_nat (length (inst_args t)) @ '' given'')
              (Some TYPE_ARG)])"
    by (simp add: fix_instance_def given_phrase_def str_nat_zero map_replicate_const)
next
  show "expects_phrase 0 = ''no type arguments''" by (simp add: expects_phrase_def)
next
  show "expects_phrase 1 = ''1 type argument''" by (simp add: expects_phrase_def)
next
  assume "2 \<le> n"
  then show "expects_phrase n = str_nat n @ '' type arguments''"
    by (simp add: expects_phrase_def)
next
  assume a: "length a = length (type_vars info)
        \<and> \<not> (length a > 0 \<and> info_fullname info = ''builtins.tuple'')
        \<and> info_tuple_type e info = None \<and> info_typeddict_type e info = None
        \<and> anal_array self a True s = (Inr an_args, s')"
  then have "length an_args = length (type_vars info)"
    using anal_array_length by fastforce
  with a show "analyze_type_with_type_info e self info a s =
          (Inr (InstanceType (Instance info an_args False None)), s')"
    by (auto simp: analyze_type_with_type_info_def bnd_Inr ret_def new_Instance_def)
qed

text \<open>
  Witness for C3: the list class, of one type variable, with no argument, with two
  arguments, and with one argument through the analyser.
\<close>

theorem fix_instance_arity_witness:
  "fst (fix_instance sample_externals (new_Instance (class_info ''builtins'' ''list'' [''T'']) [])
          False False None)
     = Instance (class_info ''builtins'' ''list'' [''T'']) [AnyType from_omitted_generics None]
         False None
   \<and> snd (fix_instance sample_externals (new_Instance (class_info ''builtins'' ''list'' [''T'']) [])
          False False None) = []
   \<and> fix_instance sample_externals
         (new_Instance (class_info ''builtins'' ''list'' [''T'']) [NoneType, NoneType])
         False False None
     = (Instance (class_info ''builtins'' ''list'' [''T'']) [AnyType from_error None] True None,
        [Fail ''\"list\" expects 1 type argument, but 2 given'' (Some TYPE_ARG)])
   \<and> expects_phrase 2 = ''2 type arguments''
   \<and> analyze_type_with_type_info sample_env (methods_at (Suc 0) sample_env)
         (class_info ''builtins'' ''list'' [''T'']) [NoneType] start_state
     = (Inr (InstanceType (Instance (class_info ''builtins'' ''list'' [''T'']) [NoneType]
                False None)), start_state)"
proof -
  let ?lst = "class_info ''builtins'' ''list'' [''T'']"
  have arr: "anal_array (methods_at (Suc 0) sample_env) [NoneType] True start_state
      = (Inr [NoneType], start_state)"
    by (simp add: anal_type_def dispatch_def monad_defs start_state_def)
  have flds: "info_tuple_type sample_env ?lst = None" "info_typeddict_type sample_env ?lst = None"
    by (simp_all add: sample_env_def externals.extend_def env.fields_def)
  note a = fix_instance_arity [where x = sample_externals and t = "new_Instance ?lst []"
      and disallow_any = False and use_generic_error = False and u = None, THEN conjunct1]
  note b = fix_instance_arity [where x = sample_externals
      and t = "new_Instance ?lst [NoneType, NoneType]"
      and disallow_any = False and use_generic_error = False and u = None,
      THEN conjunct2, THEN conjunct1]
  note c = fix_instance_arity [where n = 2, THEN conjunct2, THEN conjunct2, THEN conjunct2,
      THEN conjunct2, THEN conjunct1]
  have d: "analyze_type_with_type_info sample_env (methods_at (Suc 0) sample_env) ?lst [NoneType]
        start_state = (Inr (InstanceType (Instance ?lst [NoneType] False None)), start_state)"
    apply (rule fix_instance_arity [where e = sample_env
          and self = "methods_at (Suc 0) sample_env" and info = ?lst and a = "[NoneType]"
          and s = start_state and an_args = "[NoneType]" and s' = start_state,
          THEN conjunct2, THEN conjunct2, THEN conjunct2, THEN conjunct2, THEN conjunct2,
          THEN mp])
    using arr flds apply (simp add: class_info_def del: methods_at.simps)
    done
  show ?thesis
    using a b c d
    by (simp add: new_Instance_def class_info_def expects_phrase_def str_nat.simps
        del: methods_at.simps)
qed


text \<open>
  Claim C1, as amended. For a named reference whose symbol is a placeholder that will
  become a type: on the final iteration the analyser reports
  \<open>Cannot resolve name "..." (possible cyclic definition)\<close> and returns the unknown type
  that marks an error; otherwise it requests a deferral when placeholders are allowed and
  records an incomplete reference when they are not, and in both cases, when the analysis of
  the arguments returns, it returns a placeholder type with the full name of the
  placeholder and the analysed arguments. (The result of
  \<^verbatim>\<open>visit_unbound_type_nonoptional\<close> is then wrapped by \<^verbatim>\<open>make_optional_type\<close> when the
  reference has the nullable marker.)
\<close>

theorem placeholder_reference:
  "(lookup_qualified e (name t) = Some symb \<and> node symb = Some (PlaceholderNode pn pf True)
      \<and> final_iteration e \<longrightarrow>
      visit_unbound_type_nonoptional e self t defining_literal s =
        (Inr (AnyType from_error None),
         s\<lparr>events := events s
              @ [Fail (''Cannot resolve name \"'' @ name t @ ''\" (possible cyclic definition)'')
                   None]\<rparr>))
   \<and> (lookup_qualified e (name t) = Some symb \<and> node symb = Some (PlaceholderNode pn pf True)
      \<and> \<not> final_iteration e
      \<and> anal_array self (args t) True
           (s\<lparr>events := events s @ [if allow_placeholder e then Defer else RecordIncompleteRef]\<rparr>)
         = (Inr an_args, s') \<longrightarrow>
      visit_unbound_type_nonoptional e self t defining_literal s =
        (Inr (PlaceholderType (Some pf) an_args), s'))"
  by (auto simp: visit_unbound_type_nonoptional_def analyze_placeholder_reference_def
      isinstance_PlaceholderNode_def cannot_resolve_type_def node_fullname_def monad_defs)

text \<open>
  Counterexample to C1 as stated: with placeholders not allowed and the iteration not final,
  the reference to the forward-declared class records an incomplete reference and returns
  a placeholder type, not the unknown type that marks an error.
\<close>

theorem placeholder_reference_counterexample:
  "visit_unbound_type_nonoptional sample_env (methods_at 0 sample_env) (unbound ''Fwd'' []) False
     start_state
   = (Inr (PlaceholderType (Some ''m.Fwd'') []), start_state\<lparr>events := [RecordIncompleteRef]\<rparr>)"
  by (simp add: visit_unbound_type_nonoptional_def analyze_placeholder_reference_def
      isinstance_PlaceholderNode_def node_fullname_def monad_defs unbound_def
      sample_env_def sample_lookup_def sample_nodes_def node_symbol_def start_state_def
      node_name_def class_info_def externals.extend_def env.fields_def)

text \<open>
  Witness for C1: the same reference on the final iteration, and with placeholders allowed.
\<close>

theorem placeholder_reference_witness:
  "visit_unbound_type_nonoptional (sample_env\<lparr>final_iteration := True\<rparr>)
       (methods_at 0 sample_env) (unbound ''Fwd'' []) False start_state
     = (Inr (AnyType from_error None),
        start_state\<lparr>events :=
          [Fail ''Cannot resolve name \"Fwd\" (possible cyclic definition)'' None]\<rparr>)
   \<and> visit_unbound_type_nonoptional (sample_env\<lparr>allow_placeholder := True\<rparr>)
       (methods_at 0 sample_env) (unbound ''Fwd'' []) False start_state
     = (Inr (PlaceholderType (Some ''m.Fwd'') []), start_state\<lparr>events := [Defer]\<rparr>)"
proof -
  note a = placeholder_reference [where e = "sample_env\<lparr>final_iteration := True\<rparr>"
      and t = "unbound ''Fwd'' []" and symb = "node_symbol (PlaceholderNode ''Fwd'' ''m.Fwd'' True)"
      and pn = "''Fwd''" and pf = "''m.Fwd''" and self = "methods_at 0 sample_env"
      and defining_literal = False and s = start_state, THEN conjunct1]
  note b = placeholder_reference [where e = "sample_env\<lparr>allow_placeholder := True\<rparr>"
      and t = "unbound ''Fwd'' []" and symb = "node_symbol (PlaceholderNode ''Fwd'' ''m.Fwd'' True)"
      and pn = "''Fwd''" and pf = "''m.Fwd''" and self = "methods_at 0 sample_env"
      and defining_literal = False and s = start_state and an_args = "[]"
      and s' = "start_state\<lparr>events := [Defer]\<rparr>", THEN conjunct2]
  show ?thesis
    using a b by (simp add: sample_defs ret_def)
qed



text \<open>
  Claim C10. When \<^verbatim>\<open>builtins.tuple\<close> is defined, the tuple special form with no type
  arguments gives, with the empty-tuple marker unset, the instance of the builtin tuple
  class with one unknown argument (from omitted generics, or from an error together with a
  diagnostic when omitted arguments are disallowed), and with the marker set, the tuple type
  with no items whose fallback is the builtin tuple instance.
\<close>

theorem tuple_without_arguments:
  "(lookup_fully_qualified_or_none e ''builtins.tuple'' = Some symb
      \<and> \<not> isinstance_PlaceholderNode (node symb)
      \<and> lookup_fully_qualified e ''builtins.tuple'' = Some tsym
      \<and> node tsym = Some (TypeInfoNode tinfo) \<longrightarrow>
      try_analyze_special_unbound_type e self (UnboundType nm [] opt False ose osf)
          ''typing.Tuple'' s =
        (let strict = (\<not> is_typeshed_stub e \<and> disallow_any_generics e)
         in (Inr (Some (InstanceType (Instance tinfo
                    [AnyType (if strict then from_error else from_omitted_generics) None]
                    False None))),
             s\<lparr>events := events s
                  @ (if strict
                     then [Fail (BARE_GENERIC e (quote_type_string e nm)) (Some TYPE_ARG)]
                     else [])\<rparr>)))
   \<and> (lookup_fully_qualified_or_none e ''builtins.tuple'' = Some symb
      \<and> \<not> isinstance_PlaceholderNode (node symb)
      \<and> lookup_fully_qualified e ''builtins.tuple'' = Some tsym
      \<and> node tsym = Some (TypeInfoNode tinfo) \<longrightarrow>
      try_analyze_special_unbound_type e self (UnboundType nm [] opt True ose osf)
          ''typing.Tuple'' s =
        (Inr (Some (TupleType [] (Instance tinfo [AnyType special_form None] False None) False)),
         s))"
  by (auto simp: try_analyze_special_unbound_type_def analyze_Tuple_def self_get_omitted_any_def
      named_type_def tuple_type_def new_Instance_def get_omitted_any_def Let_def monad_defs)

text \<open>
  Witness for C10: bare \<open>Tuple\<close> and \<open>Tuple[()]\<close> in the sample symbol table.
\<close>

theorem tuple_without_arguments_witness:
  "try_analyze_special_unbound_type sample_env (methods_at 0 sample_env)
       (UnboundType ''Tuple'' [] False False None None) ''typing.Tuple'' start_state =
     (Inr (Some (InstanceType (Instance (class_info ''builtins'' ''tuple'' [''T''])
                   [AnyType from_omitted_generics None] False None))),
      start_state)
   \<and> try_analyze_special_unbound_type sample_env (methods_at 0 sample_env)
       (UnboundType ''Tuple'' [] False True None None) ''typing.Tuple'' start_state =
     (Inr (Some (TupleType [] (Instance (class_info ''builtins'' ''tuple'' [''T''])
                   [AnyType special_form None] False None) False)),
      start_state)"
proof -
  let ?sym = "node_symbol (TypeInfoNode (class_info ''builtins'' ''tuple'' [''T'']))"
  note a = tuple_without_arguments [where e = sample_env and symb = ?sym and tsym = ?sym
      and tinfo = "class_info ''builtins'' ''tuple'' [''T'']" and self = "methods_at 0 sample_env"
      and nm = "''Tuple''" and opt = False and ose = None and osf = None and s = start_state]
  show ?thesis
    using a by (simp add: sample_defs isinstance_PlaceholderNode_def)
qed



text \<open>
  Claim C8. The class variable qualifier first reports
  \<open>Invalid type: ClassVar nested inside other type\<close> whenever the nesting level is above
  zero. Without an argument it is the unknown type from omitted generics; with two or more
  arguments it reports an error and is the unknown type that marks an error; with one
  argument whose analysis returns, it reports \<open>ClassVar cannot be generic\<close> and is the
  unknown type that marks an error when the analysed argument is a type variable or
  contains one, and is the analysed argument otherwise. It is the handler of the name
  \<open>typing.ClassVar\<close>, and every nested analysis runs the visit with the nesting level raised
  by one and lowers it again afterwards.
\<close>

theorem classvar_rules:
  "(let s0 = (if nesting_level s > 0
              then s\<lparr>events := events s
                        @ [Fail ''Invalid type: ClassVar nested inside other type'' None]\<rparr>
              else s)
    in (args t = [] \<longrightarrow>
          analyze_ClassVar e self t s = (Inr (AnyType from_omitted_generics None), s0))
     \<and> (2 \<le> length (args t) \<longrightarrow>
          analyze_ClassVar e self t s =
            (Inr (AnyType from_error None),
             s0\<lparr>events := events s0
                   @ [Fail ''ClassVar[...] must have at most one type argument'' None]\<rparr>))
     \<and> (args t = [a] \<and> anal_type self a True s0 = (Inr it, s1)
          \<and> (isinstance_TypeVarType it \<or> get_type_vars e it \<noteq> []) \<longrightarrow>
          analyze_ClassVar e self t s =
            (Inr (AnyType from_error None),
             s1\<lparr>events := events s1 @ [Fail ''Invalid type: ClassVar cannot be generic'' None]\<rparr>))
     \<and> (args t = [a] \<and> anal_type self a True s0 = (Inr it, s1)
          \<and> \<not> (isinstance_TypeVarType it \<or> get_type_vars e it \<noteq> []) \<longrightarrow>
          analyze_ClassVar e self t s = (Inr it, s1)))
   \<and> try_analyze_special_unbound_type e self t ''typing.ClassVar''
       = bnd (analyze_ClassVar e self t) (\<lambda>r. ret (Some r))
   \<and> anal_type self t True s =
       (case accept self t (s\<lparr>nesting_level := nesting_level s + 1\<rparr>) of
          (r, s') \<Rightarrow> (r, s'\<lparr>nesting_level := nesting_level s' - 1\<rparr>))"
  by (auto simp: analyze_ClassVar_def try_analyze_special_unbound_type_def anal_type_def
      Let_def monad_defs)

text \<open>
  Witness for C8: the qualifier without argument at nesting level one, with two arguments,
  with a type variable as argument, and with the none type as argument.
\<close>

theorem classvar_rules_witness:
  "analyze_ClassVar sample_env (methods_at (Suc 0) sample_env) (unbound ''ClassVar'' [])
       (start_state\<lparr>nesting_level := 1\<rparr>)
     = (Inr (AnyType from_omitted_generics None),
        start_state\<lparr>nesting_level := 1,
          events := [Fail ''Invalid type: ClassVar nested inside other type'' None]\<rparr>)
   \<and> analyze_ClassVar sample_env (methods_at (Suc 0) sample_env)
       (unbound ''ClassVar'' [NoneType, NoneType]) start_state
     = (Inr (AnyType from_error None),
        start_state\<lparr>events :=
          [Fail ''ClassVar[...] must have at most one type argument'' None]\<rparr>)
   \<and> analyze_ClassVar sample_env (methods_at (Suc 0) sample_env)
       (unbound ''ClassVar'' [TypeVarType (TypeVarDef ''T'' ''m.T'' 1 [] NoneType 0)]) start_state
     = (Inr (AnyType from_error None),
        start_state\<lparr>events := [Fail ''Invalid type: ClassVar cannot be generic'' None]\<rparr>)
   \<and> analyze_ClassVar sample_env (methods_at (Suc 0) sample_env)
       (unbound ''ClassVar'' [NoneType]) start_state
     = (Inr NoneType, start_state)"
proof -
  let ?tv = "TypeVarType (TypeVarDef ''T'' ''m.T'' 1 [] NoneType 0)"
  have acc: "anal_type (methods_at (Suc 0) sample_env) x True start_state = (Inr x, start_state)"
    if "x = ?tv \<or> x = NoneType" for x
    using that by (auto simp: anal_type_def dispatch_def monad_defs start_state_def)
  note a = classvar_rules [where e = sample_env and self = "methods_at (Suc 0) sample_env"
      and t = "unbound ''ClassVar'' []" and s = "start_state\<lparr>nesting_level := 1\<rparr>", THEN conjunct1]
  note b = classvar_rules [where e = sample_env and self = "methods_at (Suc 0) sample_env"
      and t = "unbound ''ClassVar'' [NoneType, NoneType]" and s = start_state, THEN conjunct1]
  note c = classvar_rules [where e = sample_env and self = "methods_at (Suc 0) sample_env"
      and t = "unbound ''ClassVar'' [?tv]" and s = start_state and a = ?tv and it = ?tv
      and ?s1.0 = start_state, THEN conjunct1]
  note d = classvar_rules [where e = sample_env and self = "methods_at (Suc 0) sample_env"
      and t = "unbound ''ClassVar'' [NoneType]" and s = start_state and a = NoneType
      and it = NoneType and ?s1.0 = start_state, THEN conjunct1]
  have gtv: "get_type_vars sample_env NoneType = []"
    by (simp add: sample_env_def externals.extend_def env.fields_def)
  have st: "nesting_level start_state = 0" "events start_state = []"
    by (simp_all add: start_state_def)
  show ?thesis
    using a b c d
    by (simp add: Let_def unbound_def acc gtv st isinstance_TypeVarType_def
        del: methods_at.simps)
qed


text \<open>
  Claim C2, as amended. For every plain type expression, \<^verbatim>\<open>resolve\<close> returns a
  canonical type and does not raise, at every recursion depth above the size of the
  expression; its error paths for a bracketed list, a callable argument, an
  ellipsis and a raw expression give the unknown type that marks an error; and for a
  partial type it raises the assertion error \<open>Internal error: Unexpected partial type\<close>.
\<close>

theorem resolve_returns:
  "(plain_type e t \<and> size t < n \<longrightarrow> (\<exists>r s'. resolve n e t s = (Inr r, s')))
   \<and> fst (resolve (Suc n) e (TypeList its) s) = Inr (AnyType from_error None)
   \<and> fst (resolve (Suc n) e (CallableArgument a nm c) s) = Inr (AnyType from_error None)
   \<and> fst (resolve (Suc n) e EllipsisType s) = Inr (AnyType from_error None)
   \<and> fst (resolve (Suc n) e (RawExpressionType lv btn nt) s) = Inr (AnyType from_error None)
   \<and> resolve (Suc n) e PartialType s =
       (Inl (AssertionError ''Internal error: Unexpected partial type''), s)"
proof (intro conjI impI)
  assume "plain_type e t \<and> size t < n"
  then show "\<exists>r s'. resolve n e t s = (Inr r, s')"
    unfolding resolve_def by (intro accept_plain_returns) auto
next
  show "fst (resolve (Suc n) e (TypeList its) s) = Inr (AnyType from_error None)"
    by (simp add: resolve_def dispatch_def visit_type_list_def monad_defs)
next
  show "fst (resolve (Suc n) e (CallableArgument a nm c) s) = Inr (AnyType from_error None)"
    by (simp add: resolve_def dispatch_def visit_callable_argument_def monad_defs)
next
  show "fst (resolve (Suc n) e EllipsisType s) = Inr (AnyType from_error None)"
    by (simp add: resolve_def dispatch_def visit_ellipsis_type_def monad_defs)
next
  show "fst (resolve (Suc n) e (RawExpressionType lv btn nt) s) = Inr (AnyType from_error None)"
    by (simp add: resolve_def dispatch_def visit_raw_expression_type_def monad_defs Let_def
        split: option.split)
next
  show "resolve (Suc n) e PartialType s =
      (Inl (AssertionError ''Internal error: Unexpected partial type''), s)"
    by (simp add: resolve_def dispatch_def visit_partial_type_def raise_def)
qed

text \<open>
  Counterexample to C2 as stated: the analysis of a partial type raises.
\<close>

theorem resolve_returns_counterexample:
  "resolve (Suc 0) sample_env PartialType start_state =
     (Inl (AssertionError ''Internal error: Unexpected partial type''), start_state)"
  by (simp add: resolve_def dispatch_def visit_partial_type_def raise_def)

text \<open>
  Witness for C2: the signature \<^verbatim>\<open>(list[int], Optional[Fwd]) -> (str,)\<close>, written with a
  class with an argument, a union with a forward reference and a tuple, is a plain type
  expression in the sample symbol table and is smaller than the depth forty.
\<close>

theorem resolve_returns_witness:
  "\<exists>r s'. resolve 40 sample_env
            (CallableType
               [unbound ''list'' [unbound ''int'' []], UnionType [NoneType, unbound ''Fwd'' []]]
               [ARG_POS, ARG_POS] [None, None]
               (TupleType [unbound ''str'' []]
                  (Instance (class_info ''builtins'' ''tuple'' [''T'']) [] False None) False)
               (Instance (class_info ''builtins'' ''function'' []) [] False None) [] False)
            start_state
          = (Inr r, s')"
  apply (rule resolve_returns [where e = sample_env and n = 40 and s = start_state,
        THEN conjunct1, THEN mp])
  apply (simp add: sample_plain_names isinstance_StarType_def class_info_simps)
  apply (simp add: unbound_def)
  done


text \<open>
  Claim C9. The visit of a callable type restores the scope chain when it returns
  (\<open>visit_callable_type_returns\<close>), and not when the nested resolution raises: the
  context manager \<^verbatim>\<open>tvar_scope_frame\<close> has no \<^verbatim>\<open>try\<close> ... \<^verbatim>\<open>finally\<close> around its
  \<^verbatim>\<open>yield\<close>, unlike \<^verbatim>\<open>anal_type\<close>, which restores the nesting level on every path. For a
  callable type with a partial type among its argument types, for one that declares a type
  variable no symbol is bound to, and for one whose fallback is not filled in yet where
  \<^verbatim>\<open>builtins.function\<close> cannot be looked up, the visit raises and leaves the analyser with
  the pushed frame, which differs from the scope chain in effect before the visit; the
  nesting level is back at its value.
\<close>

theorem scope_frame_kept_on_raise:
  "visit_callable_type sample_env (methods_at (Suc 0) sample_env)
       (CallableType [PartialType] [ARG_POS] [None] NoneType
          (new_Instance (class_info ''builtins'' ''function'' []) []) [] False)
       True start_state
     = (Inl (AssertionError ''Internal error: Unexpected partial type''),
        start_state\<lparr>tvar_scope := method_frame (tvar_scope start_state)\<rparr>)
   \<and> visit_callable_type sample_env (methods_at 0 sample_env)
       (CallableType [] [] [] NoneType
          (new_Instance (class_info ''builtins'' ''function'' []) [])
          [TypeVarDef ''U'' ''m.U'' (- 1) [] NoneType 0] False)
       True start_state
     = (Inl (AssertionError ''Binding for function type variable not found within function''),
        start_state\<lparr>tvar_scope := method_frame (tvar_scope start_state)\<rparr>)
   \<and> visit_callable_type (sample_env\<lparr>lookup_fully_qualified := Map.empty\<rparr>)
       (methods_at (Suc 0) (sample_env\<lparr>lookup_fully_qualified := Map.empty\<rparr>))
       (CallableType [] [] [] NoneType
          (new_Instance ((class_info ''builtins'' ''function'' [])\<lparr>is_fake := True\<rparr>) [])
          [] False)
       True start_state
     = (Inl AttributeError,
        start_state\<lparr>tvar_scope := method_frame (tvar_scope start_state)\<rparr>)
   \<and> tvar_scope (start_state\<lparr>tvar_scope := method_frame (tvar_scope start_state)\<rparr>)
       \<noteq> tvar_scope start_state"
  apply (intro conjI)
     apply (simp add: visit_callable_type_def tvar_scope_frame_def bind_nothing anal_type_def
      dispatch_def visit_partial_type_def monad_defs Let_def sample_defs method_frame_def)
    apply (simp add: visit_callable_type_def tvar_scope_frame_def bind_function_type_variables_def
      monad_defs Let_def sample_defs method_frame_def)
   apply (simp add: visit_callable_type_def tvar_scope_frame_def bind_function_type_variables_none
      infer_no_arguments anal_type_def dispatch_def named_type_def new_Instance_def
      class_info_simps sample_env_fields monad_defs Let_def method_frame_def start_state_def)
  apply (simp add: start_state_def method_frame_def)
  done


text \<open>
  Claim C7, as amended. The literal form with at least one argument, all of them scalars
  with a value or strings, returns the union of their literal types, in order, and reports
  nothing. With the single argument a floating-point scalar it reports
  \<open>Parameter 1 of Literal[...] cannot be of type "float"\<close> and returns the unknown type that
  marks an error.
\<close>

theorem literal_type_rules:
  "(as \<noteq> [] \<and> list_all2 (is_literal_of e) as ls \<longrightarrow>
      analyze_literal_type e self (UnboundType nm as opt eti ose osf) s
        = (Inr (make_union e ls), s))
   \<and> (simple_name e btn = ''float'' \<longrightarrow>
      analyze_literal_type e self (UnboundType nm [RawExpressionType None btn nt] opt eti ose osf) s
        = (Inr (AnyType from_error None),
           s\<lparr>events := events s
                @ [Fail ''Parameter 1 of Literal[...] cannot be of type \"float\"'' None]\<rparr>))"
proof (intro conjI impI)
  assume "as \<noteq> [] \<and> list_all2 (is_literal_of e) as ls"
  then show "analyze_literal_type e self (UnboundType nm as opt eti ose osf) s
        = (Inr (make_union e ls), s)"
    using analyze_literal_loop_scalars [of e as ls self 0 "[]" s]
    by (simp add: analyze_literal_type_def)
next
  assume "simple_name e btn = ''float''"
  then show "analyze_literal_type e self
        (UnboundType nm [RawExpressionType None btn nt] opt eti ose osf) s
      = (Inr (AnyType from_error None),
         s\<lparr>events := events s
              @ [Fail ''Parameter 1 of Literal[...] cannot be of type \"float\"'' None]\<rparr>)"
    by (simp add: analyze_literal_type_def analyze_literal_param_def isinstance_UnboundType_def
        monad_defs Let_def str_nat_one)
qed


text \<open>
  Counterexample to C7 as stated: the diagnostic for \<^verbatim>\<open>Literal[1.5]\<close> is not the text
  \<open>floating point literals cannot be used as a type\<close>.
\<close>

theorem literal_type_counterexample:
  "analyze_literal_type sample_env (methods_at 0 sample_env)
       (unbound ''Literal'' [RawExpressionType None ''builtins.float'' None]) start_state
     = (Inr (AnyType from_error None),
        start_state\<lparr>events :=
          [Fail ''Parameter 1 of Literal[...] cannot be of type \"float\"'' None]\<rparr>)"
  by (simp add: analyze_literal_type_def analyze_literal_param_def isinstance_UnboundType_def
        monad_defs Let_def str_nat_one sample_defs)


text \<open>
  Witness for C7: \<^verbatim>\<open>Literal[1, 2, "x"]\<close> is a union of three literal types whose
  fallbacks are the classes \<^verbatim>\<open>int\<close>, \<^verbatim>\<open>int\<close> and \<^verbatim>\<open>str\<close>.
\<close>

theorem literal_type_rules_witness:
  "analyze_literal_type sample_env (methods_at 0 sample_env)
       (unbound ''Literal''
          [RawExpressionType (Some (LitInt 1)) ''builtins.int'' None,
           RawExpressionType (Some (LitInt 2)) ''builtins.int'' None,
           UnboundType ''x'' [] False False (Some ''x'') (Some ''builtins.str'')]) start_state
     = (Inr (UnionType
          [LiteralType (LitInt 1) (Instance (class_info ''builtins'' ''int'' []) [] False None),
           LiteralType (LitInt 2) (Instance (class_info ''builtins'' ''int'' []) [] False None),
           LiteralType (LitStr ''x'') (Instance (class_info ''builtins'' ''str'' []) [] False None)]),
        start_state)
   \<and> analyze_literal_type sample_env (methods_at 0 sample_env)
       (unbound ''Literal'' [RawExpressionType None ''builtins.float'' None]) start_state
     = (Inr (AnyType from_error None),
        start_state\<lparr>events :=
          [Fail ''Parameter 1 of Literal[...] cannot be of type \"float\"'' None]\<rparr>)"
proof -
  let ?int = "Instance (class_info ''builtins'' ''int'' []) [] False None"
  let ?str = "Instance (class_info ''builtins'' ''str'' []) [] False None"
  have mu: "make_union sample_env = UnionType"
    by (simp add: sample_env_def externals.extend_def env.fields_def)
  have sn: "simple_name sample_env ''builtins.float'' = ''float''"
    by (simp add: sample_env_def sample_externals_def externals.extend_def env.fields_def)
  have ev: "events start_state = []"
    by (simp add: start_state_def)
  note a = literal_type_rules [where e = sample_env and self = "methods_at 0 sample_env"
      and nm = "''Literal''" and opt = False and eti = False and ose = None and osf = None
      and s = start_state
      and as = "[RawExpressionType (Some (LitInt 1)) ''builtins.int'' None,
           RawExpressionType (Some (LitInt 2)) ''builtins.int'' None,
           UnboundType ''x'' [] False False (Some ''x'') (Some ''builtins.str'')]"
      and ls = "[LiteralType (LitInt 1) ?int, LiteralType (LitInt 2) ?int,
                 LiteralType (LitStr ''x'') ?str]"
      and btn = "''builtins.float''" and nt = None]
  show ?thesis
    using a by (simp add: unbound_def is_literal_of_def sample_named_type mu sn ev)
qed


text \<open>
  Claim C6. Where \<^verbatim>\<open>builtins.function\<close> is a class, the callable form gives: with no
  argument, at every depth from two, the callable that accepts arbitrary arguments and
  returns the unknown type; with a bracketed list whose entries all have a kind and a
  second argument, the visit of the callable type with these entries, their kinds and
  names and the second argument as return type; with an ellipsis and a second argument,
  the visit of the callable type that accepts arbitrary arguments with the second argument
  as return type; with any other number of arguments, an error and the unknown type that
  marks an error. The visit of a callable type keeps the kinds, the names and the
  arbitrary-arguments flag, and its return type is the analysed return type. A plain type
  has the kind of a required positional argument and a \<^verbatim>\<open>DefaultArg\<close> entry that of an
  optional positional argument. The special form \<^verbatim>\<open>typing.Callable\<close> is analysed this way.
\<close>

theorem callable_type_rules:
  "(lookup_fully_qualified e ''builtins.function'' = Some fsym
      \<and> node fsym = Some (TypeInfoNode finfo)
      \<and> fb = new_Instance finfo
                (replicate (length (defn_type_vars finfo)) (AnyType special_form None)) \<longrightarrow>
      analyze_callable_type e (methods_at (Suc (Suc n)) e) (UnboundType nm [] opt eti ose osf) s
        = (let strict = (\<not> is_typeshed_stub e \<and> disallow_any_generics e);
               unknown = AnyType (if strict then from_error else from_omitted_generics) None
           in (Inr (CallableType [unknown, unknown] [ARG_STAR, ARG_STAR2] [None, None] unknown
                      fb [] True),
               s\<lparr>events := events s
                    @ (if strict
                       then [Fail (BARE_GENERIC e (quote_type_string e nm)) (Some TYPE_ARG)]
                       else [])\<rparr>))
      \<and> (list_all2 (\<lambda>it k. entry_kind e it = Some k) its ks \<longrightarrow>
           analyze_callable_type e (methods_at (Suc n) e)
               (UnboundType nm [TypeList its, rt] opt eti ose osf) s
             = visit_callable_type e (methods_at n e)
                 (CallableType (map entry_type its) ks (map entry_name its) rt fb [] False) True
                 (s\<lparr>events := events s @ check_arg_names e (map entry_name its)
                                @ check_arg_kinds e ks\<rparr>))
      \<and> analyze_callable_type e (methods_at (Suc n) e)
             (UnboundType nm [EllipsisType, rt] opt eti ose osf) s
           = visit_callable_type e (methods_at n e)
               (CallableType [AnyType explicit None, AnyType explicit None]
                  [ARG_STAR, ARG_STAR2] [None, None] rt fb [] True) True s
      \<and> (length as \<noteq> 0 \<and> length as \<noteq> 2 \<longrightarrow>
           analyze_callable_type e self (UnboundType nm as opt eti ose osf) s
             = (Inr (AnyType from_error None),
                s\<lparr>events := events s
                     @ [Fail ''Please use \"Callable[[<parameters>], <return type>]\" or \"Callable\"''
                          None]\<rparr>)))
   \<and> (visit_callable_type e self (CallableType ats ks ns rt fb vs ell) nested s = (Inr r, s') \<longrightarrow>
        (\<exists>ats' rt' fb' vs'. r = CallableType ats' ks ns rt' fb' vs' ell
           \<and> length ats' = length ats
           \<and> (\<exists>s1 s2. anal_type self rt nested s1 = (Inr rt', s2))))
   \<and> ((\<forall>ty an c. it \<noteq> CallableArgument ty an c) \<longrightarrow> entry_kind e it = Some ARG_POS)
   \<and> (lookup_qualified e c = Some found
        \<and> fullname found = Some ''mypy_extensions.DefaultArg'' \<longrightarrow>
        entry_kind e (CallableArgument ty an (Some c)) = Some ARG_OPT)
   \<and> try_analyze_special_unbound_type e self t ''typing.Callable''
        = bnd (analyze_callable_type e self t) (\<lambda>r. ret (Some r))"
proof (intro conjI impI)
  assume fn: "lookup_fully_qualified e ''builtins.function'' = Some fsym
      \<and> node fsym = Some (TypeInfoNode finfo)
      \<and> fb = new_Instance finfo
                (replicate (length (defn_type_vars finfo)) (AnyType special_form None))"
  then have nt: "named_type e ''builtins.function'' None s1 = (Inr fb, s1)" for s1
    by (simp add: named_type_found)
  show "analyze_callable_type e (methods_at (Suc (Suc n)) e) (UnboundType nm [] opt eti ose osf) s
        = (let strict = (\<not> is_typeshed_stub e \<and> disallow_any_generics e);
               unknown = AnyType (if strict then from_error else from_omitted_generics) None
           in (Inr (CallableType [unknown, unknown] [ARG_STAR, ARG_STAR2] [None, None] unknown
                      fb [] True),
               s\<lparr>events := events s
                    @ (if strict
                       then [Fail (BARE_GENERIC e (quote_type_string e nm)) (Some TYPE_ARG)]
                       else [])\<rparr>))"
    using fn
    by (simp add: analyze_callable_type_def nt self_get_omitted_any_def
        get_omitted_any_def Let_def accept_Suc dispatch_def monad_defs
        visit_callable_any [where e = e and fsym = fsym and finfo = finfo]
        del: methods_at.simps)
  show "analyze_callable_type e (methods_at (Suc n) e)
             (UnboundType nm [EllipsisType, rt] opt eti ose osf) s
           = visit_callable_type e (methods_at n e)
               (CallableType [AnyType explicit None, AnyType explicit None]
                  [ARG_STAR, ARG_STAR2] [None, None] rt fb [] True) True s"
    by (simp add: analyze_callable_type_def nt bnd_def Let_def accept_Suc dispatch_def
        del: methods_at.simps)
  {
    assume "list_all2 (\<lambda>it k. entry_kind e it = Some k) its ks"
    then have "analyze_callable_args_loop e its ([], [], []) s1
       = (Inr (Some (map entry_type its, ks, map entry_name its)), s1)" for s1
      using analyze_callable_args_loop_kinds [of e its ks "[]" "[]" "[]" s1] by simp
    then show "analyze_callable_type e (methods_at (Suc n) e)
               (UnboundType nm [TypeList its, rt] opt eti ose osf) s
             = visit_callable_type e (methods_at n e)
                 (CallableType (map entry_type its) ks (map entry_name its) rt fb [] False) True
                 (s\<lparr>events := events s @ check_arg_names e (map entry_name its)
                                @ check_arg_kinds e ks\<rparr>)"
      by (simp add: analyze_callable_type_def nt bnd_def analyze_callable_args_def Let_def
          accept_Suc dispatch_def monad_defs del: methods_at.simps)
  }
  {
    assume "length as \<noteq> 0 \<and> length as \<noteq> 2"
    then show "analyze_callable_type e self (UnboundType nm as opt eti ose osf) s
             = (Inr (AnyType from_error None),
                s\<lparr>events := events s
                     @ [Fail ''Please use \"Callable[[<parameters>], <return type>]\" or \"Callable\"''
                          None]\<rparr>)"
      by (simp add: analyze_callable_type_def nt bnd_def monad_defs)
  }
next
  assume "visit_callable_type e self (CallableType ats ks ns rt fb vs ell) nested s = (Inr r, s')"
  then show "\<exists>ats' rt' fb' vs'. r = CallableType ats' ks ns rt' fb' vs' ell
           \<and> length ats' = length ats
           \<and> (\<exists>s1 s2. anal_type self rt nested s1 = (Inr rt', s2))"
    by (rule visit_callable_type_shape)
next
  assume "\<forall>ty an c. it \<noteq> CallableArgument ty an c"
  then show "entry_kind e it = Some ARG_POS"
    by (cases it) (simp_all add: entry_kind_def)
next
  assume "lookup_qualified e c = Some found
        \<and> fullname found = Some ''mypy_extensions.DefaultArg''"
  then show "entry_kind e (CallableArgument ty an (Some c)) = Some ARG_OPT"
    by (simp add: entry_kind_def ARG_KINDS_BY_CONSTRUCTOR_def)
next
  show "try_analyze_special_unbound_type e self t ''typing.Callable''
        = bnd (analyze_callable_type e self t) (\<lambda>r. ret (Some r))"
    by (simp add: try_analyze_special_unbound_type_def)
qed



text \<open>
  Witness for C6: \<^verbatim>\<open>Callable\<close>, \<^verbatim>\<open>Callable[[int, DefaultArg(str)], bool]\<close>,
  \<^verbatim>\<open>Callable[..., bool]\<close> and \<^verbatim>\<open>Callable[int]\<close> in the sample symbol table.
\<close>

theorem callable_type_rules_witness:
  "analyze_callable_type sample_env (methods_at (Suc (Suc 0)) sample_env)
       (unbound ''Callable'' []) start_state
     = (Inr (CallableType
               [AnyType from_omitted_generics None, AnyType from_omitted_generics None]
               [ARG_STAR, ARG_STAR2] [None, None] (AnyType from_omitted_generics None)
               (Instance (class_info ''builtins'' ''function'' []) [] False None) [] True),
        start_state)
   \<and> analyze_callable_type sample_env (methods_at (Suc (Suc 0)) sample_env)
       (unbound ''Callable''
          [TypeList [unbound ''int'' [],
                     CallableArgument (unbound ''str'' []) None (Some ''DefaultArg'')],
           unbound ''bool'' []]) start_state
     = (Inr (CallableType
               [InstanceType (Instance (class_info ''builtins'' ''int'' []) [] False None),
                InstanceType (Instance (class_info ''builtins'' ''str'' []) [] False None)]
               [ARG_POS, ARG_OPT] [None, None]
               (InstanceType (Instance (class_info ''builtins'' ''bool'' []) [] False None))
               (Instance (class_info ''builtins'' ''function'' []) [] False None) [] False),
        start_state)
   \<and> analyze_callable_type sample_env (methods_at (Suc (Suc 0)) sample_env)
       (unbound ''Callable'' [EllipsisType, unbound ''bool'' []]) start_state
     = (Inr (CallableType [AnyType explicit None, AnyType explicit None]
               [ARG_STAR, ARG_STAR2] [None, None]
               (InstanceType (Instance (class_info ''builtins'' ''bool'' []) [] False None))
               (Instance (class_info ''builtins'' ''function'' []) [] False None) [] True),
        start_state)
   \<and> analyze_callable_type sample_env (methods_at (Suc (Suc 0)) sample_env)
       (unbound ''Callable'' [unbound ''int'' []]) start_state
     = (Inr (AnyType from_error None),
        start_state\<lparr>events :=
          [Fail ''Please use \"Callable[[<parameters>], <return type>]\" or \"Callable\"''
             None]\<rparr>)"
proof -
  let ?finfo = "class_info ''builtins'' ''function'' []"
  let ?fsym = "node_symbol (TypeInfoNode ?finfo)"
  let ?fn = "Instance ?finfo [] False None"
  let ?its = "[unbound ''int'' [],
               CallableArgument (unbound ''str'' []) None (Some ''DefaultArg'')]"
  have fn: "lookup_fully_qualified sample_env ''builtins.function'' = Some ?fsym
      \<and> node ?fsym = Some (TypeInfoNode ?finfo)
      \<and> ?fn = new_Instance ?finfo
                (replicate (length (defn_type_vars ?finfo)) (AnyType special_form None))"
    by (simp add: sample_function node_symbol_simps class_info_simps new_Instance_def)
  have kinds: "list_all2 (\<lambda>it k. entry_kind sample_env it = Some k) ?its [ARG_POS, ARG_OPT]"
    by (simp add: entry_kind_def unbound_def sample_default_arg node_symbol_simps
        node_fullname_def ARG_KINDS_BY_CONSTRUCTOR_def)
  have ev: "events start_state = []" "start_state\<lparr>events := []\<rparr> = start_state"
    by (simp_all add: start_state_def)
  note z = callable_type_rules [where e = sample_env and fsym = ?fsym and finfo = ?finfo
      and fb = ?fn and s = start_state and n = 0 and nm = "''Callable''" and opt = False
      and eti = False and ose = None and osf = None, THEN conjunct1, THEN mp, OF fn,
      THEN conjunct1]
  note r = callable_type_rules [where e = sample_env and fsym = ?fsym and finfo = ?finfo
      and fb = ?fn and s = start_state and n = "Suc 0" and nm = "''Callable''" and opt = False
      and eti = False and ose = None and osf = None and its = ?its and ks = "[ARG_POS, ARG_OPT]"
      and rt = "unbound ''bool'' []" and as = "[unbound ''int'' []]"
      and self = "methods_at (Suc (Suc 0)) sample_env",
      THEN conjunct1, THEN mp, OF fn, THEN conjunct2]
  note l = r [THEN conjunct1, THEN mp, OF kinds]
  note el = r [THEN conjunct2, THEN conjunct1]
  note o = r [THEN conjunct2, THEN conjunct2]
  show ?thesis
    apply (intro conjI)
    subgoal using z by (simp add: unbound_def sample_env_fields ev Let_def del: methods_at.simps)
    subgoal using l
      by (simp add: unbound_def [of "''Callable''"] sample_env_fields ev entry_unbound
          sample_callable_visit del: methods_at.simps)
    subgoal using el
      by (simp add: unbound_def [of "''Callable''"] sample_ellipsis_visit
          del: methods_at.simps)
    subgoal using o
      by (simp add: unbound_def [of "''Callable''"] ev del: methods_at.simps)
    done
qed

end
